theory Spec2Isabelle
  imports Complex_Main "HOL-Library.AList" "HOL-Library.Word"
begin

section \<open>Data model of the community store\<close>

text \<open>
  The store of \<^verbatim>\<open>src/server/community-store.ts\<close> (the Automerge version) keeps three
  module-level tables: the cache of documents, the per-peer sync states and the debounce
  timers. The model threads them through every function as one record, together with
  the parts of the runtime the functions touch: the files under the storage directory,
  the pending timeouts of the event loop and the clock.

  The outer tables are looked up by key only and are maps. The peers of one community
  are iterated in insertion order, so that table is an association list, updated with
  \<^const>\<open>AList.update\<close> (replace in place, or append) as a JavaScript \<^verbatim>\<open>Map\<close> does.

  Names are the source's. A field of a record carries a prefix where the bare name
  (\<^verbatim>\<open>name\<close>, \<^verbatim>\<open>slug\<close>, \<^verbatim>\<open>id\<close>, \<^verbatim>\<open>x\<close>) would capture a variable. The listing of communities,
  the routing of \<^verbatim>\<open>fetch\<close> and the static files take no part in what is proved here and
  are not modelled.
\<close>

type_synonym Uint8Array = "8 word list"

record CommunityMeta =
  meta_name :: string
  meta_slug :: string
  meta_createdAt :: string

record ShapeData =
  shape_type :: string
  shape_id :: string
  shape_x :: real
  shape_y :: real
  shape_width :: real
  shape_height :: real
  shape_rotation :: real
  shape_content :: "string option"
  shape_sourceId :: "string option"
  shape_targetId :: "string option"

text \<open>\<^verbatim>\<open>interface CommunityDoc\<close>: a legacy JSON record read from storage.\<close>

record CommunityDoc =
  doc_meta :: CommunityMeta
  doc_shapes :: "(string \<times> ShapeData) list"

text \<open>
  The mutable view \<^verbatim>\<open>d\<close> that \<^verbatim>\<open>Automerge.change\<close> hands to its callback. On a document
  fresh from \<^verbatim>\<open>Automerge.init()\<close> neither field exists yet.
\<close>

record draft =
  d_meta :: "CommunityMeta option"
  d_shapes :: "(string \<times> ShapeData) list option"

record 'ss PeerState =
  syncState :: 'ss
  lastActivity :: nat

text \<open>
  A pending timeout of the event loop. Every timeout of the store runs the same callback,
  the write of one community, so the closure is its slug.
\<close>

record timeout =
  t_id :: nat
  t_due :: nat
  t_slug :: string

record ('doc, 'ss) state =
  communities :: "string \<rightharpoonup> 'doc"
  peerSyncStates :: "string \<rightharpoonup> (string \<times> 'ss PeerState) list"
  saveTimers :: "string \<rightharpoonup> nat"
  files :: "string \<rightharpoonup> Uint8Array"
  timeouts :: "timeout list"
  nextTimer :: nat
  clock :: nat
  writes :: "(string \<times> Uint8Array) list"

text \<open>
  \<^const>\<open>files\<close> maps a path to the content of the file there; \<^const>\<open>clock\<close> is the time in
  milliseconds (\<^verbatim>\<open>Date.now()\<close>); \<^const>\<open>writes\<close> records every \<^verbatim>\<open>Bun.write\<close> in order.
\<close>

definition init_state :: "('doc, 'ss) state" where
  "init_state = \<lparr>communities = Map.empty, peerSyncStates = Map.empty,
     saveTimers = Map.empty, files = Map.empty, timeouts = [], nextTimer = 0,
     clock = 0, writes = []\<rparr>"

subsection \<open>JSON values\<close>

text \<open>
  What \<^verbatim>\<open>JSON.parse\<close> returns and \<^verbatim>\<open>JSON.stringify\<close> takes. An object is the list of its
  properties in their order. Numbers are only carried, never computed with.
\<close>

datatype json =
    JNull
  | JBool bool
  | JNum real
  | JStr string
  | JArr "json list"
  | JObj "(string \<times> json) list"

subsection \<open>What the store is built against\<close>

text \<open>
  The merge library and the runtime are outside the repository. Their operations are
  the fields of one record, and every function of the store takes it as its first
  argument. \<^verbatim>\<open>Automerge.load\<close> and \<^verbatim>\<open>Automerge.receiveSyncMessage\<close> read bytes that
  come from outside and may throw, as may \<^verbatim>\<open>file.json()\<close>: they return an option.
  The third component of \<^verbatim>\<open>receiveSyncMessage\<close> is the source's
  \<^verbatim>\<open>{ patches: Patch[] } | null\<close>. \<^verbatim>\<open>JSON.parse\<close> returns \<open>None\<close> where it throws.
  \<open>Uint8Array_from\<close> is \<^verbatim>\<open>new Uint8Array(array)\<close>, \<open>String_of\<close> the conversion of a value
  used as a property key, and \<open>ShapeData_of\<close> reads a received value through the
  interface \<^verbatim>\<open>ShapeData\<close>, which the source does by a cast.
\<close>

record ('doc, 'ss, 'p) env =
  STORAGE_DIR :: string
  am_init :: 'doc
  am_change :: "'doc \<Rightarrow> string \<Rightarrow> (draft \<Rightarrow> draft) \<Rightarrow> 'doc"
  am_load :: "Uint8Array \<Rightarrow> 'doc option"
  am_save :: "'doc \<Rightarrow> Uint8Array"
  am_initSyncState :: 'ss
  am_receiveSyncMessage ::
    "'doc \<Rightarrow> 'ss \<Rightarrow> Uint8Array \<Rightarrow> ('doc \<times> 'ss \<times> 'p list option) option"
  am_generateSyncMessage :: "'doc \<Rightarrow> 'ss \<Rightarrow> 'ss \<times> Uint8Array option"
  am_view :: "'doc \<Rightarrow> draft"
  file_json :: "Uint8Array \<Rightarrow> CommunityDoc option"
  toISOString :: "nat \<Rightarrow> string"
  JSON_parse :: "string \<Rightarrow> json option"
  JSON_stringify :: "json \<Rightarrow> string"
  Uint8Array_from :: "json list \<Rightarrow> Uint8Array"
  String_of :: "json \<Rightarrow> string"
  ShapeData_of :: "json \<Rightarrow> ShapeData"

definition binaryPath :: "('doc, 'ss, 'p) env \<Rightarrow> string \<Rightarrow> string" where
  "binaryPath E slug = STORAGE_DIR E @ ''/'' @ slug @ ''.automerge''"

definition jsonPath :: "('doc, 'ss, 'p) env \<Rightarrow> string \<Rightarrow> string" where
  "jsonPath E slug = STORAGE_DIR E @ ''/'' @ slug @ ''.json''"

section \<open>The debounced save and the event loop\<close>

definition clearTimeout :: "nat \<Rightarrow> ('doc, 'ss) state \<Rightarrow> ('doc, 'ss) state" where
  "clearTimeout t S = S\<lparr>timeouts := filter (\<lambda>x. t_id x \<noteq> t) (timeouts S)\<rparr>"

definition setTimeout :: "string \<Rightarrow> nat \<Rightarrow> ('doc, 'ss) state \<Rightarrow> ('doc, 'ss) state \<times> nat" where
  "setTimeout slug delay S =
     (S\<lparr>timeouts := timeouts S @ [\<lparr>t_id = nextTimer S, t_due = clock S + delay, t_slug = slug\<rparr>],
        nextTimer := Suc (nextTimer S)\<rparr>, nextTimer S)"

text \<open>
  \<^verbatim>\<open>saveCommunity\<close>: nothing for a slug that is not cached; otherwise the timer stored
  for the slug is cleared and a new one of 2000 ms is set and stored.
\<close>

definition saveCommunity ::
  "('doc, 'ss, 'p) env \<Rightarrow> string \<Rightarrow> ('doc, 'ss) state \<Rightarrow> ('doc, 'ss) state" where
  "saveCommunity E slug S =
     (case communities S slug of
        None \<Rightarrow> S
      | Some doc \<Rightarrow>
          (let S1 = (case saveTimers S slug of
                       Some existingTimer \<Rightarrow> clearTimeout existingTimer S
                     | None \<Rightarrow> S);
               (S2, timer) = setTimeout slug 2000 S1
           in S2\<lparr>saveTimers := (saveTimers S2)(slug \<mapsto> timer)\<rparr>))"

text \<open>
  The callback of the timer: it reads the cache when it runs, serializes what it finds
  there and writes the binary file.
\<close>

definition save_callback ::
  "('doc, 'ss, 'p) env \<Rightarrow> string \<Rightarrow> ('doc, 'ss) state \<Rightarrow> ('doc, 'ss) state" where
  "save_callback E slug S =
     (case communities S slug of
        None \<Rightarrow> S
      | Some currentDoc \<Rightarrow>
          (let binary = am_save E currentDoc;
               path = binaryPath E slug
           in S\<lparr>files := (files S)(path \<mapsto> binary),
                writes := writes S @ [(path, binary)]\<rparr>))"

text \<open>
  Time passes: the clock advances by \<open>d\<close> milliseconds and every timeout that is due by
  then leaves the pending list and runs, oldest first (all delays are equal, so the
  order of setting is the order of the deadlines).
\<close>

definition elapse ::
  "('doc, 'ss, 'p) env \<Rightarrow> nat \<Rightarrow> ('doc, 'ss) state \<Rightarrow> ('doc, 'ss) state" where
  "elapse E d S =
     (let t = clock S + d;
          due = filter (\<lambda>x. t_due x \<le> t) (timeouts S);
          rest = filter (\<lambda>x. \<not> t_due x \<le> t) (timeouts S)
      in fold (\<lambda>x. save_callback E (t_slug x)) due (S\<lparr>clock := t, timeouts := rest\<rparr>))"

section \<open>Loading, creating and changing documents\<close>

text \<open>
  The callbacks handed to \<^verbatim>\<open>Automerge.change\<close> are functions on the draft. The one of
  \<^verbatim>\<open>jsonToAutomerge\<close> copies the meta data and sets every entry of \<^verbatim>\<open>data.shapes || {}\<close> in
  turn; \<^verbatim>\<open>data\<close> has the type \<^verbatim>\<open>CommunityDoc\<close>, whose \<^verbatim>\<open>shapes\<close> is always there. In
  \<^verbatim>\<open>loadCommunity\<close> a binary file that is absent, or that \<^verbatim>\<open>Automerge.load\<close> throws on, leads
  to the JSON file; a JSON file that does not parse gives null. What the source prints
  with \<^verbatim>\<open>console.log\<close> and \<^verbatim>\<open>console.error\<close> is left out, and \<^verbatim>\<open>Bun.write\<close> is taken to
  succeed.
\<close>

definition import_mutator :: "CommunityDoc \<Rightarrow> draft \<Rightarrow> draft" where
  "import_mutator data d =
     d\<lparr>d_meta := Some (doc_meta data),
       d_shapes := Some (fold (\<lambda>(id, shape). AList.update id shape) (doc_shapes data) [])\<rparr>"

definition jsonToAutomerge :: "('doc, 'ss, 'p) env \<Rightarrow> CommunityDoc \<Rightarrow> 'doc" where
  "jsonToAutomerge E data =
     am_change E (am_init E) ''Import from JSON'' (import_mutator data)"

definition loadCommunity ::
  "('doc, 'ss, 'p) env \<Rightarrow> string \<Rightarrow> ('doc, 'ss) state \<Rightarrow> ('doc, 'ss) state \<times> 'doc option" where
  "loadCommunity E slug S =
     (case communities S slug of
        Some cached \<Rightarrow> (S, Some cached)
      | None \<Rightarrow>
          (case (case files S (binaryPath E slug) of
                   None \<Rightarrow> None
                 | Some buffer \<Rightarrow> am_load E buffer) of
             Some doc \<Rightarrow> (S\<lparr>communities := (communities S)(slug \<mapsto> doc)\<rparr>, Some doc)
           | None \<Rightarrow>
               (case files S (jsonPath E slug) of
                  None \<Rightarrow> (S, None)
                | Some content \<Rightarrow>
                    (case file_json E content of
                       None \<Rightarrow> (S, None)
                     | Some data \<Rightarrow>
                         (let doc = jsonToAutomerge E data;
                              S1 = S\<lparr>communities := (communities S)(slug \<mapsto> doc)\<rparr>
                          in (saveCommunity E slug S1, Some doc))))))"

definition create_mutator :: "string \<Rightarrow> string \<Rightarrow> string \<Rightarrow> draft \<Rightarrow> draft" where
  "create_mutator name slug created d =
     d\<lparr>d_meta := Some \<lparr>meta_name = name, meta_slug = slug, meta_createdAt = created\<rparr>,
       d_shapes := Some []\<rparr>"

definition createCommunity ::
  "('doc, 'ss, 'p) env \<Rightarrow> string \<Rightarrow> string \<Rightarrow> ('doc, 'ss) state \<Rightarrow> ('doc, 'ss) state \<times> 'doc" where
  "createCommunity E name slug S =
     (let doc = am_change E (am_init E) ''Create community''
                  (create_mutator name slug (toISOString E (clock S)));
          S1 = S\<lparr>communities := (communities S)(slug \<mapsto> doc)\<rparr>
      in (saveCommunity E slug S1, doc))"

definition communityExists :: "('doc, 'ss, 'p) env \<Rightarrow> string \<Rightarrow> ('doc, 'ss) state \<Rightarrow> bool" where
  "communityExists E slug S =
     (if communities S slug \<noteq> None then True
      else files S (binaryPath E slug) \<noteq> None \<or> files S (jsonPath E slug) \<noteq> None)"

definition getDocumentData ::
  "('doc, 'ss, 'p) env \<Rightarrow> string \<Rightarrow> ('doc, 'ss) state \<Rightarrow> draft option" where
  "getDocumentData E slug S =
     (case communities S slug of None \<Rightarrow> None | Some doc \<Rightarrow> Some (am_view E doc))"

definition update_mutator :: "string \<Rightarrow> ShapeData \<Rightarrow> draft \<Rightarrow> draft" where
  "update_mutator shapeId data d =
     (let shapes = (case d_shapes d of None \<Rightarrow> [] | Some s \<Rightarrow> s)
      in d\<lparr>d_shapes := Some (AList.update shapeId data shapes)\<rparr>)"

definition delete_mutator :: "string \<Rightarrow> draft \<Rightarrow> draft" where
  "delete_mutator shapeId d =
     (case d_shapes d of
        None \<Rightarrow> d
      | Some shapes \<Rightarrow>
          (if map_of shapes shapeId \<noteq> None
           then d\<lparr>d_shapes := Some (AList.delete shapeId shapes)\<rparr>
           else d))"

definition updateShape ::
  "('doc, 'ss, 'p) env \<Rightarrow> string \<Rightarrow> string \<Rightarrow> ShapeData \<Rightarrow> ('doc, 'ss) state \<Rightarrow> ('doc, 'ss) state" where
  "updateShape E slug shapeId data S =
     (case communities S slug of
        None \<Rightarrow> S
      | Some doc \<Rightarrow>
          (let newDoc = am_change E doc (''Update shape '' @ shapeId) (update_mutator shapeId data)
           in saveCommunity E slug (S\<lparr>communities := (communities S)(slug \<mapsto> newDoc)\<rparr>)))"

definition deleteShape ::
  "('doc, 'ss, 'p) env \<Rightarrow> string \<Rightarrow> string \<Rightarrow> ('doc, 'ss) state \<Rightarrow> ('doc, 'ss) state" where
  "deleteShape E slug shapeId S =
     (case communities S slug of
        None \<Rightarrow> S
      | Some doc \<Rightarrow>
          (let newDoc = am_change E doc (''Delete shape '' @ shapeId) (delete_mutator shapeId)
           in saveCommunity E slug (S\<lparr>communities := (communities S)(slug \<mapsto> newDoc)\<rparr>)))"

section \<open>The peer sync-state table\<close>

text \<open>
  \<^verbatim>\<open>getPeerSyncState\<close> returns the object stored in the table, and its callers assign to
  the \<^verbatim>\<open>syncState\<close> field of that object. The model returns the value and the callers
  write the field back with \<open>set_syncState\<close>.
\<close>

definition getPeerSyncState ::
  "('doc, 'ss, 'p) env \<Rightarrow> string \<Rightarrow> string \<Rightarrow> ('doc, 'ss) state
     \<Rightarrow> ('doc, 'ss) state \<times> 'ss PeerState" where
  "getPeerSyncState E slug peerId S =
     (let communityPeers = (case peerSyncStates S slug of None \<Rightarrow> [] | Some ps \<Rightarrow> ps);
          stored = (case map_of communityPeers peerId of
                      None \<Rightarrow> \<lparr>syncState = am_initSyncState E, lastActivity = clock S\<rparr>
                    | Some st \<Rightarrow> st);
          peerState = stored\<lparr>lastActivity := clock S\<rparr>
      in (S\<lparr>peerSyncStates :=
              (peerSyncStates S)(slug \<mapsto> AList.update peerId peerState communityPeers)\<rparr>,
          peerState))"

definition set_syncState ::
  "string \<Rightarrow> string \<Rightarrow> 'ss \<Rightarrow> ('doc, 'ss) state \<Rightarrow> ('doc, 'ss) state" where
  "set_syncState slug peerId ss S =
     (case peerSyncStates S slug of
        None \<Rightarrow> S
      | Some communityPeers \<Rightarrow>
          S\<lparr>peerSyncStates := (peerSyncStates S)(slug \<mapsto>
              map (\<lambda>(p, st). if p = peerId then (p, st\<lparr>syncState := ss\<rparr>) else (p, st))
                communityPeers)\<rparr>)"

definition removePeerSyncState ::
  "string \<Rightarrow> string \<Rightarrow> ('doc, 'ss) state \<Rightarrow> ('doc, 'ss) state" where
  "removePeerSyncState slug peerId S =
     (case peerSyncStates S slug of
        None \<Rightarrow> S
      | Some communityPeers \<Rightarrow>
          (let remaining = AList.delete peerId communityPeers
           in if length remaining = 0
              then S\<lparr>peerSyncStates := (peerSyncStates S)(slug := None)\<rparr>
              else S\<lparr>peerSyncStates := (peerSyncStates S)(slug \<mapsto> remaining)\<rparr>))"

definition getCommunityPeers :: "string \<Rightarrow> ('doc, 'ss) state \<Rightarrow> string list" where
  "getCommunityPeers slug S =
     (case peerSyncStates S slug of None \<Rightarrow> [] | Some communityPeers \<Rightarrow> map fst communityPeers)"

section \<open>Sync reconciliation\<close>

text \<open>
  The loop over the peers of the community in \<^verbatim>\<open>receiveSyncMessage\<close>: every peer but the
  sender gets a message generated from its own sync state, which is advanced; a message
  that is not null is collected for the peer.
\<close>

fun broadcast_loop ::
  "('doc, 'ss, 'p) env \<Rightarrow> 'doc \<Rightarrow> string \<Rightarrow> (string \<times> 'ss PeerState) list
     \<Rightarrow> (string \<times> 'ss PeerState) list \<times> (string \<times> Uint8Array) list" where
  "broadcast_loop E newDoc peerId [] = ([], [])"
| "broadcast_loop E newDoc peerId ((otherPeerId, otherPeerState) # rest) =
     (if otherPeerId \<noteq> peerId
      then (let (newOtherSyncState, otherMessage) =
                  am_generateSyncMessage E newDoc (syncState otherPeerState);
                (rest', broadcastToPeers) = broadcast_loop E newDoc peerId rest
            in ((otherPeerId, otherPeerState\<lparr>syncState := newOtherSyncState\<rparr>) # rest',
                (case otherMessage of
                   None \<Rightarrow> broadcastToPeers
                 | Some m \<Rightarrow> (otherPeerId, m) # broadcastToPeers)))
      else (let (rest', broadcastToPeers) = broadcast_loop E newDoc peerId rest
            in ((otherPeerId, otherPeerState) # rest', broadcastToPeers)))"

text \<open>The test \<^verbatim>\<open>patch && patch.patches && patch.patches.length > 0\<close>.\<close>

definition has_patches :: "'p list option \<Rightarrow> bool" where
  "has_patches patch = (case patch of None \<Rightarrow> False | Some patches \<Rightarrow> length patches > 0)"

datatype error = AutomergeError

record sync_result =
  response :: "Uint8Array option"
  broadcastToPeers :: "(string \<times> Uint8Array) list"

text \<open>
  \<^verbatim>\<open>receiveSyncMessage\<close>. When the library throws on the message, the peer's entry has
  already been made by \<^verbatim>\<open>getPeerSyncState\<close>, and that state is what remains.
\<close>

definition receiveSyncMessage ::
  "('doc, 'ss, 'p) env \<Rightarrow> string \<Rightarrow> string \<Rightarrow> Uint8Array \<Rightarrow> ('doc, 'ss) state
     \<Rightarrow> ('doc, 'ss) state \<times> (error + sync_result)" where
  "receiveSyncMessage E slug peerId message S =
     (case communities S slug of
        None \<Rightarrow> (S, Inr \<lparr>response = None, broadcastToPeers = []\<rparr>)
      | Some doc \<Rightarrow>
          (let (S1, peerState) = getPeerSyncState E slug peerId S
           in case am_receiveSyncMessage E doc (syncState peerState) message of
                None \<Rightarrow> (S1, Inl AutomergeError)
              | Some (newDoc, newSyncState, patch) \<Rightarrow>
                  (let S2 = S1\<lparr>communities := (communities S1)(slug \<mapsto> newDoc)\<rparr>;
                       S3 = set_syncState slug peerId newSyncState S2;
                       hasPatches = has_patches patch;
                       S4 = (if hasPatches then saveCommunity E slug S3 else S3);
                       (nextSyncState, responseMessage) =
                          am_generateSyncMessage E newDoc newSyncState;
                       S5 = set_syncState slug peerId nextSyncState S4
                   in case peerSyncStates S5 slug of
                        None \<Rightarrow> (S5, Inr \<lparr>response = responseMessage, broadcastToPeers = []\<rparr>)
                      | Some communityPeers \<Rightarrow>
                          (if hasPatches
                           then (let (communityPeers', bc) =
                                       broadcast_loop E newDoc peerId communityPeers
                                 in (S5\<lparr>peerSyncStates :=
                                          (peerSyncStates S5)(slug \<mapsto> communityPeers')\<rparr>,
                                     Inr \<lparr>response = responseMessage, broadcastToPeers = bc\<rparr>))
                           else (S5, Inr \<lparr>response = responseMessage,
                                           broadcastToPeers = []\<rparr>)))))"

definition generateSyncMessageForPeer ::
  "('doc, 'ss, 'p) env \<Rightarrow> string \<Rightarrow> string \<Rightarrow> ('doc, 'ss) state
     \<Rightarrow> ('doc, 'ss) state \<times> Uint8Array option" where
  "generateSyncMessageForPeer E slug peerId S =
     (case communities S slug of
        None \<Rightarrow> (S, None)
      | Some doc \<Rightarrow>
          (let (S1, peerState) = getPeerSyncState E slug peerId S;
               (newSyncState, message) = am_generateSyncMessage E doc (syncState peerState)
           in (set_syncState slug peerId newSyncState S1, message)))"

section \<open>Runs of the store\<close>

text \<open>
  A run is a sequence of calls of the exported functions, with time passing in between.
  The states of the store are the states a run reaches from the state at start.
\<close>

datatype event =
    Elapse nat
  | LoadCommunity string
  | SaveCommunity string
  | CreateCommunity string string
  | GetPeerSyncState string string
  | RemovePeerSyncState string string
  | ReceiveSyncMessage string string Uint8Array
  | GenerateSyncMessageForPeer string string
  | UpdateShape string string ShapeData
  | DeleteShape string string

fun exec :: "('doc, 'ss, 'p) env \<Rightarrow> event \<Rightarrow> ('doc, 'ss) state \<Rightarrow> ('doc, 'ss) state" where
  "exec E (Elapse d) S = elapse E d S"
| "exec E (LoadCommunity slug) S = fst (loadCommunity E slug S)"
| "exec E (SaveCommunity slug) S = saveCommunity E slug S"
| "exec E (CreateCommunity name slug) S = fst (createCommunity E name slug S)"
| "exec E (GetPeerSyncState slug peerId) S = fst (getPeerSyncState E slug peerId S)"
| "exec E (RemovePeerSyncState slug peerId) S = removePeerSyncState slug peerId S"
| "exec E (ReceiveSyncMessage slug peerId message) S =
     fst (receiveSyncMessage E slug peerId message S)"
| "exec E (GenerateSyncMessageForPeer slug peerId) S =
     fst (generateSyncMessageForPeer E slug peerId S)"
| "exec E (UpdateShape slug shapeId data) S = updateShape E slug shapeId data S"
| "exec E (DeleteShape slug shapeId) S = deleteShape E slug shapeId S"

definition run :: "('doc, 'ss, 'p) env \<Rightarrow> event list \<Rightarrow> ('doc, 'ss) state \<Rightarrow> ('doc, 'ss) state" where
  "run E evs S = fold (exec E) evs S"

text \<open>The process starts with empty tables, whatever files the storage directory holds.\<close>

definition boot :: "(string \<rightharpoonup> Uint8Array) \<Rightarrow> ('doc, 'ss) state" where
  "boot fs = init_state\<lparr>files := fs\<rparr>"

section \<open>The HTTP API\<close>

text \<open>
  \<^verbatim>\<open>handleAPI\<close> of the server (\<^verbatim>\<open>src/unnamed/part_005\<close>). A request is its method, the
  path of its URL and what \<^verbatim>\<open>req.json()\<close> gives, read as \<^verbatim>\<open>{ name?: string; slug?: string }\<close>;
  \<open>None\<close> there stands for a body that makes \<^verbatim>\<open>req.json()\<close> or the destructuring throw.
  Each handler runs as one step: the interleaving of two requests at an \<^verbatim>\<open>await\<close> is not
  part of the model.
\<close>

record create_body =
  body_name :: "string option"
  body_slug :: "string option"

record request =
  req_method :: string
  req_pathname :: string
  req_json :: "create_body option"

record response_t =
  status :: nat
  body :: "json option"
  headers :: "(string \<times> string) list"

definition corsHeaders :: "(string \<times> string) list" where
  "corsHeaders =
     [(''Access-Control-Allow-Origin'', ''*''),
      (''Access-Control-Allow-Methods'', ''GET, POST, OPTIONS''),
      (''Access-Control-Allow-Headers'', ''Content-Type'')]"

definition json_response :: "nat \<Rightarrow> json \<Rightarrow> response_t" where
  "json_response st b = \<lparr>status = st, body = Some b, headers = corsHeaders\<rparr>"

definition error_response :: "nat \<Rightarrow> string \<Rightarrow> response_t" where
  "error_response st msg = json_response st (JObj [(''error'', JStr msg)])"

text \<open>The test of the regular expression \<^verbatim>\<open>/^[a-z0-9-]+$/\<close>.\<close>

definition slug_char :: "char \<Rightarrow> bool" where
  "slug_char c = (c \<in> set ''abcdefghijklmnopqrstuvwxyz0123456789-'')"

definition slug_valid :: "string \<Rightarrow> bool" where
  "slug_valid slug = (slug \<noteq> [] \<and> list_all slug_char slug)"

fun split_on :: "char \<Rightarrow> string \<Rightarrow> string list" where
  "split_on c [] = [[]]"
| "split_on c (x # xs) =
     (if x = c then [] # split_on c xs
      else (case split_on c xs of
              [] \<Rightarrow> [[x]]
            | w # ws \<Rightarrow> (x # w) # ws))"

definition startsWith :: "string \<Rightarrow> string \<Rightarrow> bool" where
  "startsWith s p = (take (length p) s = p)"

definition meta_json :: "CommunityMeta \<Rightarrow> json" where
  "meta_json m =
     JObj [(''name'', JStr (meta_name m)), (''slug'', JStr (meta_slug m)),
           (''createdAt'', JStr (meta_createdAt m))]"

definition meta_response :: "draft \<Rightarrow> response_t" where
  "meta_response data =
     json_response 200
       (JObj (case d_meta data of None \<Rightarrow> [] | Some m \<Rightarrow> [(''meta'', meta_json m)]))"

definition handleAPI ::
  "('doc, 'ss, 'p) env \<Rightarrow> request \<Rightarrow> ('doc, 'ss) state \<Rightarrow> ('doc, 'ss) state \<times> response_t" where
  "handleAPI E req S =
     (if req_method req = ''OPTIONS''
      then (S, \<lparr>status = 200, body = None, headers = corsHeaders\<rparr>)
      else if req_pathname req = ''/api/communities'' \<and> req_method req = ''POST''
      then (case req_json req of
              None \<Rightarrow> (S, error_response 500 ''Failed to create community'')
            | Some b \<Rightarrow>
                (case (body_name b, body_slug b) of
                   (Some name, Some slug) \<Rightarrow>
                     (if name = [] \<or> slug = []
                      then (S, error_response 400 ''Name and slug are required'')
                      else if \<not> slug_valid slug
                      then (S, error_response 400
                              ''Slug must contain only lowercase letters, numbers, and hyphens'')
                      else if communityExists E slug S
                      then (S, error_response 409 ''Community already exists'')
                      else (fst (createCommunity E name slug S),
                            json_response 200
                              (JObj [(''url'', JStr (''https://'' @ slug @ ''.rspace.online'')),
                                     (''slug'', JStr slug), (''name'', JStr name)])))
                 | _ \<Rightarrow> (S, error_response 400 ''Name and slug are required'')))
      else if startsWith (req_pathname req) ''/api/communities/'' \<and> req_method req = ''GET''
      then (let slug = (case drop 3 (split_on CHR ''/'' (req_pathname req)) of
                          [] \<Rightarrow> ''undefined''
                        | x # _ \<Rightarrow> x)
            in case getDocumentData E slug S of
                 Some data \<Rightarrow> (S, meta_response data)
               | None \<Rightarrow>
                   (let S1 = fst (loadCommunity E slug S)
                    in case getDocumentData E slug S1 of
                         None \<Rightarrow> (S1, error_response 404 ''Community not found'')
                       | Some loadedData \<Rightarrow> (S1, meta_response loadedData)))
      else (S, error_response 404 ''Not found''))"

section \<open>The WebSocket relay\<close>

text \<open>
  A connection is the value of its \<^verbatim>\<open>ws.data\<close> with a number for the identity of the
  socket object. Its \<^verbatim>\<open>readyState\<close> belongs to the runtime and is read from the state of
  the server; \<open>sent\<close> records every \<^verbatim>\<open>send\<close> with the socket it was called on.
\<close>

record ws =
  ws_handle :: nat
  communitySlug :: string
  ws_peerId :: string

datatype readyState_t = CONNECTING | OPEN | CLOSING | CLOSED

record ('doc, 'ss) server =
  store :: "('doc, 'ss) state"
  communityClients :: "string \<rightharpoonup> (string \<times> ws) list"
  readyState :: "ws \<Rightarrow> readyState_t"
  sent :: "(ws \<times> string) list"

definition send :: "ws \<Rightarrow> string \<Rightarrow> ('doc, 'ss) server \<Rightarrow> ('doc, 'ss) server" where
  "send w payload V = V\<lparr>sent := sent V @ [(w, payload)]\<rparr>"

definition getClient :: "string \<Rightarrow> string \<Rightarrow> ('doc, 'ss) server \<Rightarrow> ws option" where
  "getClient slug peerId V =
     (case communityClients V slug of None \<Rightarrow> None | Some clients \<Rightarrow> map_of clients peerId)"

text \<open>Reading a property of a value that is not null; \<open>None\<close> is \<^verbatim>\<open>undefined\<close>.\<close>

fun get_prop :: "json \<Rightarrow> string \<Rightarrow> json option" where
  "get_prop (JObj fs) k = map_of fs k"
| "get_prop _ k = None"

fun truthy :: "json option \<Rightarrow> bool" where
  "truthy None = False"
| "truthy (Some JNull) = False"
| "truthy (Some (JBool b)) = b"
| "truthy (Some (JNum r)) = (r \<noteq> 0)"
| "truthy (Some (JStr s)) = (s \<noteq> [])"
| "truthy (Some (JArr xs)) = True"
| "truthy (Some (JObj fs)) = True"

text \<open>
  An object literal as \<^verbatim>\<open>JSON.stringify\<close> sees it: a property whose value is undefined
  is left out. \<open>spread\<close> is \<^verbatim>\<open>{ ...base, ...msg }\<close>: a property of \<open>msg\<close> replaces one of
  the same name and is appended otherwise.
\<close>

definition obj :: "(string \<times> json option) list \<Rightarrow> json" where
  "obj fs = JObj (concat (map (\<lambda>(k, v). case v of None \<Rightarrow> [] | Some x \<Rightarrow> [(k, x)]) fs))"

definition spread :: "(string \<times> json) list \<Rightarrow> json \<Rightarrow> (string \<times> json) list" where
  "spread base msg =
     (case msg of
        JObj fs \<Rightarrow> fold (\<lambda>(k, v). AList.update k v) fs base
      | _ \<Rightarrow> base)"

definition sync_payload :: "('doc, 'ss, 'p) env \<Rightarrow> Uint8Array \<Rightarrow> string" where
  "sync_payload E bytes =
     JSON_stringify E
       (JObj [(''type'', JStr ''sync''), (''data'', JArr (map (\<lambda>b. JNum (real (unat b))) bytes))])"

text \<open>The loop that sends a payload to every other client of the community that is open.\<close>

definition send_others ::
  "string \<Rightarrow> string \<Rightarrow> (string \<times> ws) list \<Rightarrow> ('doc, 'ss) server \<Rightarrow> ('doc, 'ss) server" where
  "send_others peerId payload clients V =
     fold (\<lambda>(clientPeerId, client) V'.
             if clientPeerId \<noteq> peerId \<and> readyState V' client = OPEN
             then send client payload V' else V')
       clients V"

definition broadcast_others ::
  "string \<Rightarrow> string \<Rightarrow> string \<Rightarrow> ('doc, 'ss) server \<Rightarrow> ('doc, 'ss) server" where
  "broadcast_others slug peerId payload V =
     (case communityClients V slug of
        None \<Rightarrow> V
      | Some clients \<Rightarrow> send_others peerId payload clients V)"

definition send_targets ::
  "('doc, 'ss, 'p) env \<Rightarrow> string \<Rightarrow> (string \<times> Uint8Array) list
     \<Rightarrow> ('doc, 'ss) server \<Rightarrow> ('doc, 'ss) server" where
  "send_targets E slug bc V =
     fold (\<lambda>(targetPeerId, targetMessage) V'.
             case getClient slug targetPeerId V' of
               None \<Rightarrow> V'
             | Some targetClient \<Rightarrow>
                 if readyState V' targetClient = OPEN
                 then send targetClient (sync_payload E targetMessage) V' else V')
       bc V"

definition ws_message ::
  "('doc, 'ss, 'p) env \<Rightarrow> ws \<Rightarrow> string \<Rightarrow> ('doc, 'ss) server \<Rightarrow> ('doc, 'ss) server" where
  "ws_message E w message V =
     (let slug = communitySlug w; peerId = ws_peerId w
      in case JSON_parse E message of
           None \<Rightarrow> V
         | Some JNull \<Rightarrow> V
         | Some msg \<Rightarrow>
             (if get_prop msg ''type'' = Some (JStr ''sync'')
                   \<and> (case get_prop msg ''data'' of Some (JArr xs) \<Rightarrow> True | _ \<Rightarrow> False)
              then (let syncMessage =
                          Uint8Array_from E (case get_prop msg ''data'' of Some (JArr xs) \<Rightarrow> xs | _ \<Rightarrow> []);
                        (S1, result) = receiveSyncMessage E slug peerId syncMessage (store V);
                        V1 = V\<lparr>store := S1\<rparr>
                    in case result of
                         Inl e \<Rightarrow> V1
                       | Inr r \<Rightarrow>
                           (let V2 = (case response r of
                                        None \<Rightarrow> V1
                                      | Some m \<Rightarrow> send w (sync_payload E m) V1)
                            in send_targets E slug (broadcastToPeers r) V2))
              else if get_prop msg ''type'' = Some (JStr ''ping'')
              then send w (JSON_stringify E
                     (obj [(''type'', Some (JStr ''pong'')),
                           (''timestamp'', get_prop msg ''timestamp'')])) V
              else if get_prop msg ''type'' = Some (JStr ''presence'')
              then broadcast_others slug peerId
                     (JSON_stringify E
                        (JObj (spread [(''type'', JStr ''presence''), (''peerId'', JStr peerId)] msg)))
                     V
              else if get_prop msg ''type'' = Some (JStr ''update'')
                      \<and> truthy (get_prop msg ''id'') \<and> truthy (get_prop msg ''data'')
              then (case (get_prop msg ''id'', get_prop msg ''data'') of
                      (Some i, Some d) \<Rightarrow>
                        broadcast_others slug peerId (JSON_stringify E msg)
                          (V\<lparr>store := updateShape E slug (String_of E i) (ShapeData_of E d) (store V)\<rparr>)
                    | _ \<Rightarrow> V)
              else if get_prop msg ''type'' = Some (JStr ''delete'') \<and> truthy (get_prop msg ''id'')
              then (case get_prop msg ''id'' of
                      Some i \<Rightarrow>
                        broadcast_others slug peerId (JSON_stringify E msg)
                          (V\<lparr>store := deleteShape E slug (String_of E i) (store V)\<rparr>)
                    | None \<Rightarrow> V)
              else V))"

definition ws_open ::
  "('doc, 'ss, 'p) env \<Rightarrow> ws \<Rightarrow> ('doc, 'ss) server \<Rightarrow> ('doc, 'ss) server" where
  "ws_open E w V =
     (let slug = communitySlug w; peerId = ws_peerId w;
          clients = (case communityClients V slug of None \<Rightarrow> [] | Some c \<Rightarrow> c);
          V1 = V\<lparr>communityClients := (communityClients V)(slug \<mapsto> AList.update peerId w clients)\<rparr>;
          (S1, doc) = loadCommunity E slug (store V1);
          V2 = V1\<lparr>store := S1\<rparr>
      in case doc of
           None \<Rightarrow> V2
         | Some _ \<Rightarrow>
             (let (S2, syncMessage) = generateSyncMessageForPeer E slug peerId (store V2);
                  V3 = V2\<lparr>store := S2\<rparr>
              in case syncMessage of
                   None \<Rightarrow> V3
                 | Some m \<Rightarrow> send w (sync_payload E m) V3))"

definition ws_close :: "ws \<Rightarrow> ('doc, 'ss) server \<Rightarrow> ('doc, 'ss) server" where
  "ws_close w V =
     (let slug = communitySlug w; peerId = ws_peerId w;
          V1 = (case communityClients V slug of
                  None \<Rightarrow> V
                | Some clients \<Rightarrow>
                    (let remaining = AList.delete peerId clients
                     in if length remaining = 0
                        then V\<lparr>communityClients := (communityClients V)(slug := None)\<rparr>
                        else V\<lparr>communityClients := (communityClients V)(slug \<mapsto> remaining)\<rparr>))
      in V1\<lparr>store := removePeerSyncState slug peerId (store V1)\<rparr>)"

section \<open>Notions used in the properties\<close>

text \<open>
  The entry of a peer in the sync-state table, the pending timeouts of one community,
  and the two invariants of the tables: no community has an empty collection of peers;
  every pending timeout is the one stored for its community, and no two share an id.
\<close>

definition peer_entry :: "('doc, 'ss) state \<Rightarrow> string \<Rightarrow> string \<Rightarrow> 'ss PeerState option" where
  "peer_entry S slug peerId =
     (case peerSyncStates S slug of None \<Rightarrow> None | Some communityPeers \<Rightarrow> map_of communityPeers peerId)"

definition pending :: "string \<Rightarrow> ('doc, 'ss) state \<Rightarrow> timeout list" where
  "pending slug S = filter (\<lambda>t. t_slug t = slug) (timeouts S)"

definition peers_ok :: "('doc, 'ss) state \<Rightarrow> bool" where
  "peers_ok S = (\<forall>slug ps. peerSyncStates S slug = Some ps \<longrightarrow> ps \<noteq> [])"

definition timers_ok :: "('doc, 'ss) state \<Rightarrow> bool" where
  "timers_ok S =
     ((\<forall>t \<in> set (timeouts S). saveTimers S (t_slug t) = Some (t_id t) \<and> t_id t < nextTimer S)
      \<and> distinct (map t_id (timeouts S)))"

text \<open>
  A burst of mutations of one community: each is \<^verbatim>\<open>updateShape\<close> or \<^verbatim>\<open>deleteShape\<close>, issued
  after the given number of milliseconds has passed since the one before. \<open>mutate_doc\<close> is
  what one mutation does to the replica; \<open>slug_writes\<close> are the writes of the binary file
  of a community; a community is \<open>armed\<close> when its one pending timeout is due a full
  delay from now.
\<close>

datatype mutation = MUpdate string ShapeData | MDelete string

fun mutate_doc :: "('doc, 'ss, 'p) env \<Rightarrow> mutation \<Rightarrow> 'doc \<Rightarrow> 'doc" where
  "mutate_doc E (MUpdate shapeId data) doc =
     am_change E doc (''Update shape '' @ shapeId) (update_mutator shapeId data)"
| "mutate_doc E (MDelete shapeId) doc =
     am_change E doc (''Delete shape '' @ shapeId) (delete_mutator shapeId)"

fun mutate :: "('doc, 'ss, 'p) env \<Rightarrow> string \<Rightarrow> mutation \<Rightarrow> ('doc, 'ss) state \<Rightarrow> ('doc, 'ss) state" where
  "mutate E slug (MUpdate shapeId data) S = updateShape E slug shapeId data S"
| "mutate E slug (MDelete shapeId) S = deleteShape E slug shapeId S"

fun burst ::
  "('doc, 'ss, 'p) env \<Rightarrow> string \<Rightarrow> (nat \<times> mutation) list \<Rightarrow> ('doc, 'ss) state \<Rightarrow> ('doc, 'ss) state" where
  "burst E slug [] S = S"
| "burst E slug ((d, m) # ms) S = burst E slug ms (mutate E slug m (elapse E d S))"

definition slug_writes :: "('doc, 'ss, 'p) env \<Rightarrow> string \<Rightarrow> ('doc, 'ss) state \<Rightarrow> (string \<times> Uint8Array) list" where
  "slug_writes E slug S = filter (\<lambda>w. fst w = binaryPath E slug) (writes S)"

definition armed :: "string \<Rightarrow> ('doc, 'ss) state \<Rightarrow> bool" where
  "armed slug S = (\<exists>t. pending slug S = [t] \<and> t_due t = clock S + 2000)"

text \<open>
  The clients registered for a community, and the text sent for a presence message:
  the object \<^verbatim>\<open>{ type: "presence", peerId, ...msg }\<close>, serialized.
\<close>

definition clients_of :: "string \<Rightarrow> ('doc, 'ss) server \<Rightarrow> (string \<times> ws) list" where
  "clients_of slug V = (case communityClients V slug of None \<Rightarrow> [] | Some clients \<Rightarrow> clients)"

definition presence_payload :: "('doc, 'ss, 'p) env \<Rightarrow> string \<Rightarrow> json \<Rightarrow> string" where
  "presence_payload E peerId msg =
     JSON_stringify E (JObj (spread [(''type'', JStr ''presence''), (''peerId'', JStr peerId)] msg))"

text \<open>
  The state of \<^verbatim>\<open>receiveSyncMessage\<close> before its loop over the other peers: the merged
  document is stored, the sender's sync state is advanced twice, and the save is
  scheduled when there were patches.
\<close>

definition merged ::
  "('doc, 'ss, 'p) env \<Rightarrow> string \<Rightarrow> string \<Rightarrow> 'doc \<Rightarrow> 'ss \<Rightarrow> bool \<Rightarrow> ('doc, 'ss) state
     \<Rightarrow> ('doc, 'ss) state" where
  "merged E slug peerId newDoc newSyncState hasPatches S =
     (let S1 = fst (getPeerSyncState E slug peerId S);
          S2 = S1\<lparr>communities := (communities S1)(slug \<mapsto> newDoc)\<rparr>;
          S3 = set_syncState slug peerId newSyncState S2;
          S4 = (if hasPatches then saveCommunity E slug S3 else S3)
      in set_syncState slug peerId (fst (am_generateSyncMessage E newDoc newSyncState)) S4)"

text \<open>
  The table of stored timer ids is sound when every stored id has been handed out and no
  two communities store the same id. \<open>canonical_record\<close> is what the binary file of a
  community gives when it is loaded, \<open>legacy_record\<close> what its JSON file gives when it is
  parsed: nothing when the file is absent, and nothing when \<^verbatim>\<open>Automerge.load\<close> or
  \<^verbatim>\<open>jsonFile.json()\<close> throws on it.
\<close>

definition stored_ok :: "('doc, 'ss) state \<Rightarrow> bool" where
  "stored_ok S =
     ((\<forall>s i. saveTimers S s = Some i \<longrightarrow> i < nextTimer S)
      \<and> (\<forall>s s' i. saveTimers S s = Some i \<and> saveTimers S s' = Some i \<longrightarrow> s = s'))"

definition canonical_record :: "('doc, 'ss, 'p) env \<Rightarrow> string \<Rightarrow> ('doc, 'ss) state \<Rightarrow> 'doc option" where
  "canonical_record E slug S =
     (case files S (binaryPath E slug) of None \<Rightarrow> None | Some buffer \<Rightarrow> am_load E buffer)"

definition legacy_record :: "('doc, 'ss, 'p) env \<Rightarrow> string \<Rightarrow> ('doc, 'ss) state \<Rightarrow> CommunityDoc option" where
  "legacy_record E slug S =
     (case files S (jsonPath E slug) of None \<Rightarrow> None | Some content \<Rightarrow> file_json E content)"

subsection \<open>A small instance of the external operations\<close>

text \<open>
  The properties below hold for every merge library and runtime. To evaluate the store
  on concrete inputs, this instance takes the materialized document for the replica and
  a counter for the sync state: a message whose first byte is zero merges nothing, one
  whose first byte is two adds the shape \<open>s3\<close> and reports no patches, any other adds the
  shape \<open>s1\<close> and reports a patch; a sync state of zero yields a message, any later one
  none.
\<close>

definition demo_shape :: ShapeData where
  "demo_shape =
     \<lparr>shape_type = ''rectangle'', shape_id = ''s1'', shape_x = 0, shape_y = 0,
      shape_width = 10, shape_height = 10, shape_rotation = 0, shape_content = None,
      shape_sourceId = None, shape_targetId = None\<rparr>"

definition demo_save :: "draft \<Rightarrow> Uint8Array" where
  "demo_save doc = (case d_shapes doc of None \<Rightarrow> [0] | Some shapes \<Rightarrow> [1, of_nat (length shapes)])"

fun demo_stringify :: "json \<Rightarrow> string" where
  "demo_stringify JNull = ''null''"
| "demo_stringify (JBool b) = (if b then ''true'' else ''false'')"
| "demo_stringify (JNum r) = ''#''"
| "demo_stringify (JStr s) = s"
| "demo_stringify (JArr xs) = ''['' @ concat (map (\<lambda>x. demo_stringify x @ '','') xs) @ '']''"
| "demo_stringify (JObj fs) =
     ''{'' @ concat (map (\<lambda>(k, v). k @ '':'' @ demo_stringify v @ '','') fs) @ ''}''"

definition demo_env :: "(draft, nat, string) env" where
  "demo_env =
     \<lparr>STORAGE_DIR = ''./data/communities'',
      am_init = \<lparr>d_meta = None, d_shapes = None\<rparr>,
      am_change = (\<lambda>doc message f. f doc),
      am_load = (\<lambda>bytes. case bytes of [] \<Rightarrow> None | b # bs \<Rightarrow> Some \<lparr>d_meta = None, d_shapes = Some []\<rparr>),
      am_save = demo_save,
      am_initSyncState = 0,
      am_receiveSyncMessage = (\<lambda>doc ss message.
         case message of
           [] \<Rightarrow> None
         | b # bs \<Rightarrow> if b = 0 then Some (doc, Suc ss, None)
                     else if b = 2 then Some (update_mutator ''s3'' demo_shape doc, Suc ss, None)
                     else Some (update_mutator ''s1'' demo_shape doc, Suc ss, Some [''put''])),
      am_generateSyncMessage = (\<lambda>doc ss. (Suc ss, if ss = 0 then Some (demo_save doc) else None)),
      am_view = (\<lambda>doc. doc),
      file_json = (\<lambda>bytes. case bytes of [] \<Rightarrow> None | b # bs \<Rightarrow>
         Some \<lparr>doc_meta = \<lparr>meta_name = ''Garden'', meta_slug = ''garden'', meta_createdAt = ''2024''\<rparr>,
               doc_shapes = [(''s1'', demo_shape)]\<rparr>),
      toISOString = (\<lambda>t. ''T+'' @ replicate t CHR ''1''),
      JSON_parse = map_of
        [(''ping'', JObj [(''type'', JStr ''ping''), (''timestamp'', JNum 5)]),
         (''presence'', JObj [(''type'', JStr ''presence''), (''cursor'', JNum 7)])],
      JSON_stringify = demo_stringify,
      Uint8Array_from = (\<lambda>xs. map (\<lambda>x. case x of JNum r \<Rightarrow> word_of_int (floor r) | _ \<Rightarrow> 0) xs),
      String_of = demo_stringify,
      ShapeData_of = (\<lambda>j. demo_shape)\<rparr>"

subsection \<open>Concrete runs\<close>

text \<open>States reached by short runs of the instance, for evaluating the properties.\<close>

definition garden_state :: "(draft, nat) state" where
  "garden_state = run demo_env [CreateCommunity ''Garden'' ''garden''] init_state"

definition garden_doc :: draft where
  "garden_doc = \<lparr>d_meta = Some \<lparr>meta_name = ''Garden'', meta_slug = ''garden'', meta_createdAt = ''T+''\<rparr>,
             d_shapes = Some []\<rparr>"

definition two_peers :: "event list" where
  "two_peers = [CreateCommunity ''Garden'' ''garden'',
                GenerateSyncMessageForPeer ''garden'' ''peer-1'',
                GenerateSyncMessageForPeer ''garden'' ''peer-2'']"

definition one_peer :: "event list" where
  "one_peer = [CreateCommunity ''Garden'' ''garden'',
               GenerateSyncMessageForPeer ''garden'' ''peer-1'']"

definition fresh_peer :: "event list" where
  "fresh_peer = [CreateCommunity ''Garden'' ''garden'',
                 GenerateSyncMessageForPeer ''garden'' ''peer-1'',
                 GetPeerSyncState ''garden'' ''peer-2'']"

definition demo_burst :: "(nat \<times> mutation) list" where
  "demo_burst = [(500, MUpdate ''s2'' demo_shape), (700, MDelete ''s1'')]"

definition legacy_state :: "(draft, nat) state" where
  "legacy_state = init_state\<lparr>files := [''./data/communities/garden.json'' \<mapsto> [123, 125]]\<rparr>"

definition both_state :: "(draft, nat) state" where
  "both_state = init_state\<lparr>files := [''./data/communities/garden.json'' \<mapsto> [123, 125],
                                       ''./data/communities/garden.automerge'' \<mapsto> [133]]\<rparr>"

definition legacy_doc :: CommunityDoc where
  "legacy_doc = \<lparr>doc_meta = \<lparr>meta_name = ''Garden'', meta_slug = ''garden'', meta_createdAt = ''2024''\<rparr>,
                 doc_shapes = [(''s1'', demo_shape)]\<rparr>"

definition migrated_doc :: draft where
  "migrated_doc = \<lparr>d_meta = Some (doc_meta legacy_doc), d_shapes = Some [(''s1'', demo_shape)]\<rparr>"

text \<open>
  A storage directory whose binary file does not load, and one whose JSON file does not
  parse; a run that creates two communities; the replica of the garden after the burst,
  and after a sync message that adds a shape and reports no patch.
\<close>

definition corrupt_state :: "(draft, nat) state" where
  "corrupt_state = init_state\<lparr>files := [''./data/communities/garden.json'' \<mapsto> [123, 125],
                                          ''./data/communities/garden.automerge'' \<mapsto> []]\<rparr>"

definition unparsable_state :: "(draft, nat) state" where
  "unparsable_state = init_state\<lparr>files := [''./data/communities/garden.json'' \<mapsto> []]\<rparr>"

definition two_gardens :: "event list" where
  "two_gardens = [CreateCommunity ''Garden'' ''garden'', CreateCommunity ''Pond'' ''pond'']"

definition burst_doc :: draft where
  "burst_doc = garden_doc\<lparr>d_shapes := Some [(''s2'', demo_shape)]\<rparr>"

definition synced_doc :: draft where
  "synced_doc = garden_doc\<lparr>d_shapes := Some [(''s2'', demo_shape), (''s3'', demo_shape)]\<rparr>"

text \<open>A request to create a community, three connections to one community, two messages.\<close>

definition create_request :: "string option \<Rightarrow> string option \<Rightarrow> request" where
  "create_request name slug =
     \<lparr>req_method = ''POST'', req_pathname = ''/api/communities'',
      req_json = Some \<lparr>body_name = name, body_slug = slug\<rparr>\<rparr>"

text \<open>A request to create a community whose body does not decode.\<close>

definition undecodable_request :: request where
  "undecodable_request =
     \<lparr>req_method = ''POST'', req_pathname = ''/api/communities'', req_json = None\<rparr>"

definition demo_ws :: "nat \<Rightarrow> string \<Rightarrow> ws" where
  "demo_ws i peerId = \<lparr>ws_handle = i, communitySlug = ''garden'', ws_peerId = peerId\<rparr>"

definition demo_server :: "(draft, nat) server" where
  "demo_server =
     \<lparr>store = garden_state,
      communityClients = [''garden'' \<mapsto> [(''peer-1'', demo_ws 1 ''peer-1''),
                                          (''peer-2'', demo_ws 2 ''peer-2''),
                                          (''peer-3'', demo_ws 3 ''peer-3'')]],
      readyState = (\<lambda>w. if ws_handle w = 3 then CLOSED else OPEN),
      sent = []\<rparr>"

definition ping_msg :: json where
  "ping_msg = JObj [(''type'', JStr ''ping''), (''timestamp'', JNum 5)]"

definition presence_msg :: json where
  "presence_msg = JObj [(''type'', JStr ''presence''), (''cursor'', JNum 7)]"

section \<open>Frame conditions and invariants\<close>

lemma saveCommunity_frame:
  "communities (saveCommunity E slug S) = communities S"
  "peerSyncStates (saveCommunity E slug S) = peerSyncStates S"
  "files (saveCommunity E slug S) = files S"
  "clock (saveCommunity E slug S) = clock S"
  "writes (saveCommunity E slug S) = writes S"
  by (simp_all add: saveCommunity_def setTimeout_def clearTimeout_def Let_def split: option.splits)

lemma save_callback_frame:
  "communities (save_callback E slug S) = communities S"
  "peerSyncStates (save_callback E slug S) = peerSyncStates S"
  "saveTimers (save_callback E slug S) = saveTimers S"
  "timeouts (save_callback E slug S) = timeouts S"
  "nextTimer (save_callback E slug S) = nextTimer S"
  "clock (save_callback E slug S) = clock S"
  by (simp_all add: save_callback_def Let_def split: option.splits)

lemma fold_callback_frame:
  "communities (fold (\<lambda>x. save_callback E (t_slug x)) ts S) = communities S"
  "peerSyncStates (fold (\<lambda>x. save_callback E (t_slug x)) ts S) = peerSyncStates S"
  "saveTimers (fold (\<lambda>x. save_callback E (t_slug x)) ts S) = saveTimers S"
  "timeouts (fold (\<lambda>x. save_callback E (t_slug x)) ts S) = timeouts S"
  "nextTimer (fold (\<lambda>x. save_callback E (t_slug x)) ts S) = nextTimer S"
  "clock (fold (\<lambda>x. save_callback E (t_slug x)) ts S) = clock S"
  by (induction ts arbitrary: S; simp add: save_callback_frame)+

lemma elapse_frame:
  "communities (elapse E d S) = communities S"
  "peerSyncStates (elapse E d S) = peerSyncStates S"
  "saveTimers (elapse E d S) = saveTimers S"
  "nextTimer (elapse E d S) = nextTimer S"
  "clock (elapse E d S) = clock S + d"
  "timeouts (elapse E d S) = filter (\<lambda>x. \<not> t_due x \<le> clock S + d) (timeouts S)"
  by (simp_all add: elapse_def Let_def fold_callback_frame)

lemma saveCommunity_resident:
  assumes "communities S slug = Some doc"
  shows "saveTimers (saveCommunity E slug S) slug = Some (nextTimer S)"
    and "\<lparr>t_id = nextTimer S, t_due = clock S + 2000, t_slug = slug\<rparr> \<in> set (timeouts (saveCommunity E slug S))"
    and "nextTimer (saveCommunity E slug S) = Suc (nextTimer S)"
  using assms
  by (simp_all add: saveCommunity_def setTimeout_def clearTimeout_def Let_def split: option.splits)

lemma timers_ok_saveCommunity:
  assumes "timers_ok S"
  shows "timers_ok (saveCommunity E slug S)"
proof (cases "communities S slug")
  case None
  then show ?thesis using assms by (simp add: saveCommunity_def)
next
  case (Some doc)
  have fresh: "\<forall>t \<in> set (timeouts S). t_id t \<noteq> nextTimer S"
    using assms by (auto simp: timers_ok_def)
  show ?thesis
  proof (cases "saveTimers S slug")
    case None
    with Some assms fresh show ?thesis
      by (auto simp: timers_ok_def saveCommunity_def setTimeout_def clearTimeout_def Let_def)
  next
    case (Some old)
    with \<open>communities S slug = Some doc\<close> assms fresh show ?thesis
      by (auto simp: timers_ok_def saveCommunity_def setTimeout_def clearTimeout_def Let_def
                     distinct_map_filter)
  qed
qed

lemma timers_ok_elapse:
  assumes "timers_ok S"
  shows "timers_ok (elapse E d S)"
  using assms by (auto simp: timers_ok_def elapse_frame distinct_map_filter)

lemma timers_ok_cong:
  assumes "saveTimers S' = saveTimers S" "timeouts S' = timeouts S" "nextTimer S' = nextTimer S"
  shows "timers_ok S' = timers_ok S"
  using assms by (simp add: timers_ok_def)

lemma pending_saveCommunity:
  assumes "timers_ok S" "communities S slug = Some doc"
  shows "pending slug (saveCommunity E slug S)
           = [\<lparr>t_id = nextTimer S, t_due = clock S + 2000, t_slug = slug\<rparr>]"
proof -
  have "filter (\<lambda>t. t_slug t = slug) (filter (\<lambda>x. t_id x \<noteq> old) (timeouts S)) = []"
    if "saveTimers S slug = Some old" for old
    using assms(1) that by (auto simp: timers_ok_def filter_empty_conv)
  moreover have "filter (\<lambda>t. t_slug t = slug) (timeouts S) = []" if "saveTimers S slug = None"
    using assms(1) that by (auto simp: timers_ok_def filter_empty_conv)
  ultimately show ?thesis using assms(2)
    by (auto simp: pending_def saveCommunity_def setTimeout_def clearTimeout_def Let_def
             split: option.splits)
qed

lemma distinct_const_length:
  assumes "distinct xs" "\<forall>x \<in> set xs. x = a"
  shows "length xs \<le> 1"
proof (cases xs)
  case Nil
  then show ?thesis by simp
next
  case (Cons x ys)
  show ?thesis
  proof (cases ys)
    case Nil
    with Cons show ?thesis by simp
  next
    case (Cons y zs)
    with \<open>xs = x # ys\<close> assms show ?thesis by auto
  qed
qed

lemma pending_at_most_one:
  assumes "timers_ok S"
  shows "length (pending slug S) \<le> 1"
proof (cases "saveTimers S slug")
  case None
  then have "pending slug S = []"
    using assms by (auto simp: timers_ok_def pending_def filter_empty_conv)
  then show ?thesis by simp
next
  case (Some i)
  have d: "distinct (map t_id (pending slug S))"
    using assms by (simp add: timers_ok_def pending_def distinct_map_filter)
  have "\<forall>x \<in> set (map t_id (pending slug S)). x = i"
    using assms Some by (auto simp: timers_ok_def pending_def)
  from distinct_const_length [OF d this] show ?thesis by simp
qed

lemma timers_ok_upd [simp]:
  "timers_ok (S\<lparr>communities := c\<rparr>) = timers_ok S"
  "timers_ok (S\<lparr>peerSyncStates := p\<rparr>) = timers_ok S"
  by (simp_all add: timers_ok_def)

lemma peers_ok_upd [simp]:
  "peers_ok (S\<lparr>communities := c\<rparr>) = peers_ok S"
  by (simp add: peers_ok_def)

lemma set_syncState_frame:
  "communities (set_syncState slug peerId ss S) = communities S"
  "saveTimers (set_syncState slug peerId ss S) = saveTimers S"
  "timeouts (set_syncState slug peerId ss S) = timeouts S"
  "nextTimer (set_syncState slug peerId ss S) = nextTimer S"
  "files (set_syncState slug peerId ss S) = files S"
  "clock (set_syncState slug peerId ss S) = clock S"
  "writes (set_syncState slug peerId ss S) = writes S"
  by (simp_all add: set_syncState_def split: option.splits)

lemma getPeerSyncState_frame:
  "communities (fst (getPeerSyncState E slug peerId S)) = communities S"
  "saveTimers (fst (getPeerSyncState E slug peerId S)) = saveTimers S"
  "timeouts (fst (getPeerSyncState E slug peerId S)) = timeouts S"
  "nextTimer (fst (getPeerSyncState E slug peerId S)) = nextTimer S"
  "files (fst (getPeerSyncState E slug peerId S)) = files S"
  "clock (fst (getPeerSyncState E slug peerId S)) = clock S"
  "writes (fst (getPeerSyncState E slug peerId S)) = writes S"
  by (simp_all add: getPeerSyncState_def Let_def)

lemma timers_ok_set_syncState [simp]:
  "timers_ok (set_syncState slug peerId ss S) = timers_ok S"
  by (simp add: timers_ok_def set_syncState_frame)

lemma timers_ok_getPeerSyncState [simp]:
  "timers_ok (fst (getPeerSyncState E slug peerId S)) = timers_ok S"
  by (simp add: timers_ok_def getPeerSyncState_frame)

lemma timers_ok_removePeerSyncState [simp]:
  "timers_ok (removePeerSyncState slug peerId S) = timers_ok S"
  by (simp add: removePeerSyncState_def Let_def split: option.splits)

lemma peers_ok_saveCommunity [simp]:
  "peers_ok (saveCommunity E slug S) = peers_ok S"
  by (simp add: peers_ok_def saveCommunity_frame)

lemma peers_ok_elapse [simp]:
  "peers_ok (elapse E d S) = peers_ok S"
  by (simp add: peers_ok_def elapse_frame)

lemma peers_ok_getPeerSyncState:
  "peers_ok S \<Longrightarrow> peers_ok (fst (getPeerSyncState E slug peerId S))"
  by (simp add: peers_ok_def getPeerSyncState_def Let_def)

lemma peers_ok_set_syncState:
  "peers_ok S \<Longrightarrow> peers_ok (set_syncState slug peerId ss S)"
  by (auto simp: peers_ok_def set_syncState_def split: option.splits)

lemma peers_ok_removePeerSyncState:
  "peers_ok S \<Longrightarrow> peers_ok (removePeerSyncState slug peerId S)"
  by (auto simp: peers_ok_def removePeerSyncState_def Let_def split: option.splits if_splits)

lemma length_broadcast_loop:
  "length (fst (broadcast_loop E newDoc peerId ps)) = length ps"
  by (induction ps) (auto simp: Let_def split: prod.splits)

lemma broadcast_loop_nonempty:
  "ps \<noteq> [] \<Longrightarrow> fst (broadcast_loop E newDoc peerId ps) \<noteq> []"
  using length_broadcast_loop [of E newDoc peerId ps] by (metis length_0_conv)

lemma timers_ok_loadCommunity:
  "timers_ok S \<Longrightarrow> timers_ok (fst (loadCommunity E slug S))"
  by (auto simp: loadCommunity_def Let_def timers_ok_saveCommunity split: option.splits)

lemma timers_ok_createCommunity:
  "timers_ok S \<Longrightarrow> timers_ok (fst (createCommunity E name slug S))"
  by (simp add: createCommunity_def Let_def timers_ok_saveCommunity)

lemma timers_ok_updateShape:
  "timers_ok S \<Longrightarrow> timers_ok (updateShape E slug shapeId data S)"
  by (simp add: updateShape_def Let_def timers_ok_saveCommunity split: option.splits)

lemma timers_ok_deleteShape:
  "timers_ok S \<Longrightarrow> timers_ok (deleteShape E slug shapeId S)"
  by (simp add: deleteShape_def Let_def timers_ok_saveCommunity split: option.splits)

lemma timers_ok_generate:
  "timers_ok S \<Longrightarrow> timers_ok (fst (generateSyncMessageForPeer E slug peerId S))"
  by (simp add: generateSyncMessageForPeer_def Let_def split: option.splits prod.splits)
     (metis fst_conv timers_ok_getPeerSyncState)

lemma peers_ok_upd_peers:
  "peers_ok S \<Longrightarrow> ps \<noteq> [] \<Longrightarrow> peers_ok (S\<lparr>peerSyncStates := (peerSyncStates S)(slug \<mapsto> ps)\<rparr>)"
  by (simp add: peers_ok_def)

lemma peers_ok_cong:
  "peerSyncStates S' = peerSyncStates S \<Longrightarrow> peers_ok S' = peers_ok S"
  by (simp add: peers_ok_def)

lemma peers_ok_loadCommunity:
  "peers_ok S \<Longrightarrow> peers_ok (fst (loadCommunity E slug S))"
  by (auto simp: loadCommunity_def Let_def split: option.splits)

lemma peers_ok_createCommunity:
  "peers_ok S \<Longrightarrow> peers_ok (fst (createCommunity E name slug S))"
  by (simp add: createCommunity_def Let_def)

lemma peers_ok_updateShape:
  "peers_ok S \<Longrightarrow> peers_ok (updateShape E slug shapeId data S)"
  by (simp add: updateShape_def Let_def split: option.splits)

lemma peers_ok_deleteShape:
  "peers_ok S \<Longrightarrow> peers_ok (deleteShape E slug shapeId S)"
  by (simp add: deleteShape_def Let_def split: option.splits)

lemma peers_ok_generate:
  assumes "peers_ok S"
  shows "peers_ok (fst (generateSyncMessageForPeer E slug peerId S))"
proof (cases "communities S slug")
  case None
  then show ?thesis using assms by (simp add: generateSyncMessageForPeer_def)
next
  case (Some doc)
  obtain S1 st where g: "getPeerSyncState E slug peerId S = (S1, st)" by (cases "getPeerSyncState E slug peerId S")
  then have "peers_ok S1" using peers_ok_getPeerSyncState [OF assms, of E slug peerId] by simp
  then show ?thesis using Some g
    by (simp add: generateSyncMessageForPeer_def Let_def peers_ok_set_syncState split: prod.splits)
qed

lemma get_cursor:
  "syncState (snd (getPeerSyncState E slug peerId S))
     = (case peer_entry S slug peerId of None \<Rightarrow> am_initSyncState E | Some st \<Rightarrow> syncState st)"
  by (simp add: getPeerSyncState_def peer_entry_def Let_def split: option.splits)

lemma receive_resident:
  assumes "communities S slug = Some doc"
    and "am_receiveSyncMessage E doc
           (case peer_entry S slug peerId of None \<Rightarrow> am_initSyncState E | Some st \<Rightarrow> syncState st)
           message = Some (newDoc, nss, patch)"
  shows "receiveSyncMessage E slug peerId message S =
     (let S5 = merged E slug peerId newDoc nss (has_patches patch) S;
          responseMessage = snd (am_generateSyncMessage E newDoc nss)
      in case peerSyncStates S5 slug of
           None \<Rightarrow> (S5, Inr \<lparr>response = responseMessage, broadcastToPeers = []\<rparr>)
         | Some communityPeers \<Rightarrow>
             if has_patches patch
             then (S5\<lparr>peerSyncStates := (peerSyncStates S5)(slug \<mapsto>
                        fst (broadcast_loop E newDoc peerId communityPeers))\<rparr>,
                   Inr \<lparr>response = responseMessage,
                        broadcastToPeers = snd (broadcast_loop E newDoc peerId communityPeers)\<rparr>)
             else (S5, Inr \<lparr>response = responseMessage, broadcastToPeers = []\<rparr>))"
proof -
  obtain S1 st where g: "getPeerSyncState E slug peerId S = (S1, st)"
    by (cases "getPeerSyncState E slug peerId S")
  with assms(2) get_cursor [of E slug peerId S]
  have m: "am_receiveSyncMessage E doc (syncState st) message = Some (newDoc, nss, patch)" by simp
  show ?thesis
    using assms(1) g m
    by (simp add: receiveSyncMessage_def merged_def has_patches_def Let_def
             split: option.splits prod.splits)
qed

lemma peer_entry_cong: "peerSyncStates S' = peerSyncStates S \<Longrightarrow> peer_entry S' = peer_entry S"
  by (simp add: peer_entry_def fun_eq_iff)

lemma peer_entry_get_other:
  "(slug', q) \<noteq> (slug, peerId) \<Longrightarrow>
     peer_entry (fst (getPeerSyncState E slug peerId S)) slug' q = peer_entry S slug' q"
  by (auto simp: peer_entry_def getPeerSyncState_def Let_def update_conv' split: option.splits)

lemma map_of_set_sync:
  "map_of (map (\<lambda>(p, st). if p = peerId then (p, st\<lparr>syncState := ss\<rparr>) else (p, st)) ps) q
     = (if q = peerId then map_option (\<lambda>st. st\<lparr>syncState := ss\<rparr>) (map_of ps q) else map_of ps q)"
  by (induction ps) auto

lemma peer_entry_set_other:
  "(slug', q) \<noteq> (slug, peerId) \<Longrightarrow>
     peer_entry (set_syncState slug peerId ss S) slug' q = peer_entry S slug' q"
  by (auto simp: peer_entry_def set_syncState_def map_of_set_sync split: option.splits)

lemma peer_entry_saveCommunity [simp]:
  "peer_entry (saveCommunity E slug S) = peer_entry S"
  by (rule peer_entry_cong) (simp add: saveCommunity_frame)

lemma peer_entry_upd_communities [simp]:
  "peer_entry (S\<lparr>communities := c\<rparr>) = peer_entry S"
  by (rule peer_entry_cong) simp

lemma peer_entry_merged_other:
  assumes "(slug', q) \<noteq> (slug, peerId)"
  shows "peer_entry (merged E slug peerId newDoc nss hp S) slug' q = peer_entry S slug' q"
  using assms by (simp add: merged_def Let_def peer_entry_set_other peer_entry_get_other)

lemma merged_frame:
  "communities (merged E slug peerId newDoc nss hp S) = (communities S)(slug \<mapsto> newDoc)"
  "files (merged E slug peerId newDoc nss hp S) = files S"
  "writes (merged E slug peerId newDoc nss hp S) = writes S"
  "clock (merged E slug peerId newDoc nss hp S) = clock S"
  by (simp_all add: merged_def Let_def set_syncState_frame saveCommunity_frame getPeerSyncState_frame)

lemma merged_no_patches_timers:
  "timeouts (merged E slug peerId newDoc nss False S) = timeouts S"
  "saveTimers (merged E slug peerId newDoc nss False S) = saveTimers S"
  "nextTimer (merged E slug peerId newDoc nss False S) = nextTimer S"
  by (simp_all add: merged_def Let_def set_syncState_frame getPeerSyncState_frame)

lemma merged_patches_timers:
  "saveTimers (merged E slug peerId newDoc nss True S) slug = Some (nextTimer S)"
  "\<lparr>t_id = nextTimer S, t_due = clock S + 2000, t_slug = slug\<rparr>
     \<in> set (timeouts (merged E slug peerId newDoc nss True S))"
  by (simp_all add: merged_def Let_def set_syncState_frame getPeerSyncState_frame
        saveCommunity_def setTimeout_def clearTimeout_def split: option.splits)

lemma map_of_broadcast_loop:
  "q \<noteq> peerId \<Longrightarrow>
     map_of (fst (broadcast_loop E newDoc peerId ps)) q
       = map_option (\<lambda>st. st\<lparr>syncState := fst (am_generateSyncMessage E newDoc (syncState st))\<rparr>)
           (map_of ps q)"
  by (induction ps) (auto simp: Let_def split: prod.splits)

lemma broadcast_loop_delivers:
  "q \<noteq> peerId \<Longrightarrow> map_of ps q = Some st \<Longrightarrow>
     snd (am_generateSyncMessage E newDoc (syncState st)) = Some m \<Longrightarrow>
     (q, m) \<in> set (snd (broadcast_loop E newDoc peerId ps))"
  by (induction ps) (auto simp: Let_def split: prod.splits option.splits if_splits)

lemma broadcast_loop_skips_sender:
  "(q, m) \<in> set (snd (broadcast_loop E newDoc peerId ps)) \<Longrightarrow> q \<noteq> peerId"
  by (induction ps) (auto simp: Let_def split: prod.splits option.splits if_splits)

lemma set_syncState_dom:
  "(\<exists>y. peerSyncStates (set_syncState slug peerId ss S) slug' = Some y)
     = (\<exists>y. peerSyncStates S slug' = Some y)"
  by (auto simp: set_syncState_def split: option.splits)

lemma merged_collection:
  "\<exists>ps. peerSyncStates (merged E slug peerId newDoc nss hp S) slug = Some ps"
  by (simp add: merged_def Let_def set_syncState_dom saveCommunity_frame getPeerSyncState_def)

lemma receive_thrown:
  assumes "communities S slug = Some doc"
    and "am_receiveSyncMessage E doc
           (case peer_entry S slug peerId of None \<Rightarrow> am_initSyncState E | Some st \<Rightarrow> syncState st)
           message = None"
  shows "receiveSyncMessage E slug peerId message S
           = (fst (getPeerSyncState E slug peerId S), Inl AutomergeError)"
proof -
  obtain S1 st where g: "getPeerSyncState E slug peerId S = (S1, st)"
    by (cases "getPeerSyncState E slug peerId S")
  with assms(2) get_cursor [of E slug peerId S]
  have "am_receiveSyncMessage E doc (syncState st) message = None" by simp
  with assms(1) g show ?thesis by (simp add: receiveSyncMessage_def)
qed

lemma timers_ok_merged:
  "timers_ok S \<Longrightarrow> timers_ok (merged E slug peerId newDoc nss hp S)"
  by (simp add: merged_def Let_def timers_ok_saveCommunity)

lemma peers_ok_merged:
  "peers_ok S \<Longrightarrow> peers_ok (merged E slug peerId newDoc nss hp S)"
  by (simp add: merged_def Let_def peers_ok_set_syncState peers_ok_getPeerSyncState)

lemma receive_state_cases:
  "fst (receiveSyncMessage E slug peerId message S) = S
   \<or> fst (receiveSyncMessage E slug peerId message S) = fst (getPeerSyncState E slug peerId S)
   \<or> (\<exists>newDoc nss hp. fst (receiveSyncMessage E slug peerId message S)
          = merged E slug peerId newDoc nss hp S)
   \<or> (\<exists>newDoc nss hp ps. peerSyncStates (merged E slug peerId newDoc nss hp S) slug = Some ps
          \<and> fst (receiveSyncMessage E slug peerId message S)
              = (merged E slug peerId newDoc nss hp S)\<lparr>peerSyncStates :=
                   (peerSyncStates (merged E slug peerId newDoc nss hp S))(slug \<mapsto>
                      fst (broadcast_loop E newDoc peerId ps))\<rparr>)"
proof (cases "communities S slug")
  case None
  then show ?thesis by (simp add: receiveSyncMessage_def)
next
  case (Some doc)
  let ?cursor = "case peer_entry S slug peerId of
                   None \<Rightarrow> am_initSyncState E | Some st \<Rightarrow> syncState st"
  show ?thesis
  proof (cases "am_receiveSyncMessage E doc ?cursor message")
    case None
    with Some show ?thesis by (simp add: receive_thrown)
  next
    case (Some r)
    obtain newDoc nss patch where "r = (newDoc, nss, patch)" by (cases r)
    with Some have m: "am_receiveSyncMessage E doc ?cursor message = Some (newDoc, nss, patch)"
      by simp
    let ?M = "merged E slug peerId newDoc nss (has_patches patch) S"
    note r = receive_resident [OF \<open>communities S slug = Some doc\<close> m, unfolded Let_def]
    show ?thesis
    proof (cases "peerSyncStates ?M slug")
      case None
      with r have "fst (receiveSyncMessage E slug peerId message S) = ?M" by simp
      then show ?thesis by blast
    next
      case (Some ps)
      show ?thesis
      proof (cases "has_patches patch")
        case False
        with r Some have "fst (receiveSyncMessage E slug peerId message S) = ?M" by simp
        then show ?thesis by blast
      next
        case True
        with r Some have "fst (receiveSyncMessage E slug peerId message S)
            = ?M\<lparr>peerSyncStates := (peerSyncStates ?M)(slug \<mapsto>
                     fst (broadcast_loop E newDoc peerId ps))\<rparr>"
          by simp
        with Some show ?thesis by blast
      qed
    qed
  qed
qed

lemma timers_ok_receive:
  assumes "timers_ok S"
  shows "timers_ok (fst (receiveSyncMessage E slug peerId message S))"
  using receive_state_cases [of E slug peerId message S] assms
  by (auto simp: timers_ok_merged)

lemma peers_ok_receive:
  assumes "peers_ok S"
  shows "peers_ok (fst (receiveSyncMessage E slug peerId message S))"
proof -
  have "peers_ok ((merged E slug peerId newDoc nss hp S)\<lparr>peerSyncStates :=
                   (peerSyncStates (merged E slug peerId newDoc nss hp S))(slug \<mapsto>
                      fst (broadcast_loop E newDoc peerId ps))\<rparr>)"
    if "peerSyncStates (merged E slug peerId newDoc nss hp S) slug = Some ps"
    for newDoc nss hp ps
  proof -
    have ok: "peers_ok (merged E slug peerId newDoc nss hp S)"
      using assms by (rule peers_ok_merged)
    with that have "ps \<noteq> []" by (simp add: peers_ok_def)
    then show ?thesis using ok by (simp add: peers_ok_upd_peers broadcast_loop_nonempty)
  qed
  then show ?thesis
    using receive_state_cases [of E slug peerId message S] assms
    by (auto simp: peers_ok_merged peers_ok_getPeerSyncState)
qed

lemma fresh_peer_state:
  "communities (run demo_env fresh_peer init_state) ''garden'' = Some garden_doc"
  "peerSyncStates (run demo_env fresh_peer init_state)
     = [''garden'' \<mapsto> [(''peer-1'', \<lparr>syncState = 1, lastActivity = 0\<rparr>),
                         (''peer-2'', \<lparr>syncState = 0, lastActivity = 0\<rparr>)]]"
  by (simp_all add: fresh_peer_def run_def createCommunity_def Let_def saveCommunity_def
        setTimeout_def init_state_def demo_env_def generateSyncMessageForPeer_def
        getPeerSyncState_def set_syncState_def create_mutator_def garden_doc_def)

lemma exec_timers_ok: "timers_ok S \<Longrightarrow> timers_ok (exec E ev S)"
  by (cases ev)
     (simp_all add: timers_ok_elapse timers_ok_loadCommunity timers_ok_saveCommunity
        timers_ok_createCommunity timers_ok_receive timers_ok_generate timers_ok_updateShape
        timers_ok_deleteShape)

lemma exec_peers_ok: "peers_ok S \<Longrightarrow> peers_ok (exec E ev S)"
  by (cases ev)
     (simp_all add: peers_ok_loadCommunity peers_ok_createCommunity peers_ok_getPeerSyncState
        peers_ok_removePeerSyncState peers_ok_receive peers_ok_generate peers_ok_updateShape
        peers_ok_deleteShape)

lemma run_timers_ok: "timers_ok S \<Longrightarrow> timers_ok (run E evs S)"
  unfolding run_def by (induction evs arbitrary: S) (simp_all add: exec_timers_ok)

lemma run_peers_ok: "peers_ok S \<Longrightarrow> peers_ok (run E evs S)"
  unfolding run_def by (induction evs arbitrary: S) (simp_all add: exec_peers_ok)

lemma init_ok: "timers_ok init_state" "peers_ok init_state"
  by (simp_all add: timers_ok_def peers_ok_def init_state_def)

lemma boot_ok: "timers_ok (boot fs)" "peers_ok (boot fs)"
  by (simp_all add: timers_ok_def peers_ok_def boot_def init_state_def)

lemma boot_empty: "boot Map.empty = init_state"
  by (simp add: boot_def init_state_def)

lemma update_mutator_sets:
  "\<exists>shapes. d_shapes (update_mutator shapeId data d) = Some shapes \<and> map_of shapes shapeId = Some data"
  by (simp add: update_mutator_def Let_def update_conv')

lemma delete_mutator_removes:
  "d_shapes (delete_mutator shapeId d) = Some shapes \<Longrightarrow> map_of shapes shapeId = None"
  by (auto simp: delete_mutator_def delete_conv' split: option.splits if_splits)

lemma garden_resident: "communities garden_state ''garden'' = Some garden_doc"
  by (simp add: garden_state_def run_def createCommunity_def Let_def saveCommunity_def
        setTimeout_def init_state_def demo_env_def create_mutator_def garden_doc_def)

lemma peer_entry_remove_same:
  "peer_entry (removePeerSyncState slug peerId S) slug peerId = None"
  by (simp add: peer_entry_def removePeerSyncState_def Let_def delete_conv' split: option.splits)

lemma peer_entry_remove_other:
  assumes "(slug', q) \<noteq> (slug, peerId)"
  shows "peer_entry (removePeerSyncState slug peerId S) slug' q = peer_entry S slug' q"
proof (cases "slug' = slug")
  case False
  then show ?thesis
    by (simp add: peer_entry_def removePeerSyncState_def Let_def split: option.splits)
next
  case True
  with assms have q: "q \<noteq> peerId" by simp
  show ?thesis
  proof (cases "peerSyncStates S slug")
    case None
    then show ?thesis by (simp add: removePeerSyncState_def)
  next
    case (Some ps)
    have "map_of (AList.delete peerId ps) q = map_of ps q" using q by simp
    moreover have "AList.delete peerId ps = [] \<Longrightarrow> map_of (AList.delete peerId ps) q = None"
      by simp
    ultimately show ?thesis using Some True
      by (auto simp: peer_entry_def removePeerSyncState_def Let_def)
  qed
qed

lemma delete_all_same_key:
  assumes "\<forall>q. q \<noteq> p \<longrightarrow> map_of ps q = None"
  shows "AList.delete p ps = []"
proof -
  have "fst x = p" if "x \<in> set ps" for x
  proof (rule ccontr)
    assume "fst x \<noteq> p"
    with assms have "map_of ps (fst x) = None" by blast
    then have "fst x \<notin> fst ` set ps" by (simp add: map_of_eq_None_iff)
    with that show False by force
  qed
  then show ?thesis by (auto simp: AList.delete_eq filter_empty_conv)
qed

lemma remove_last_entry:
  assumes "\<forall>q. q \<noteq> peerId \<longrightarrow> peer_entry S slug q = None"
  shows "peerSyncStates (removePeerSyncState slug peerId S) slug = None"
proof (cases "peerSyncStates S slug")
  case None
  then show ?thesis by (simp add: removePeerSyncState_def)
next
  case (Some ps)
  with assms have "\<forall>q. q \<noteq> peerId \<longrightarrow> map_of ps q = None" by (simp add: peer_entry_def)
  then have "AList.delete peerId ps = []" by (rule delete_all_same_key)
  with Some show ?thesis by (simp add: removePeerSyncState_def)
qed

lemma get_fresh:
  assumes "peer_entry S slug q = None"
  shows "snd (getPeerSyncState E slug q S) = \<lparr>syncState = am_initSyncState E, lastActivity = clock S\<rparr>"
    and "peer_entry (fst (getPeerSyncState E slug q S)) slug q
           = Some \<lparr>syncState = am_initSyncState E, lastActivity = clock S\<rparr>"
  using assms
  by (auto simp: getPeerSyncState_def peer_entry_def Let_def update_conv' split: option.splits)

lemma remove_absent:
  assumes "peers_ok S" "peer_entry S slug peerId = None"
  shows "removePeerSyncState slug peerId S = S"
proof (cases "peerSyncStates S slug")
  case None
  then show ?thesis by (simp add: removePeerSyncState_def)
next
  case (Some ps)
  with assms have ne: "ps \<noteq> []" and "map_of ps peerId = None"
    by (simp_all add: peers_ok_def peer_entry_def)
  then have "peerId \<notin> fst ` set ps" by (simp add: map_of_eq_None_iff)
  then have "AList.delete peerId ps = ps" by simp
  with Some ne show ?thesis by (simp add: removePeerSyncState_def map_upd_triv)
qed

lemma remove_twice:
  "removePeerSyncState slug peerId (removePeerSyncState slug peerId S)
     = removePeerSyncState slug peerId S"
  by (auto simp: removePeerSyncState_def Let_def delete_idem split: option.splits)

lemma two_peers_table:
  "peerSyncStates (run demo_env two_peers init_state)
     = [''garden'' \<mapsto> [(''peer-1'', \<lparr>syncState = 1, lastActivity = 0\<rparr>),
                         (''peer-2'', \<lparr>syncState = 1, lastActivity = 0\<rparr>)]]"
  by (simp add: two_peers_def run_def createCommunity_def Let_def saveCommunity_def
        setTimeout_def init_state_def demo_env_def generateSyncMessageForPeer_def
        getPeerSyncState_def set_syncState_def)

lemma one_peer_table:
  "peerSyncStates (run demo_env one_peer init_state)
     = [''garden'' \<mapsto> [(''peer-1'', \<lparr>syncState = 1, lastActivity = 0\<rparr>)]]"
  by (simp add: one_peer_def run_def createCommunity_def Let_def saveCommunity_def
        setTimeout_def init_state_def demo_env_def generateSyncMessageForPeer_def
        getPeerSyncState_def set_syncState_def)

lemma binaryPath_inj: "binaryPath E s = binaryPath E s' \<Longrightarrow> s = s'"
  by (simp add: binaryPath_def)

lemma slug_writes_callback:
  "slug_writes E slug (save_callback E s S)
     = slug_writes E slug S
       @ (if s = slug then (case communities S slug of
                              None \<Rightarrow> []
                            | Some doc \<Rightarrow> [(binaryPath E slug, am_save E doc)])
          else [])"
  by (auto simp: slug_writes_def save_callback_def Let_def dest: binaryPath_inj split: option.splits)

lemma slug_writes_fold:
  assumes "communities S slug = Some doc"
  shows "slug_writes E slug (fold (\<lambda>x. save_callback E (t_slug x)) ts S)
     = slug_writes E slug S
       @ replicate (length (filter (\<lambda>t. t_slug t = slug) ts)) (binaryPath E slug, am_save E doc)"
  using assms
proof (induction ts arbitrary: S)
  case Nil
  then show ?case by simp
next
  case (Cons t ts)
  have c: "communities (save_callback E (t_slug t) S) slug = Some doc"
    using Cons.prems by (simp add: save_callback_frame)
  show ?case
    using Cons.IH [OF c] Cons.prems
    by (simp add: slug_writes_callback replicate_app_Cons_same)
qed

lemma slug_writes_elapse:
  assumes "communities S slug = Some doc"
  shows "slug_writes E slug (elapse E d S)
     = slug_writes E slug S
       @ replicate (length (filter (\<lambda>t. t_due t \<le> clock S + d) (pending slug S)))
           (binaryPath E slug, am_save E doc)"
proof -
  have "filter (\<lambda>t. t_slug t = slug) (filter (\<lambda>x. t_due x \<le> clock S + d) (timeouts S))
          = filter (\<lambda>t. t_due t \<le> clock S + d) (pending slug S)"
    by (simp add: pending_def conj_commute)
  moreover have "slug_writes E slug (S\<lparr>clock := c, timeouts := r\<rparr>) = slug_writes E slug S" for c r
    by (simp add: slug_writes_def)
  ultimately show ?thesis
    using slug_writes_fold [of "S\<lparr>clock := clock S + d, timeouts := filter (\<lambda>x. \<not> t_due x \<le> clock S + d) (timeouts S)\<rparr>" slug doc E
            "filter (\<lambda>x. t_due x \<le> clock S + d) (timeouts S)"] assms
    by (simp add: elapse_def Let_def)
qed

lemma pending_elapse:
  "pending slug (elapse E d S) = filter (\<lambda>t. \<not> t_due t \<le> clock S + d) (pending slug S)"
  by (simp add: pending_def elapse_frame conj_commute)

lemma mutate_resident:
  assumes "timers_ok S" "communities S slug = Some doc"
  shows "communities (mutate E slug m S) slug = Some (mutate_doc E m doc)"
    and "pending slug (mutate E slug m S)
           = [\<lparr>t_id = nextTimer S, t_due = clock S + 2000, t_slug = slug\<rparr>]"
    and "writes (mutate E slug m S) = writes S"
    and "clock (mutate E slug m S) = clock S"
    and "timers_ok (mutate E slug m S)"
proof -
  let ?S1 = "S\<lparr>communities := (communities S)(slug \<mapsto> mutate_doc E m doc)\<rparr>"
  have eq: "mutate E slug m S = saveCommunity E slug ?S1"
    using assms(2) by (cases m) (simp_all add: updateShape_def deleteShape_def Let_def)
  have ok: "timers_ok ?S1" using assms(1) by simp
  have res: "communities ?S1 slug = Some (mutate_doc E m doc)" by simp
  show "communities (mutate E slug m S) slug = Some (mutate_doc E m doc)"
    by (simp add: eq saveCommunity_frame)
  show "pending slug (mutate E slug m S)
           = [\<lparr>t_id = nextTimer S, t_due = clock S + 2000, t_slug = slug\<rparr>]"
    using pending_saveCommunity [OF ok res, of E] by (simp add: eq)
  show "writes (mutate E slug m S) = writes S" by (simp add: eq saveCommunity_frame)
  show "clock (mutate E slug m S) = clock S" by (simp add: eq saveCommunity_frame)
  show "timers_ok (mutate E slug m S)" using ok by (simp add: eq timers_ok_saveCommunity)
qed

lemma burst_coalesces:
  assumes "timers_ok S" "communities S slug = Some doc" "armed slug S"
    and "\<forall>x \<in> set ms. fst x < 2000"
  shows "timers_ok (burst E slug ms S)
       \<and> communities (burst E slug ms S) slug = Some (fold (\<lambda>x. mutate_doc E (snd x)) ms doc)
       \<and> armed slug (burst E slug ms S)
       \<and> slug_writes E slug (burst E slug ms S) = slug_writes E slug S"
  using assms
proof (induction ms arbitrary: S doc)
  case Nil
  then show ?case by simp
next
  case (Cons x ms)
  obtain d m where x: "x = (d, m)" by (cases x)
  from Cons.prems x have d: "d < 2000" by simp
  let ?S1 = "elapse E d S"
  let ?S2 = "mutate E slug m ?S1"
  from Cons.prems(3) obtain t where t: "pending slug S = [t]" "t_due t = clock S + 2000"
    by (auto simp: armed_def)
  have ok1: "timers_ok ?S1" using Cons.prems(1) by (rule timers_ok_elapse)
  have res1: "communities ?S1 slug = Some doc" using Cons.prems(2) by (simp add: elapse_frame)
  have w1: "slug_writes E slug ?S1 = slug_writes E slug S"
    using slug_writes_elapse [OF Cons.prems(2), of E d] t d by simp
  have ok2: "timers_ok ?S2" using ok1 res1 by (rule mutate_resident)
  have res2: "communities ?S2 slug = Some (mutate_doc E m doc)" using ok1 res1 by (rule mutate_resident)
  have "armed slug ?S2"
    using mutate_resident(2,4) [OF ok1 res1, of E m] by (simp add: armed_def)
  moreover have w2: "slug_writes E slug ?S2 = slug_writes E slug S"
    using mutate_resident(3) [OF ok1 res1, of E m] w1 by (simp add: slug_writes_def)
  moreover have "\<forall>x \<in> set ms. fst x < 2000" using Cons.prems(4) by simp
  ultimately show ?case
    using Cons.IH [OF ok2 res2] x by simp
qed

lemma files_callback:
  assumes "communities S slug = Some doc"
  shows "files (save_callback E s S) (binaryPath E slug)
           = (if s = slug then Some (am_save E doc) else files S (binaryPath E slug))"
  using assms
  by (auto simp: save_callback_def Let_def dest: binaryPath_inj split: option.splits)

lemma files_fold:
  assumes "communities S slug = Some doc"
  shows "files (fold (\<lambda>x. save_callback E (t_slug x)) ts S) (binaryPath E slug)
           = (if \<exists>t \<in> set ts. t_slug t = slug then Some (am_save E doc)
              else files S (binaryPath E slug))"
  using assms
proof (induction ts arbitrary: S)
  case Nil
  then show ?case by simp
next
  case (Cons t ts)
  have c: "communities (save_callback E (t_slug t) S) slug = Some doc"
    using Cons.prems by (simp add: save_callback_frame)
  show ?case
    using Cons.IH [OF c] files_callback [OF Cons.prems, of E "t_slug t"] by auto
qed

lemma armed_fires:
  assumes "communities S slug = Some doc" "armed slug S" "2000 \<le> quiet"
  shows "slug_writes E slug (elapse E quiet S)
           = slug_writes E slug S @ [(binaryPath E slug, am_save E doc)]"
    and "pending slug (elapse E quiet S) = []"
    and "files (elapse E quiet S) (binaryPath E slug) = Some (am_save E doc)"
proof -
  from assms(2) obtain t where t: "pending slug S = [t]" "t_due t = clock S + 2000"
    by (auto simp: armed_def)
  show w: "slug_writes E slug (elapse E quiet S)
           = slug_writes E slug S @ [(binaryPath E slug, am_save E doc)]"
    using slug_writes_elapse [OF assms(1), of E quiet] t assms(3) by simp
  show "pending slug (elapse E quiet S) = []"
    using t assms(3) by (simp add: pending_elapse)
  show "files (elapse E quiet S) (binaryPath E slug) = Some (am_save E doc)"
  proof -
    have "t \<in> set (pending slug S)" using t by simp
    then have "t \<in> set (timeouts S)" "t_slug t = slug" by (simp_all add: pending_def)
    then have "\<exists>x \<in> set (filter (\<lambda>x. t_due x \<le> clock S + quiet) (timeouts S)). t_slug x = slug"
      using t(2) assms(3) by auto
    then show ?thesis
      using files_fold [of "S\<lparr>clock := clock S + quiet,
                               timeouts := filter (\<lambda>x. \<not> t_due x \<le> clock S + quiet) (timeouts S)\<rparr>"
                          slug doc E "filter (\<lambda>x. t_due x \<le> clock S + quiet) (timeouts S)"]
            assms(1)
      by (simp add: elapse_def Let_def)
  qed
qed

lemma armed_after_mutate:
  assumes "timers_ok S" "communities S slug = Some doc"
  shows "armed slug (mutate E slug m S)"
  using mutate_resident(2,4) [OF assms, of E m] by (simp add: armed_def)

lemma sum_list_bound:
  assumes "sum_list (map fst (ms :: (nat \<times> 'a) list)) < n"
  shows "\<forall>x \<in> set ms. fst x < n"
proof
  fix x assume "x \<in> set ms"
  then have "fst x \<in> set (map fst ms)" by simp
  then have "fst x \<le> sum_list (map fst ms)" by (simp add: member_le_sum_list)
  with assms show "fst x < n" by simp
qed

lemma saveCommunity_cancels:
  assumes "timers_ok S" "communities S slug = Some doc" "t \<in> set (pending slug S)"
  shows "t \<notin> set (timeouts (saveCommunity E slug S))"
proof
  assume "t \<in> set (timeouts (saveCommunity E slug S))"
  moreover from assms(3) have s: "t_slug t = slug" and old: "t \<in> set (timeouts S)"
    by (simp_all add: pending_def)
  ultimately have "t \<in> set (pending slug (saveCommunity E slug S))" by (simp add: pending_def)
  then have "t_id t = nextTimer S" using pending_saveCommunity [OF assms(1,2), of E] by simp
  moreover have "t_id t < nextTimer S" using assms(1) old by (simp add: timers_ok_def)
  ultimately show False by simp
qed

lemma binary_not_json: "binaryPath E s \<noteq> jsonPath E s'"
proof
  assume "binaryPath E s = jsonPath E s'"
  then have "last (binaryPath E s) = last (jsonPath E s')" by simp
  then show False by (simp add: binaryPath_def jsonPath_def)
qed

lemma json_file_callback:
  "files (save_callback E s S) (jsonPath E slug) = files S (jsonPath E slug)"
  using binary_not_json [of E s slug]
  by (auto simp: save_callback_def Let_def split: option.splits)

lemma json_file_fold:
  "files (fold (\<lambda>x. save_callback E (t_slug x)) ts S) (jsonPath E slug) = files S (jsonPath E slug)"
  by (induction ts arbitrary: S) (simp_all add: json_file_callback)

lemma json_file_elapse:
  "files (elapse E d S) (jsonPath E slug) = files S (jsonPath E slug)"
  by (simp add: elapse_def Let_def json_file_fold)

lemma due_timer_writes:
  assumes "communities S slug = Some doc" "t \<in> set (timeouts S)" "t_slug t = slug"
    and "t_due t \<le> clock S + d"
  shows "files (elapse E d S) (binaryPath E slug) = Some (am_save E doc)"
proof -
  have "\<exists>x \<in> set (filter (\<lambda>x. t_due x \<le> clock S + d) (timeouts S)). t_slug x = slug"
    using assms(2-4) by auto
  then show ?thesis
    using files_fold [of "S\<lparr>clock := clock S + d,
                             timeouts := filter (\<lambda>x. \<not> t_due x \<le> clock S + d) (timeouts S)\<rparr>"
                        slug doc E "filter (\<lambda>x. t_due x \<le> clock S + d) (timeouts S)"]
          assms(1)
    by (simp add: elapse_def Let_def)
qed

lemma load_cached:
  "communities S slug = Some d \<Longrightarrow> loadCommunity E slug S = (S, Some d)"
  by (simp add: loadCommunity_def)

lemma load_binary:
  "communities S slug = None \<Longrightarrow> files S (binaryPath E slug) = Some buffer \<Longrightarrow>
   am_load E buffer = Some d \<Longrightarrow>
   loadCommunity E slug S = (S\<lparr>communities := (communities S)(slug \<mapsto> d)\<rparr>, Some d)"
  by (simp add: loadCommunity_def)

lemma load_json:
  "communities S slug = None \<Longrightarrow> files S (binaryPath E slug) = None \<Longrightarrow>
   files S (jsonPath E slug) = Some content \<Longrightarrow> file_json E content = Some data \<Longrightarrow>
   loadCommunity E slug S
     = (saveCommunity E slug (S\<lparr>communities := (communities S)(slug \<mapsto> jsonToAutomerge E data)\<rparr>),
        Some (jsonToAutomerge E data))"
  by (simp add: loadCommunity_def Let_def)

lemma load_missing:
  "communities S slug = None \<Longrightarrow> files S (binaryPath E slug) = None \<Longrightarrow>
   files S (jsonPath E slug) = None \<Longrightarrow> loadCommunity E slug S = (S, None)"
  by (simp add: loadCommunity_def)

lemma load_populates:
  "snd (loadCommunity E slug S) = Some d \<Longrightarrow> communities (fst (loadCommunity E slug S)) slug = Some d"
  by (auto simp: loadCommunity_def Let_def saveCommunity_frame split: option.splits)

lemma load_writes_nothing:
  "files (fst (loadCommunity E slug S)) = files S"
  "writes (fst (loadCommunity E slug S)) = writes S"
  by (auto simp: loadCommunity_def Let_def saveCommunity_frame split: option.splits)

lemma map_of_fold_update:
  "map_of (fold (\<lambda>(k, v). AList.update k v) xs acc) = map_of acc ++ map_of (rev xs)"
proof (induction xs arbitrary: acc)
  case Nil
  then show ?case by simp
next
  case (Cons x xs)
  obtain k v where x: "x = (k, v)" by (cases x)
  have "map_of (fold (\<lambda>(k, v). AList.update k v) xs (AList.update k v acc))
          = map_of (AList.update k v acc) ++ map_of (rev xs)"
    by (rule Cons.IH)
  also have "\<dots> = map_of acc ++ map_of (rev (x # xs))"
    by (rule ext) (simp add: x update_conv' map_add_def split: option.splits)
  finally show ?case by (simp add: x)
qed

lemma import_mutator_content:
  "d_meta (import_mutator data d) = Some (doc_meta data)"
  "\<exists>shapes. d_shapes (import_mutator data d) = Some shapes
       \<and> map_of shapes = map_of (rev (doc_shapes data))"
  by (simp_all add: import_mutator_def map_of_fold_update)

lemma demo_fields:
  "STORAGE_DIR demo_env = ''./data/communities''"
  "am_init demo_env = \<lparr>d_meta = None, d_shapes = None\<rparr>"
  "am_change demo_env doc message f = f doc"
  "am_load demo_env [] = None"
  "am_load demo_env (b # bs) = Some \<lparr>d_meta = None, d_shapes = Some []\<rparr>"
  "am_save demo_env = demo_save"
  "am_initSyncState demo_env = 0"
  "file_json demo_env [] = None"
  "file_json demo_env (b # bs)
     = Some \<lparr>doc_meta = \<lparr>meta_name = ''Garden'', meta_slug = ''garden'', meta_createdAt = ''2024''\<rparr>,
             doc_shapes = [(''s1'', demo_shape)]\<rparr>"
  "toISOString demo_env t = ''T+'' @ replicate t CHR ''1''"
  "JSON_stringify demo_env = demo_stringify"
  by (simp_all add: demo_env_def)

lemma demo_paths:
  "binaryPath demo_env ''garden'' = ''./data/communities/garden.automerge''"
  "jsonPath demo_env ''garden'' = ''./data/communities/garden.json''"
  "binaryPath demo_env ''ghost'' = ''./data/communities/ghost.automerge''"
  "jsonPath demo_env ''ghost'' = ''./data/communities/ghost.json''"
  by (simp_all add: binaryPath_def jsonPath_def demo_fields)

lemma handleAPI_post:
  assumes "req_method req = ''POST''" "req_pathname req = ''/api/communities''"
    and "req_json req = Some b"
  shows "handleAPI E req S =
     (case (body_name b, body_slug b) of
        (Some name, Some slug) \<Rightarrow>
          (if name = [] \<or> slug = []
           then (S, error_response 400 ''Name and slug are required'')
           else if \<not> slug_valid slug
           then (S, error_response 400
                   ''Slug must contain only lowercase letters, numbers, and hyphens'')
           else if communityExists E slug S
           then (S, error_response 409 ''Community already exists'')
           else (fst (createCommunity E name slug S),
                 json_response 200
                   (JObj [(''url'', JStr (''https://'' @ slug @ ''.rspace.online'')),
                          (''slug'', JStr slug), (''name'', JStr name)])))
      | _ \<Rightarrow> (S, error_response 400 ''Name and slug are required''))"
  using assms by (simp add: handleAPI_def)

lemma slug_valid_example: "\<not> slug_valid ''My Slug!''" "slug_valid ''garden''" "slug_valid ''my-space-2''"
  by (simp_all add: slug_valid_def slug_char_def)

lemma send_others_sent:
  "send_others peerId payload clients V
     = V\<lparr>sent := sent V @ map (\<lambda>(p, c). (c, payload))
                         (filter (\<lambda>(p, c). p \<noteq> peerId \<and> readyState V c = OPEN) clients)\<rparr>"
proof (induction clients arbitrary: V)
  case Nil
  then show ?case by (simp add: send_others_def)
next
  case (Cons x clients)
  obtain p c where x: "x = (p, c)" by (cases x)
  have step: "send_others peerId payload (x # clients) V
      = send_others peerId payload clients
          (if p \<noteq> peerId \<and> readyState V c = OPEN then send c payload V else V)"
    by (simp add: send_others_def x)
  show ?case
    unfolding step Cons.IH by (simp add: x send_def)
qed

lemma broadcast_others_sent:
  "broadcast_others slug peerId payload V
     = V\<lparr>sent := sent V @ map (\<lambda>(p, c). (c, payload))
                         (filter (\<lambda>(p, c). p \<noteq> peerId \<and> readyState V c = OPEN)
                            (clients_of slug V))\<rparr>"
  by (simp add: broadcast_others_def clients_of_def send_others_sent split: option.splits)

lemma ws_message_ping:
  assumes "JSON_parse E raw = Some msg" "get_prop msg ''type'' = Some (JStr ''ping'')"
  shows "ws_message E w raw V
           = send w (JSON_stringify E (obj [(''type'', Some (JStr ''pong'')),
                                            (''timestamp'', get_prop msg ''timestamp'')])) V"
  using assms by (cases msg) (simp_all add: ws_message_def Let_def)

lemma ws_message_presence:
  assumes "JSON_parse E raw = Some msg" "get_prop msg ''type'' = Some (JStr ''presence'')"
  shows "ws_message E w raw V
           = broadcast_others (communitySlug w) (ws_peerId w)
               (presence_payload E (ws_peerId w) msg) V"
  using assms by (cases msg) (simp_all add: ws_message_def Let_def presence_payload_def)

lemma spread_keeps_fields:
  assumes "distinct (map fst fs)" "map_of fs k = Some v"
  shows "map_of (spread base (JObj fs)) k = Some v"
proof -
  have "(k, v) \<in> set (rev fs)" using assms(2) by (simp add: map_of_SomeD)
  moreover have "distinct (map fst (rev fs))" using assms(1) by (simp add: rev_map [symmetric])
  ultimately have "map_of (rev fs) k = Some v" by (rule map_of_is_SomeI [rotated])
  then show ?thesis by (simp add: spread_def map_of_fold_update map_add_def)
qed

lemma spread_tags_sender:
  assumes "map_of fs ''peerId'' = None"
  shows "map_of (spread [(''type'', JStr ''presence''), (''peerId'', JStr peerId)] (JObj fs)) ''peerId''
           = Some (JStr peerId)"
proof -
  have "map_of (rev fs) ''peerId'' = None"
    using assms by (simp add: map_of_eq_None_iff)
  then show ?thesis by (simp add: spread_def map_of_fold_update map_add_def)
qed

lemma ws_close_store:
  "store (ws_close w V) = removePeerSyncState (communitySlug w) (ws_peerId w) (store V)"
  by (simp add: ws_close_def Let_def split: option.splits)

lemma updated_garden:
  "communities (updateShape demo_env ''garden'' ''s1'' demo_shape garden_state) ''garden''
     = Some (garden_doc\<lparr>d_shapes := Some [(''s1'', demo_shape)]\<rparr>)"
  using garden_resident
  by (simp add: updateShape_def Let_def saveCommunity_frame demo_fields update_mutator_def
        garden_doc_def)

subsection \<open>The table of timer ids, and what fires\<close>

lemma stored_ok_upd [simp]:
  "stored_ok (S\<lparr>communities := c\<rparr>) = stored_ok S"
  "stored_ok (S\<lparr>peerSyncStates := p\<rparr>) = stored_ok S"
  by (simp_all add: stored_ok_def)

lemma stored_ok_saveCommunity:
  assumes "stored_ok S"
  shows "stored_ok (saveCommunity E slug S)"
proof (cases "communities S slug")
  case None
  then show ?thesis using assms by (simp add: saveCommunity_def)
next
  case (Some doc)
  have st: "saveTimers (saveCommunity E slug S) = (saveTimers S)(slug \<mapsto> nextTimer S)"
    and nt: "nextTimer (saveCommunity E slug S) = Suc (nextTimer S)"
    using Some
    by (simp_all add: saveCommunity_def setTimeout_def clearTimeout_def Let_def split: option.splits)
  from assms have lt: "\<And>s i. saveTimers S s = Some i \<Longrightarrow> i < nextTimer S"
    and inj: "\<And>s s' i. saveTimers S s = Some i \<Longrightarrow> saveTimers S s' = Some i \<Longrightarrow> s = s'"
    by (auto simp: stored_ok_def)
  show ?thesis
    unfolding stored_ok_def st nt
  proof (intro conjI allI impI)
    fix s i assume "((saveTimers S)(slug \<mapsto> nextTimer S)) s = Some i"
    then show "i < Suc (nextTimer S)" using lt [of s i] by (auto split: if_splits)
  next
    fix s s' i
    assume "((saveTimers S)(slug \<mapsto> nextTimer S)) s = Some i
          \<and> ((saveTimers S)(slug \<mapsto> nextTimer S)) s' = Some i"
    then show "s = s'" using lt [of s i] lt [of s' i] inj [of s i s']
      by (auto split: if_splits)
  qed
qed

lemma stored_ok_elapse [simp]: "stored_ok (elapse E d S) = stored_ok S"
  by (simp add: stored_ok_def elapse_frame)

lemma stored_ok_set_syncState [simp]:
  "stored_ok (set_syncState slug peerId ss S) = stored_ok S"
  by (simp add: stored_ok_def set_syncState_frame)

lemma stored_ok_getPeerSyncState [simp]:
  "stored_ok (fst (getPeerSyncState E slug peerId S)) = stored_ok S"
  by (simp add: stored_ok_def getPeerSyncState_frame)

lemma stored_ok_removePeerSyncState [simp]:
  "stored_ok (removePeerSyncState slug peerId S) = stored_ok S"
  by (simp add: removePeerSyncState_def Let_def split: option.splits)

lemma stored_ok_loadCommunity:
  "stored_ok S \<Longrightarrow> stored_ok (fst (loadCommunity E slug S))"
  by (auto simp: loadCommunity_def Let_def stored_ok_saveCommunity split: option.splits)

lemma stored_ok_createCommunity:
  "stored_ok S \<Longrightarrow> stored_ok (fst (createCommunity E name slug S))"
  by (simp add: createCommunity_def Let_def stored_ok_saveCommunity)

lemma stored_ok_updateShape:
  "stored_ok S \<Longrightarrow> stored_ok (updateShape E slug shapeId data S)"
  by (simp add: updateShape_def Let_def stored_ok_saveCommunity split: option.splits)

lemma stored_ok_deleteShape:
  "stored_ok S \<Longrightarrow> stored_ok (deleteShape E slug shapeId S)"
  by (simp add: deleteShape_def Let_def stored_ok_saveCommunity split: option.splits)

lemma stored_ok_generate:
  "stored_ok S \<Longrightarrow> stored_ok (fst (generateSyncMessageForPeer E slug peerId S))"
  by (simp add: generateSyncMessageForPeer_def Let_def split: option.splits prod.splits)
     (metis fst_conv stored_ok_getPeerSyncState)

lemma stored_ok_merged:
  "stored_ok S \<Longrightarrow> stored_ok (merged E slug peerId newDoc nss hp S)"
  by (simp add: merged_def Let_def stored_ok_saveCommunity)

lemma stored_ok_receive:
  assumes "stored_ok S"
  shows "stored_ok (fst (receiveSyncMessage E slug peerId message S))"
  using receive_state_cases [of E slug peerId message S] assms
  by (auto simp: stored_ok_merged)

lemma exec_stored_ok: "stored_ok S \<Longrightarrow> stored_ok (exec E ev S)"
  by (cases ev)
     (simp_all add: stored_ok_loadCommunity stored_ok_saveCommunity
        stored_ok_createCommunity stored_ok_receive stored_ok_generate stored_ok_updateShape
        stored_ok_deleteShape)

lemma run_stored_ok: "stored_ok S \<Longrightarrow> stored_ok (run E evs S)"
  unfolding run_def by (induction evs arbitrary: S) (simp_all add: exec_stored_ok)

lemma boot_stored_ok: "stored_ok (boot fs)"
  by (simp add: stored_ok_def boot_def init_state_def)

lemma saveCommunity_spares_others:
  assumes "timers_ok S" "stored_ok S" "slug' \<noteq> slug"
  shows "pending slug' (saveCommunity E slug S) = pending slug' S"
proof (cases "communities S slug")
  case None
  then show ?thesis by (simp add: saveCommunity_def)
next
  case (Some doc)
  show ?thesis
  proof (cases "saveTimers S slug")
    case None
    with Some assms(3) show ?thesis
      by (simp add: pending_def saveCommunity_def setTimeout_def Let_def)
  next
    case (Some old)
    have "t_id t \<noteq> old" if "t \<in> set (timeouts S)" "t_slug t = slug'" for t
    proof
      assume "t_id t = old"
      moreover from assms(1) that have "saveTimers S slug' = Some (t_id t)"
        by (auto simp: timers_ok_def)
      ultimately have "slug' = slug" using Some assms(2) by (auto simp: stored_ok_def)
      with assms(3) show False by simp
    qed
    then have "filter (\<lambda>t. t_slug t = slug') (filter (\<lambda>x. t_id x \<noteq> old) (timeouts S))
                 = filter (\<lambda>t. t_slug t = slug') (timeouts S)"
      by (auto intro: filter_cong)
    with Some \<open>communities S slug = Some doc\<close> assms(3) show ?thesis
      by (simp add: pending_def saveCommunity_def setTimeout_def clearTimeout_def Let_def)
  qed
qed

lemma pending_fires:
  assumes "communities S slug = Some doc" "pending slug S = [t]" "t_due t \<le> clock S + quiet"
  shows "slug_writes E slug (elapse E quiet S)
           = slug_writes E slug S @ [(binaryPath E slug, am_save E doc)]"
    and "pending slug (elapse E quiet S) = []"
    and "files (elapse E quiet S) (binaryPath E slug) = Some (am_save E doc)"
proof -
  show "slug_writes E slug (elapse E quiet S)
           = slug_writes E slug S @ [(binaryPath E slug, am_save E doc)]"
    using slug_writes_elapse [OF assms(1), of E quiet] assms(2,3) by simp
  show "pending slug (elapse E quiet S) = []"
    using assms(2,3) by (simp add: pending_elapse)
  have "t \<in> set (pending slug S)" using assms(2) by simp
  then have a: "t \<in> set (timeouts S)" and b: "t_slug t = slug" by (simp_all add: pending_def)
  show "files (elapse E quiet S) (binaryPath E slug) = Some (am_save E doc)"
    by (rule due_timer_writes [OF assms(1) a b assms(3)])
qed

lemma pending_waits:
  assumes "communities S slug = Some doc" "pending slug S = [t]" "clock S + d < t_due t"
  shows "slug_writes E slug (elapse E d S) = slug_writes E slug S"
    and "pending slug (elapse E d S) = [t]"
  using slug_writes_elapse [OF assms(1), of E d] assms(2,3)
  by (simp_all add: pending_elapse)

lemma receive_no_patches:
  assumes "communities S slug = Some doc"
    and "am_receiveSyncMessage E doc
           (case peer_entry S slug peerId of None \<Rightarrow> am_initSyncState E | Some st \<Rightarrow> syncState st)
           delta = Some (newDoc, nss, patch)"
    and "\<not> has_patches patch"
  shows "fst (receiveSyncMessage E slug peerId delta S) = merged E slug peerId newDoc nss False S"
  using receive_resident [OF assms(1,2)] assms(3)
  by (simp add: Let_def split: option.splits)

lemma receive_no_patches_keeps_timer:
  assumes "communities S slug = Some doc"
    and "am_receiveSyncMessage E doc
           (case peer_entry S slug peerId of None \<Rightarrow> am_initSyncState E | Some st \<Rightarrow> syncState st)
           delta = Some (newDoc, nss, patch)"
    and "\<not> has_patches patch"
  shows "timeouts (fst (receiveSyncMessage E slug peerId delta S)) = timeouts S"
    and "communities (fst (receiveSyncMessage E slug peerId delta S)) slug = Some newDoc"
    and "writes (fst (receiveSyncMessage E slug peerId delta S)) = writes S"
    and "clock (fst (receiveSyncMessage E slug peerId delta S)) = clock S"
  unfolding receive_no_patches [OF assms]
  by (simp_all add: merged_no_patches_timers merged_frame)

lemma peer_entry_elapse [simp]: "peer_entry (elapse E d S) = peer_entry S"
  by (rule peer_entry_cong) (simp add: elapse_frame)

lemma fires_current_replica:
  assumes "communities B slug = Some final" "armed slug B"
    and "d1 < 2000" "2000 \<le> d1 + d2"
    and "am_receiveSyncMessage E final
           (case peer_entry B slug peerId of None \<Rightarrow> am_initSyncState E | Some st \<Rightarrow> syncState st)
           delta = Some (newDoc, cursor, patch)"
    and "\<not> has_patches patch"
  shows "pending slug (fst (receiveSyncMessage E slug peerId delta (elapse E d1 B))) = pending slug B"
    and "communities (fst (receiveSyncMessage E slug peerId delta (elapse E d1 B))) slug = Some newDoc"
    and "slug_writes E slug (fst (receiveSyncMessage E slug peerId delta (elapse E d1 B)))
           = slug_writes E slug B"
    and "slug_writes E slug (elapse E d2 (fst (receiveSyncMessage E slug peerId delta (elapse E d1 B))))
           = slug_writes E slug B @ [(binaryPath E slug, am_save E newDoc)]"
    and "files (elapse E d2 (fst (receiveSyncMessage E slug peerId delta (elapse E d1 B))))
           (binaryPath E slug) = Some (am_save E newDoc)"
proof -
  let ?X = "elapse E d1 B"
  let ?R = "fst (receiveSyncMessage E slug peerId delta ?X)"
  from assms(2) obtain t where t: "pending slug B = [t]" "t_due t = clock B + 2000"
    by (auto simp: armed_def)
  have late: "clock B + d1 < t_due t" using t(2) assms(3) by simp
  have resX: "communities ?X slug = Some final" using assms(1) by (simp add: elapse_frame)
  have pX: "pending slug ?X = [t]" and wX: "slug_writes E slug ?X = slug_writes E slug B"
    using pending_waits [OF assms(1) t(1) late, of E] by simp_all
  have m: "am_receiveSyncMessage E final
           (case peer_entry ?X slug peerId of None \<Rightarrow> am_initSyncState E | Some st \<Rightarrow> syncState st)
           delta = Some (newDoc, cursor, patch)"
    using assms(5) by simp
  note R = receive_no_patches_keeps_timer [OF resX m assms(6)]
  show pR: "pending slug ?R = pending slug B" using R(1) pX t(1) by (simp add: pending_def)
  show resR: "communities ?R slug = Some newDoc" by (rule R(2))
  show wR: "slug_writes E slug ?R = slug_writes E slug B"
    using R(3) wX by (simp add: slug_writes_def)
  have due: "t_due t \<le> clock ?R + d2"
    using t(2) assms(4) R(4) by (simp add: elapse_frame)
  have pR': "pending slug ?R = [t]" using pR t(1) by simp
  show "slug_writes E slug (elapse E d2 ?R)
           = slug_writes E slug B @ [(binaryPath E slug, am_save E newDoc)]"
    using pending_fires(1) [OF resR pR' due, of E] wR by simp
  show "files (elapse E d2 ?R) (binaryPath E slug) = Some (am_save E newDoc)"
    by (rule pending_fires(3) [OF resR pR' due])
qed

lemma not_cached_noop:
  assumes "communities S slug = None"
  shows "saveCommunity E slug S = S" "mutate E slug m S = S"
  using assms by (cases m; simp add: saveCommunity_def updateShape_def deleteShape_def)+

lemma peer_entry_mutate [simp]: "peer_entry (mutate E slug m S) = peer_entry S"
  by (cases m) (simp_all add: updateShape_def deleteShape_def Let_def split: option.splits)

lemma peer_entry_burst [simp]: "peer_entry (burst E slug ms S) = peer_entry S"
  by (induction ms arbitrary: S) auto

lemma load_canonical:
  "communities S slug = None \<Longrightarrow> canonical_record E slug S = Some replica \<Longrightarrow>
   loadCommunity E slug S = (S\<lparr>communities := (communities S)(slug \<mapsto> replica)\<rparr>, Some replica)"
  by (simp add: loadCommunity_def canonical_record_def)

lemma load_legacy:
  "communities S slug = None \<Longrightarrow> canonical_record E slug S = None \<Longrightarrow>
   legacy_record E slug S = Some data \<Longrightarrow>
   loadCommunity E slug S
     = (saveCommunity E slug (S\<lparr>communities := (communities S)(slug \<mapsto> jsonToAutomerge E data)\<rparr>),
        Some (jsonToAutomerge E data))"
  by (auto simp: loadCommunity_def canonical_record_def legacy_record_def Let_def
           split: option.splits)

lemma load_nothing:
  "communities S slug = None \<Longrightarrow> canonical_record E slug S = None \<Longrightarrow>
   legacy_record E slug S = None \<Longrightarrow> loadCommunity E slug S = (S, None)"
  by (auto simp: loadCommunity_def canonical_record_def legacy_record_def split: option.splits)

lemma record_meaning:
  "(canonical_record E slug S = None)
     = (files S (binaryPath E slug) = None
        \<or> (\<exists>buffer. files S (binaryPath E slug) = Some buffer \<and> am_load E buffer = None))"
  "(legacy_record E slug S = None)
     = (files S (jsonPath E slug) = None
        \<or> (\<exists>content. files S (jsonPath E slug) = Some content \<and> file_json E content = None))"
  "(canonical_record E slug S = Some replica)
     = (\<exists>buffer. files S (binaryPath E slug) = Some buffer \<and> am_load E buffer = Some replica)"
  "(legacy_record E slug S = Some data)
     = (\<exists>content. files S (jsonPath E slug) = Some content \<and> file_json E content = Some data)"
  by (auto simp: canonical_record_def legacy_record_def split: option.splits)

lemma handleAPI_undecodable:
  assumes "req_method req = ''POST''" "req_pathname req = ''/api/communities''"
    and "req_json req = None"
  shows "handleAPI E req S = (S, error_response 500 ''Failed to create community'')"
  using assms by (simp add: handleAPI_def)

lemma status_error_response [simp]: "status (error_response st msg) = st"
  by (simp add: error_response_def json_response_def)

lemma status_json_response [simp]: "status (json_response st b) = st"
  by (simp add: json_response_def)

section \<open>The claims\<close>

text \<open>
  C1, amended. \<^verbatim>\<open>loadCommunity\<close> returns the cached replica when there is one. Otherwise, when
  the binary file exists and loads, it returns the loaded replica and caches it, whether
  or not a JSON file exists too. Otherwise, that is when the binary file is absent or
  \<^verbatim>\<open>Automerge.load\<close> throws on it, and the JSON file exists and parses, it returns the
  replica made by one \<^verbatim>\<open>Automerge.change\<close> (``Import from JSON'') on an empty document, which
  copies the meta data and every shape, and caches it; no file is written during the
  load: the write of the binary file is scheduled through \<^verbatim>\<open>saveCommunity\<close>, and once
  2000 ms have passed the binary file holds the serialized replica, the JSON file being as
  it was. Otherwise, that is when the JSON file is absent too or does not parse, it
  returns null and changes nothing. Whenever it returns a replica, the cache holds that
  replica.
\<close>

theorem load_order:
  "(communities S slug = Some cached \<longrightarrow> loadCommunity E slug S = (S, Some cached))
   \<and> (communities S slug = None \<and> canonical_record E slug S = Some replica \<longrightarrow>
          loadCommunity E slug S = (S\<lparr>communities := (communities S)(slug \<mapsto> replica)\<rparr>, Some replica))
   \<and> (communities S slug = None \<and> canonical_record E slug S = None
        \<and> legacy_record E slug S = Some data \<longrightarrow>
          (let imported = am_change E (am_init E) ''Import from JSON'' (import_mutator data);
               L = fst (loadCommunity E slug S)
           in snd (loadCommunity E slug S) = Some imported
              \<and> communities L = (communities S)(slug \<mapsto> imported)
              \<and> files L = files S \<and> writes L = writes S
              \<and> saveTimers L slug = Some (nextTimer S)
              \<and> \<lparr>t_id = nextTimer S, t_due = clock S + 2000, t_slug = slug\<rparr> \<in> set (timeouts L)
              \<and> (\<forall>quiet. 2000 \<le> quiet \<longrightarrow>
                    files (elapse E quiet L) (binaryPath E slug) = Some (am_save E imported)
                    \<and> files (elapse E quiet L) (jsonPath E slug) = files S (jsonPath E slug))))
   \<and> (communities S slug = None \<and> canonical_record E slug S = None
        \<and> legacy_record E slug S = None \<longrightarrow> loadCommunity E slug S = (S, None))
   \<and> (\<forall>d. snd (loadCommunity E slug S) = Some d \<longrightarrow>
          communities (fst (loadCommunity E slug S)) slug = Some d)
   \<and> (canonical_record E slug S = None)
        = (files S (binaryPath E slug) = None
           \<or> (\<exists>buffer. files S (binaryPath E slug) = Some buffer \<and> am_load E buffer = None))
   \<and> (legacy_record E slug S = None)
        = (files S (jsonPath E slug) = None
           \<or> (\<exists>content. files S (jsonPath E slug) = Some content \<and> file_json E content = None))
   \<and> (canonical_record E slug S = Some replica)
        = (\<exists>buffer. files S (binaryPath E slug) = Some buffer \<and> am_load E buffer = Some replica)
   \<and> (legacy_record E slug S = Some data)
        = (\<exists>content. files S (jsonPath E slug) = Some content \<and> file_json E content = Some data)
   \<and> d_meta (import_mutator data draft0) = Some (doc_meta data)
   \<and> (\<exists>shapes. d_shapes (import_mutator data draft0) = Some shapes
          \<and> map_of shapes = map_of (rev (doc_shapes data)))"
proof -
  have 1: "communities S slug = Some cached \<longrightarrow> loadCommunity E slug S = (S, Some cached)"
    by (simp add: load_cached)
  have 2: "communities S slug = None \<and> canonical_record E slug S = Some replica \<longrightarrow>
          loadCommunity E slug S = (S\<lparr>communities := (communities S)(slug \<mapsto> replica)\<rparr>, Some replica)"
    by (simp add: load_canonical)
  have 3: "communities S slug = None \<and> canonical_record E slug S = None
        \<and> legacy_record E slug S = Some data \<longrightarrow>
          (let imported = am_change E (am_init E) ''Import from JSON'' (import_mutator data);
               L = fst (loadCommunity E slug S)
           in snd (loadCommunity E slug S) = Some imported
              \<and> communities L = (communities S)(slug \<mapsto> imported)
              \<and> files L = files S \<and> writes L = writes S
              \<and> saveTimers L slug = Some (nextTimer S)
              \<and> \<lparr>t_id = nextTimer S, t_due = clock S + 2000, t_slug = slug\<rparr> \<in> set (timeouts L)
              \<and> (\<forall>quiet. 2000 \<le> quiet \<longrightarrow>
                    files (elapse E quiet L) (binaryPath E slug) = Some (am_save E imported)
                    \<and> files (elapse E quiet L) (jsonPath E slug) = files S (jsonPath E slug)))"
  proof
    assume h: "communities S slug = None \<and> canonical_record E slug S = None
        \<and> legacy_record E slug S = Some data"
    define imported where "imported = am_change E (am_init E) ''Import from JSON'' (import_mutator data)"
    define S1 where "S1 = S\<lparr>communities := (communities S)(slug \<mapsto> imported)\<rparr>"
    define L where "L = fst (loadCommunity E slug S)"
    from h have l: "loadCommunity E slug S = (saveCommunity E slug S1, Some imported)"
      by (simp add: load_legacy jsonToAutomerge_def imported_def S1_def)
    then have L: "L = saveCommunity E slug S1" by (simp add: L_def)
    have res1: "communities S1 slug = Some imported" by (simp add: S1_def)
    have c: "communities L = (communities S)(slug \<mapsto> imported)"
      and f: "files L = files S" and w: "writes L = writes S" and k: "clock L = clock S"
      by (simp_all add: L saveCommunity_frame S1_def)
    have timer: "saveTimers L slug = Some (nextTimer S)"
      "\<lparr>t_id = nextTimer S, t_due = clock S + 2000, t_slug = slug\<rparr> \<in> set (timeouts L)"
      using saveCommunity_resident(1,2) [OF res1, of E] by (simp_all add: L S1_def)
    have fire: "files (elapse E quiet L) (binaryPath E slug) = Some (am_save E imported)
                \<and> files (elapse E quiet L) (jsonPath E slug) = files S (jsonPath E slug)"
      if "2000 \<le> quiet" for quiet
    proof -
      have "communities L slug = Some imported" by (simp add: c)
      from due_timer_writes [OF this timer(2), of quiet E] that k
      have "files (elapse E quiet L) (binaryPath E slug) = Some (am_save E imported)" by simp
      moreover have "files (elapse E quiet L) (jsonPath E slug) = files S (jsonPath E slug)"
        by (simp add: json_file_elapse f)
      ultimately show ?thesis by simp
    qed
    show "let imported = am_change E (am_init E) ''Import from JSON'' (import_mutator data);
              L = fst (loadCommunity E slug S)
          in snd (loadCommunity E slug S) = Some imported
             \<and> communities L = (communities S)(slug \<mapsto> imported)
             \<and> files L = files S \<and> writes L = writes S
             \<and> saveTimers L slug = Some (nextTimer S)
             \<and> \<lparr>t_id = nextTimer S, t_due = clock S + 2000, t_slug = slug\<rparr> \<in> set (timeouts L)
             \<and> (\<forall>quiet. 2000 \<le> quiet \<longrightarrow>
                   files (elapse E quiet L) (binaryPath E slug) = Some (am_save E imported)
                   \<and> files (elapse E quiet L) (jsonPath E slug) = files S (jsonPath E slug))"
      unfolding Let_def imported_def [symmetric] L_def [symmetric]
      using l c f w timer fire by simp
  qed
  have 4: "communities S slug = None \<and> canonical_record E slug S = None
        \<and> legacy_record E slug S = None \<longrightarrow> loadCommunity E slug S = (S, None)"
    by (simp add: load_nothing)
  have 5: "\<forall>d. snd (loadCommunity E slug S) = Some d \<longrightarrow>
          communities (fst (loadCommunity E slug S)) slug = Some d"
    by (simp add: load_populates)
  note 6 = record_meaning(1) [of E slug S] and 7 = record_meaning(2) [of E slug S]
    and m1 = record_meaning(3) [of E slug S replica] and m2 = record_meaning(4) [of E slug S data]
  note 8 = import_mutator_content(1) [of data draft0]
    and 9 = import_mutator_content(2) [of data draft0]
  show ?thesis by (intro conjI) (fact 1 2 3 4 5 6 7 m1 m2 8 9)+
qed

theorem load_order_witness:
  "loadCommunity demo_env ''garden'' garden_state = (garden_state, Some garden_doc)
   \<and> loadCommunity demo_env ''garden'' both_state
        = (both_state\<lparr>communities := [''garden'' \<mapsto> \<lparr>d_meta = None, d_shapes = Some []\<rparr>]\<rparr>,
           Some \<lparr>d_meta = None, d_shapes = Some []\<rparr>)
   \<and> snd (loadCommunity demo_env ''garden'' legacy_state) = Some migrated_doc
   \<and> files (fst (loadCommunity demo_env ''garden'' legacy_state)) = files legacy_state
   \<and> files (elapse demo_env 2000 (fst (loadCommunity demo_env ''garden'' legacy_state)))
        (binaryPath demo_env ''garden'') = Some [1, 1]
   \<and> loadCommunity demo_env ''ghost'' legacy_state = (legacy_state, None)
   \<and> files corrupt_state (binaryPath demo_env ''garden'') = Some []
   \<and> am_load demo_env [] = None
   \<and> snd (loadCommunity demo_env ''garden'' corrupt_state) = Some migrated_doc
   \<and> files (elapse demo_env 2000 (fst (loadCommunity demo_env ''garden'' corrupt_state)))
        (binaryPath demo_env ''garden'') = Some [1, 1]
   \<and> files unparsable_state (jsonPath demo_env ''garden'') = Some []
   \<and> file_json demo_env [] = None
   \<and> loadCommunity demo_env ''garden'' unparsable_state = (unparsable_state, None)"
proof -
  have 1: "loadCommunity demo_env ''garden'' garden_state = (garden_state, Some garden_doc)"
    using load_order [where S = garden_state and slug = "''garden''" and cached = garden_doc
                        and E = demo_env, THEN conjunct1] garden_resident
    by simp
  have b: "communities both_state ''garden'' = None
           \<and> canonical_record demo_env ''garden'' both_state = Some \<lparr>d_meta = None, d_shapes = Some []\<rparr>"
    by (simp add: canonical_record_def both_state_def init_state_def demo_paths demo_fields)
  have 2: "loadCommunity demo_env ''garden'' both_state
        = (both_state\<lparr>communities := [''garden'' \<mapsto> \<lparr>d_meta = None, d_shapes = Some []\<rparr>]\<rparr>,
           Some \<lparr>d_meta = None, d_shapes = Some []\<rparr>)"
    using load_order [where S = both_state and slug = "''garden''" and E = demo_env
                        and replica = "\<lparr>d_meta = None, d_shapes = Some []\<rparr>",
                      THEN conjunct2, THEN conjunct1] b
    by (simp add: both_state_def init_state_def)
  have l: "communities legacy_state ''garden'' = None
           \<and> canonical_record demo_env ''garden'' legacy_state = None
           \<and> legacy_record demo_env ''garden'' legacy_state = Some legacy_doc"
    by (simp add: canonical_record_def legacy_record_def legacy_state_def init_state_def
          demo_paths demo_fields legacy_doc_def)
  have imp: "am_change demo_env (am_init demo_env) ''Import from JSON'' (import_mutator legacy_doc)
               = migrated_doc"
    by (simp add: demo_fields import_mutator_def migrated_doc_def legacy_doc_def)
  have sv: "am_save demo_env migrated_doc = [1, 1]"
    by (simp add: demo_fields demo_save_def migrated_doc_def)
  note L = load_order [where S = legacy_state and slug = "''garden''" and E = demo_env
                        and data = legacy_doc,
                      THEN conjunct2, THEN conjunct2, THEN conjunct1, rule_format, OF l,
                      unfolded Let_def imp sv]
  have 3: "snd (loadCommunity demo_env ''garden'' legacy_state) = Some migrated_doc"
    and 4: "files (fst (loadCommunity demo_env ''garden'' legacy_state)) = files legacy_state"
    and 5: "files (elapse demo_env 2000 (fst (loadCommunity demo_env ''garden'' legacy_state)))
        (binaryPath demo_env ''garden'') = Some [1, 1]"
    using L by simp_all
  have g: "communities legacy_state ''ghost'' = None
           \<and> canonical_record demo_env ''ghost'' legacy_state = None
           \<and> legacy_record demo_env ''ghost'' legacy_state = None"
    by (simp add: canonical_record_def legacy_record_def legacy_state_def init_state_def demo_paths)
  have 6: "loadCommunity demo_env ''ghost'' legacy_state = (legacy_state, None)"
    using load_order [where S = legacy_state and slug = "''ghost''" and E = demo_env,
                      THEN conjunct2, THEN conjunct2, THEN conjunct2, THEN conjunct1] g
    by simp
  have 7: "files corrupt_state (binaryPath demo_env ''garden'') = Some []"
    and 8: "am_load demo_env [] = None"
    by (simp_all add: corrupt_state_def init_state_def demo_paths demo_fields)
  have c: "communities corrupt_state ''garden'' = None
           \<and> canonical_record demo_env ''garden'' corrupt_state = None
           \<and> legacy_record demo_env ''garden'' corrupt_state = Some legacy_doc"
    by (simp add: canonical_record_def legacy_record_def corrupt_state_def init_state_def
          demo_paths demo_fields legacy_doc_def)
  note C = load_order [where S = corrupt_state and slug = "''garden''" and E = demo_env
                        and data = legacy_doc,
                      THEN conjunct2, THEN conjunct2, THEN conjunct1, rule_format, OF c,
                      unfolded Let_def imp sv]
  have 9: "snd (loadCommunity demo_env ''garden'' corrupt_state) = Some migrated_doc"
    and 10: "files (elapse demo_env 2000 (fst (loadCommunity demo_env ''garden'' corrupt_state)))
        (binaryPath demo_env ''garden'') = Some [1, 1]"
    using C by simp_all
  have 11: "files unparsable_state (jsonPath demo_env ''garden'') = Some []"
    and 12: "file_json demo_env [] = None"
    by (simp_all add: unparsable_state_def init_state_def demo_paths demo_fields)
  have u: "communities unparsable_state ''garden'' = None
           \<and> canonical_record demo_env ''garden'' unparsable_state = None
           \<and> legacy_record demo_env ''garden'' unparsable_state = None"
    by (simp add: canonical_record_def legacy_record_def unparsable_state_def init_state_def
          demo_paths demo_fields)
  have 13: "loadCommunity demo_env ''garden'' unparsable_state = (unparsable_state, None)"
    using load_order [where S = unparsable_state and slug = "''garden''" and E = demo_env,
                      THEN conjunct2, THEN conjunct2, THEN conjunct2, THEN conjunct1] u
    by simp
  show ?thesis by (intro conjI) (fact 1 2 3 4 5 6 7 8 9 10 11 12 13)+
qed

text \<open>
  The claim as stated says that the migrated document is re-persisted at once, that a
  binary record that exists is deserialized, and that a JSON record that exists is
  converted. With a legacy record only, the load returns the migrated replica and the
  binary file does not exist when it returns; nothing has been written. With a binary
  file that does not load, the load returns the replica imported from the JSON file. With
  a JSON file that does not parse, it returns null.
\<close>

theorem load_order_counterexample:
  "communities legacy_state ''garden'' = None
   \<and> files legacy_state (jsonPath demo_env ''garden'') = Some [123, 125]
   \<and> snd (loadCommunity demo_env ''garden'' legacy_state) = Some migrated_doc
   \<and> files (fst (loadCommunity demo_env ''garden'' legacy_state)) (binaryPath demo_env ''garden'') = None
   \<and> writes (fst (loadCommunity demo_env ''garden'' legacy_state)) = []
   \<and> communities corrupt_state ''garden'' = None
   \<and> files corrupt_state (binaryPath demo_env ''garden'') = Some []
   \<and> snd (loadCommunity demo_env ''garden'' corrupt_state) = Some migrated_doc
   \<and> communities unparsable_state ''garden'' = None
   \<and> files unparsable_state (jsonPath demo_env ''garden'') = Some []
   \<and> loadCommunity demo_env ''garden'' unparsable_state = (unparsable_state, None)"
  by (simp add: demo_paths legacy_state_def corrupt_state_def unparsable_state_def
        init_state_def loadCommunity_def Let_def
        saveCommunity_def setTimeout_def jsonToAutomerge_def import_mutator_def
        migrated_doc_def legacy_doc_def demo_fields)

text \<open>
  C2. A document is cached and the library merges the delta, with the sender's cursor,
  into \<open>newDoc\<close>. Then \<^verbatim>\<open>receiveSyncMessage\<close> returns normally, the cache holds \<open>newDoc\<close>, no
  file is written and no entry of another community changes. When the merge gave no
  patches, the broadcast mapping is empty, the timers are exactly as before (no save is
  scheduled) and the entry of every peer but the sender is unchanged. When it gave
  patches, the save is scheduled, the cursor of every other peer is advanced by
  \<^verbatim>\<open>generateSyncMessage\<close> and its message, when there is one, is in the broadcast mapping,
  which never holds the sender.
\<close>

theorem no_patches_no_fan_out:
  assumes "communities S slug = Some doc"
    and "am_receiveSyncMessage E doc
           (case peer_entry S slug peerId of None \<Rightarrow> am_initSyncState E | Some st \<Rightarrow> syncState st)
           delta = Some (newDoc, newCursor, patch)"
  shows "\<exists>S' r. receiveSyncMessage E slug peerId delta S = (S', Inr r)
     \<and> communities S' = (communities S)(slug \<mapsto> newDoc)
     \<and> files S' = files S \<and> writes S' = writes S
     \<and> (\<forall>slug' q. slug' \<noteq> slug \<longrightarrow> peer_entry S' slug' q = peer_entry S slug' q)
     \<and> (\<not> has_patches patch \<longrightarrow>
           broadcastToPeers r = []
           \<and> timeouts S' = timeouts S \<and> saveTimers S' = saveTimers S \<and> nextTimer S' = nextTimer S
           \<and> (\<forall>q. q \<noteq> peerId \<longrightarrow> peer_entry S' slug q = peer_entry S slug q))
     \<and> (has_patches patch \<longrightarrow>
           saveTimers S' slug = Some (nextTimer S)
           \<and> \<lparr>t_id = nextTimer S, t_due = clock S + 2000, t_slug = slug\<rparr> \<in> set (timeouts S')
           \<and> (\<forall>q st. q \<noteq> peerId \<and> peer_entry S slug q = Some st \<longrightarrow>
                 peer_entry S' slug q
                   = Some (st\<lparr>syncState := fst (am_generateSyncMessage E newDoc (syncState st))\<rparr>)
                 \<and> (\<forall>m. snd (am_generateSyncMessage E newDoc (syncState st)) = Some m
                        \<longrightarrow> (q, m) \<in> set (broadcastToPeers r)))
           \<and> (\<forall>q m. (q, m) \<in> set (broadcastToPeers r) \<longrightarrow> q \<noteq> peerId))"
proof -
  define S5 where "S5 = merged E slug peerId newDoc newCursor (has_patches patch) S"
  define resp where "resp = snd (am_generateSyncMessage E newDoc newCursor)"
  note unfold = receive_resident [OF assms, folded S5_def resp_def, unfolded Let_def]
  have other_slug: "\<forall>slug' q. slug' \<noteq> slug \<longrightarrow> peer_entry S5 slug' q = peer_entry S slug' q"
    by (simp add: S5_def peer_entry_merged_other)
  have other_peer: "\<forall>q. q \<noteq> peerId \<longrightarrow> peer_entry S5 slug q = peer_entry S slug q"
    by (simp add: S5_def peer_entry_merged_other)
  show ?thesis
  proof (cases "has_patches patch")
    case False
    then have r: "receiveSyncMessage E slug peerId delta S
                    = (S5, Inr \<lparr>response = resp, broadcastToPeers = []\<rparr>)"
      using unfold by (simp split: option.splits)
    have "timeouts S5 = timeouts S" "saveTimers S5 = saveTimers S" "nextTimer S5 = nextTimer S"
      using False by (simp_all add: S5_def merged_no_patches_timers)
    moreover have "communities S5 = (communities S)(slug \<mapsto> newDoc)" "files S5 = files S"
      "writes S5 = writes S"
      by (simp_all add: S5_def merged_frame)
    ultimately show ?thesis using r False other_slug other_peer by simp
  next
    case True
    obtain ps where ps: "peerSyncStates S5 slug = Some ps"
      using merged_collection [of E slug peerId newDoc newCursor "has_patches patch" S]
      unfolding S5_def by blast
    define S' where "S' = S5\<lparr>peerSyncStates := (peerSyncStates S5)(slug \<mapsto>
                             fst (broadcast_loop E newDoc peerId ps))\<rparr>"
    define bc where "bc = snd (broadcast_loop E newDoc peerId ps)"
    have r: "receiveSyncMessage E slug peerId delta S
               = (S', Inr \<lparr>response = resp, broadcastToPeers = bc\<rparr>)"
      using unfold True ps by (simp add: S'_def bc_def)
    have frame: "communities S' = (communities S)(slug \<mapsto> newDoc)" "files S' = files S"
      "writes S' = writes S"
      by (simp_all add: S'_def S5_def merged_frame)
    have slug': "\<forall>slug' q. slug' \<noteq> slug \<longrightarrow> peer_entry S' slug' q = peer_entry S slug' q"
      using other_slug by (simp add: S'_def peer_entry_def)
    have timers: "saveTimers S' slug = Some (nextTimer S)"
      "\<lparr>t_id = nextTimer S, t_due = clock S + 2000, t_slug = slug\<rparr> \<in> set (timeouts S')"
      using True by (simp_all add: S'_def S5_def merged_patches_timers)
    have others: "peer_entry S' slug q
                   = Some (st\<lparr>syncState := fst (am_generateSyncMessage E newDoc (syncState st))\<rparr>)
                 \<and> (\<forall>m. snd (am_generateSyncMessage E newDoc (syncState st)) = Some m
                        \<longrightarrow> (q, m) \<in> set bc)"
      if "q \<noteq> peerId" "peer_entry S slug q = Some st" for q st
    proof -
      from that other_peer ps have m: "map_of ps q = Some st" by (simp add: peer_entry_def)
      then have "peer_entry S' slug q
                   = Some (st\<lparr>syncState := fst (am_generateSyncMessage E newDoc (syncState st))\<rparr>)"
        using that(1) by (simp add: S'_def peer_entry_def map_of_broadcast_loop)
      moreover have "\<forall>m. snd (am_generateSyncMessage E newDoc (syncState st)) = Some m
                        \<longrightarrow> (q, m) \<in> set bc"
        unfolding bc_def using broadcast_loop_delivers [OF that(1) m, where E = E and newDoc = newDoc] by blast
      ultimately show ?thesis by simp
    qed
    have no_sender: "\<forall>q m. (q, m) \<in> set bc \<longrightarrow> q \<noteq> peerId"
      unfolding bc_def using broadcast_loop_skips_sender by fast
    show ?thesis
      using r True frame slug' timers others no_sender by simp
  qed
qed

theorem no_patches_no_fan_out_witness:
  "communities (run demo_env fresh_peer init_state) ''garden'' = Some garden_doc
   \<and> am_receiveSyncMessage demo_env garden_doc 1 [0] = Some (garden_doc, 2, None)
   \<and> \<not> has_patches (None :: string list option)
   \<and> (\<exists>S' r. receiveSyncMessage demo_env ''garden'' ''peer-1'' [0]
                  (run demo_env fresh_peer init_state) = (S', Inr r)
          \<and> broadcastToPeers r = []
          \<and> timeouts S' = timeouts (run demo_env fresh_peer init_state)
          \<and> peer_entry S' ''garden'' ''peer-2'' = Some \<lparr>syncState = 0, lastActivity = 0\<rparr>)
   \<and> am_receiveSyncMessage demo_env garden_doc 1 [1]
        = Some (update_mutator ''s1'' demo_shape garden_doc, 2, Some [''put''])
   \<and> has_patches (Some [''put''])
   \<and> (\<exists>S' r. receiveSyncMessage demo_env ''garden'' ''peer-1'' [1]
                  (run demo_env fresh_peer init_state) = (S', Inr r)
          \<and> (''peer-2'', [1, 1]) \<in> set (broadcastToPeers r)
          \<and> peer_entry S' ''garden'' ''peer-2'' = Some \<lparr>syncState = 1, lastActivity = 0\<rparr>)"
proof -
  let ?S = "run demo_env fresh_peer (init_state :: (draft, nat) state)"
  let ?newDoc = "update_mutator ''s1'' demo_shape garden_doc"
  have res: "communities ?S ''garden'' = Some garden_doc" by (rule fresh_peer_state)
  have p1: "peer_entry ?S ''garden'' ''peer-1'' = Some \<lparr>syncState = 1, lastActivity = 0\<rparr>"
    and p2: "peer_entry ?S ''garden'' ''peer-2'' = Some \<lparr>syncState = 0, lastActivity = 0\<rparr>"
    by (simp_all add: peer_entry_def fresh_peer_state)
  have m0: "am_receiveSyncMessage demo_env garden_doc 1 [0] = Some (garden_doc, 2, None)"
    and m1: "am_receiveSyncMessage demo_env garden_doc 1 [1] = Some (?newDoc, 2, Some [''put''])"
    by (simp_all add: demo_env_def)
  have h0: "\<not> has_patches (None :: string list option)" and h1: "has_patches (Some [''put''])"
    by (simp_all add: has_patches_def)
  have ne: "''peer-2'' \<noteq> ''peer-1''" by simp
  have gen: "am_generateSyncMessage demo_env ?newDoc 0 = (1, Some [1, 1])"
    by (simp add: demo_env_def demo_save_def update_mutator_def garden_doc_def)
  from no_patches_no_fan_out [of ?S "''garden''" garden_doc demo_env "''peer-1''" "[0]"
         garden_doc 2 None] res p1 m0
  obtain S' r where a: "receiveSyncMessage demo_env ''garden'' ''peer-1'' [0] ?S = (S', Inr r)"
    and b: "\<not> has_patches (None :: string list option) \<longrightarrow>
           broadcastToPeers r = []
           \<and> timeouts S' = timeouts ?S \<and> saveTimers S' = saveTimers ?S \<and> nextTimer S' = nextTimer ?S
           \<and> (\<forall>q. q \<noteq> ''peer-1'' \<longrightarrow> peer_entry S' ''garden'' q = peer_entry ?S ''garden'' q)"
    by auto
  from b h0 ne p2 have c: "broadcastToPeers r = [] \<and> timeouts S' = timeouts ?S
      \<and> peer_entry S' ''garden'' ''peer-2'' = Some \<lparr>syncState = 0, lastActivity = 0\<rparr>"
    by simp
  from no_patches_no_fan_out [of ?S "''garden''" garden_doc demo_env "''peer-1''" "[1]"
         ?newDoc 2 "Some [''put'']"] res p1 m1
  obtain T' r' where a': "receiveSyncMessage demo_env ''garden'' ''peer-1'' [1] ?S = (T', Inr r')"
    and b': "has_patches (Some [''put'']) \<longrightarrow>
           saveTimers T' ''garden'' = Some (nextTimer ?S)
           \<and> \<lparr>t_id = nextTimer ?S, t_due = clock ?S + 2000, t_slug = ''garden''\<rparr> \<in> set (timeouts T')
           \<and> (\<forall>q st. q \<noteq> ''peer-1'' \<and> peer_entry ?S ''garden'' q = Some st \<longrightarrow>
                 peer_entry T' ''garden'' q
                   = Some (st\<lparr>syncState := fst (am_generateSyncMessage demo_env ?newDoc (syncState st))\<rparr>)
                 \<and> (\<forall>m. snd (am_generateSyncMessage demo_env ?newDoc (syncState st)) = Some m
                        \<longrightarrow> (q, m) \<in> set (broadcastToPeers r')))
           \<and> (\<forall>q m. (q, m) \<in> set (broadcastToPeers r') \<longrightarrow> q \<noteq> ''peer-1'')"
    by auto
  from b' h1 have "\<forall>q st. q \<noteq> ''peer-1'' \<and> peer_entry ?S ''garden'' q = Some st \<longrightarrow>
                 peer_entry T' ''garden'' q
                   = Some (st\<lparr>syncState := fst (am_generateSyncMessage demo_env ?newDoc (syncState st))\<rparr>)
                 \<and> (\<forall>m. snd (am_generateSyncMessage demo_env ?newDoc (syncState st)) = Some m
                        \<longrightarrow> (q, m) \<in> set (broadcastToPeers r'))"
    by simp
  from this [rule_format, of "''peer-2''" "\<lparr>syncState = 0, lastActivity = 0\<rparr>"] ne p2 gen
  have c': "(''peer-2'', [1, 1]) \<in> set (broadcastToPeers r')
      \<and> peer_entry T' ''garden'' ''peer-2'' = Some \<lparr>syncState = 1, lastActivity = 0\<rparr>"
    by simp
  from res m0 h0 a c m1 h1 a' c' show ?thesis by blast
qed

text \<open>
  C3, amended. In every state that a run reaches from the start of the process, each
  community has at most one pending timeout. \<^verbatim>\<open>saveCommunity\<close> for a community that is not
  cached returns at once and arms nothing, and a mutation of such a community changes
  nothing. For every community, cached or not, it leaves the pending timeouts of every
  other community as they were. For a cached community it removes the pending timeout of
  the community and leaves exactly one, new, due 2000 ms from now. A mutation followed by
  further mutations whose delays sum to less than 2000 ms writes nothing while the burst
  lasts; once 2000 ms or more pass after the last one, exactly one write of the
  community's file has been added, and its content is the serialization of the replica
  after the last mutation. The content is read from the cache when the timer fires: when
  a sync message that reports no patch is merged before the timer fires, the timer stays
  as it was, and the one write holds the replica that this merge stored, not the replica
  of the time the timer was armed.
\<close>

theorem debounce_coalesces:
  "(let S = run E evs (boot fs)
    in length (pending slug S) \<le> 1
       \<and> (communities S slug = None \<longrightarrow>
            saveCommunity E slug S = S \<and> (\<forall>m. mutate E slug m S = S))
       \<and> (\<forall>slug'. slug' \<noteq> slug \<longrightarrow> pending slug' (saveCommunity E slug S) = pending slug' S)
       \<and> (\<forall>doc. communities S slug = Some doc \<longrightarrow>
            pending slug (saveCommunity E slug S)
              = [\<lparr>t_id = nextTimer S, t_due = clock S + 2000, t_slug = slug\<rparr>]
            \<and> (\<forall>t \<in> set (pending slug S). t \<notin> set (timeouts (saveCommunity E slug S)))
            \<and> (\<forall>m (ms :: (nat \<times> mutation) list) (quiet :: nat).
                 sum_list (map fst ms) < 2000 \<and> 2000 \<le> quiet \<longrightarrow>
                 (let B = burst E slug ms (mutate E slug m S);
                      final = fold (\<lambda>x. mutate_doc E (snd x)) ms (mutate_doc E m doc);
                      Q = elapse E quiet B
                  in communities B slug = Some final
                     \<and> slug_writes E slug B = slug_writes E slug S
                     \<and> slug_writes E slug Q
                         = slug_writes E slug S @ [(binaryPath E slug, am_save E final)]
                     \<and> files Q (binaryPath E slug) = Some (am_save E final)
                     \<and> pending slug Q = []
                     \<and> (\<forall>(d1 :: nat) (d2 :: nat) peerId delta newDoc cursor patch.
                          d1 < 2000 \<and> 2000 \<le> d1 + d2
                          \<and> am_receiveSyncMessage E final
                               (case peer_entry B slug peerId of
                                  None \<Rightarrow> am_initSyncState E | Some st \<Rightarrow> syncState st)
                               delta = Some (newDoc, cursor, patch)
                          \<and> \<not> has_patches patch \<longrightarrow>
                          (let R = fst (receiveSyncMessage E slug peerId delta (elapse E d1 B));
                               Q' = elapse E d2 R
                           in pending slug R = pending slug B
                              \<and> communities R slug = Some newDoc
                              \<and> slug_writes E slug R = slug_writes E slug S
                              \<and> slug_writes E slug Q'
                                  = slug_writes E slug S @ [(binaryPath E slug, am_save E newDoc)]
                              \<and> files Q' (binaryPath E slug) = Some (am_save E newDoc)))))))"
proof -
  define S where "S = run E evs (boot fs :: ('a, 'b) state)"
  have ok: "timers_ok S" unfolding S_def by (rule run_timers_ok) (rule boot_ok)
  have sok: "stored_ok S" unfolding S_def by (rule run_stored_ok) (rule boot_stored_ok)
  have one: "length (pending slug S) \<le> 1" using ok by (rule pending_at_most_one)
  have noop: "communities S slug = None \<longrightarrow>
            saveCommunity E slug S = S \<and> (\<forall>m. mutate E slug m S = S)"
    using not_cached_noop by blast
  have others: "\<forall>slug'. slug' \<noteq> slug \<longrightarrow> pending slug' (saveCommunity E slug S) = pending slug' S"
    using saveCommunity_spares_others [OF ok sok] by blast
  have rest: "pending slug (saveCommunity E slug S)
              = [\<lparr>t_id = nextTimer S, t_due = clock S + 2000, t_slug = slug\<rparr>]
            \<and> (\<forall>t \<in> set (pending slug S). t \<notin> set (timeouts (saveCommunity E slug S)))
            \<and> (\<forall>m (ms :: (nat \<times> mutation) list) (quiet :: nat).
                 sum_list (map fst ms) < 2000 \<and> 2000 \<le> quiet \<longrightarrow>
                 (let B = burst E slug ms (mutate E slug m S);
                      final = fold (\<lambda>x. mutate_doc E (snd x)) ms (mutate_doc E m doc);
                      Q = elapse E quiet B
                  in communities B slug = Some final
                     \<and> slug_writes E slug B = slug_writes E slug S
                     \<and> slug_writes E slug Q
                         = slug_writes E slug S @ [(binaryPath E slug, am_save E final)]
                     \<and> files Q (binaryPath E slug) = Some (am_save E final)
                     \<and> pending slug Q = []
                     \<and> (\<forall>(d1 :: nat) (d2 :: nat) peerId delta newDoc cursor patch.
                          d1 < 2000 \<and> 2000 \<le> d1 + d2
                          \<and> am_receiveSyncMessage E final
                               (case peer_entry B slug peerId of
                                  None \<Rightarrow> am_initSyncState E | Some st \<Rightarrow> syncState st)
                               delta = Some (newDoc, cursor, patch)
                          \<and> \<not> has_patches patch \<longrightarrow>
                          (let R = fst (receiveSyncMessage E slug peerId delta (elapse E d1 B));
                               Q' = elapse E d2 R
                           in pending slug R = pending slug B
                              \<and> communities R slug = Some newDoc
                              \<and> slug_writes E slug R = slug_writes E slug S
                              \<and> slug_writes E slug Q'
                                  = slug_writes E slug S @ [(binaryPath E slug, am_save E newDoc)]
                              \<and> files Q' (binaryPath E slug) = Some (am_save E newDoc)))))"
    if res: "communities S slug = Some doc" for doc
  proof (intro conjI allI impI ballI)
    show "pending slug (saveCommunity E slug S)
              = [\<lparr>t_id = nextTimer S, t_due = clock S + 2000, t_slug = slug\<rparr>]"
      using ok res by (rule pending_saveCommunity)
  next
    fix t assume "t \<in> set (pending slug S)"
    with ok res show "t \<notin> set (timeouts (saveCommunity E slug S))"
      by (rule saveCommunity_cancels)
  next
    fix m and ms :: "(nat \<times> mutation) list" and quiet :: nat
    assume h: "sum_list (map fst ms) < 2000 \<and> 2000 \<le> quiet"
    let ?M = "mutate E slug m S"
    let ?B = "burst E slug ms ?M"
    let ?final = "fold (\<lambda>x. mutate_doc E (snd x)) ms (mutate_doc E m doc)"
    have okM: "timers_ok ?M" and resM: "communities ?M slug = Some (mutate_doc E m doc)"
      and wM: "writes ?M = writes S"
      using mutate_resident [OF ok res, of E m] by simp_all
    have aM: "armed slug ?M" using ok res by (rule armed_after_mutate)
    have gaps: "\<forall>x \<in> set ms. fst x < 2000" using h sum_list_bound by blast
    from burst_coalesces [OF okM resM aM gaps, of E]
    have resB: "communities ?B slug = Some ?final" and aB: "armed slug ?B"
      and wB: "slug_writes E slug ?B = slug_writes E slug S"
      using wM by (simp_all add: slug_writes_def)
    from h have q: "2000 \<le> quiet" by simp
    have sync: "pending slug (fst (receiveSyncMessage E slug peerId delta (elapse E d1 ?B)))
                  = pending slug ?B
              \<and> communities (fst (receiveSyncMessage E slug peerId delta (elapse E d1 ?B))) slug
                  = Some newDoc
              \<and> slug_writes E slug (fst (receiveSyncMessage E slug peerId delta (elapse E d1 ?B)))
                  = slug_writes E slug S
              \<and> slug_writes E slug
                   (elapse E d2 (fst (receiveSyncMessage E slug peerId delta (elapse E d1 ?B))))
                  = slug_writes E slug S @ [(binaryPath E slug, am_save E newDoc)]
              \<and> files (elapse E d2 (fst (receiveSyncMessage E slug peerId delta (elapse E d1 ?B))))
                   (binaryPath E slug) = Some (am_save E newDoc)"
      if g: "d1 < 2000 \<and> 2000 \<le> d1 + d2
             \<and> am_receiveSyncMessage E ?final
                  (case peer_entry ?B slug peerId of
                     None \<Rightarrow> am_initSyncState E | Some st \<Rightarrow> syncState st)
                  delta = Some (newDoc, cursor, patch)
             \<and> \<not> has_patches patch"
      for d1 d2 :: nat and peerId delta newDoc cursor patch
    proof -
      from g have g1: "d1 < 2000" and g2: "2000 \<le> d1 + d2"
        and g3: "am_receiveSyncMessage E ?final
                  (case peer_entry ?B slug peerId of
                     None \<Rightarrow> am_initSyncState E | Some st \<Rightarrow> syncState st)
                  delta = Some (newDoc, cursor, patch)"
        and g4: "\<not> has_patches patch"
        by simp_all
      show ?thesis
        using fires_current_replica [OF resB aB g1 g2 g3 g4] wB by simp
    qed
    show "let B = ?B; final = ?final; Q = elapse E quiet B
          in communities B slug = Some final
             \<and> slug_writes E slug B = slug_writes E slug S
             \<and> slug_writes E slug Q
                 = slug_writes E slug S @ [(binaryPath E slug, am_save E final)]
             \<and> files Q (binaryPath E slug) = Some (am_save E final)
             \<and> pending slug Q = []
             \<and> (\<forall>(d1 :: nat) (d2 :: nat) peerId delta newDoc cursor patch.
                  d1 < 2000 \<and> 2000 \<le> d1 + d2
                  \<and> am_receiveSyncMessage E final
                       (case peer_entry B slug peerId of
                          None \<Rightarrow> am_initSyncState E | Some st \<Rightarrow> syncState st)
                       delta = Some (newDoc, cursor, patch)
                  \<and> \<not> has_patches patch \<longrightarrow>
                  (let R = fst (receiveSyncMessage E slug peerId delta (elapse E d1 B));
                       Q' = elapse E d2 R
                   in pending slug R = pending slug B
                      \<and> communities R slug = Some newDoc
                      \<and> slug_writes E slug R = slug_writes E slug S
                      \<and> slug_writes E slug Q'
                          = slug_writes E slug S @ [(binaryPath E slug, am_save E newDoc)]
                      \<and> files Q' (binaryPath E slug) = Some (am_save E newDoc)))"
      unfolding Let_def
    proof (intro conjI allI impI)
      show "communities ?B slug = Some ?final" by (rule resB)
      show "slug_writes E slug ?B = slug_writes E slug S" by (rule wB)
      show "slug_writes E slug (elapse E quiet ?B)
              = slug_writes E slug S @ [(binaryPath E slug, am_save E ?final)]"
        using armed_fires(1) [OF resB aB q, of E] wB by simp
      show "files (elapse E quiet ?B) (binaryPath E slug) = Some (am_save E ?final)"
        by (rule armed_fires(3) [OF resB aB q])
      show "pending slug (elapse E quiet ?B) = []"
        by (rule armed_fires(2) [OF resB aB q])
    next
      fix d1 d2 :: nat and peerId delta newDoc cursor patch
      assume g: "d1 < 2000 \<and> 2000 \<le> d1 + d2
             \<and> am_receiveSyncMessage E ?final
                  (case peer_entry ?B slug peerId of
                     None \<Rightarrow> am_initSyncState E | Some st \<Rightarrow> syncState st)
                  delta = Some (newDoc, cursor, patch)
             \<and> \<not> has_patches patch"
      note s = sync [OF g]
      show "pending slug (fst (receiveSyncMessage E slug peerId delta (elapse E d1 ?B)))
                  = pending slug ?B"
        by (rule s [THEN conjunct1])
      show "communities (fst (receiveSyncMessage E slug peerId delta (elapse E d1 ?B))) slug
                  = Some newDoc"
        by (rule s [THEN conjunct2, THEN conjunct1])
      show "slug_writes E slug (fst (receiveSyncMessage E slug peerId delta (elapse E d1 ?B)))
                  = slug_writes E slug S"
        by (rule s [THEN conjunct2, THEN conjunct2, THEN conjunct1])
      show "slug_writes E slug
                   (elapse E d2 (fst (receiveSyncMessage E slug peerId delta (elapse E d1 ?B))))
                  = slug_writes E slug S @ [(binaryPath E slug, am_save E newDoc)]"
        by (rule s [THEN conjunct2, THEN conjunct2, THEN conjunct2, THEN conjunct1])
      show "files (elapse E d2 (fst (receiveSyncMessage E slug peerId delta (elapse E d1 ?B))))
                   (binaryPath E slug) = Some (am_save E newDoc)"
        by (rule s [THEN conjunct2, THEN conjunct2, THEN conjunct2, THEN conjunct2])
    qed
  qed
  from one noop others rest show ?thesis unfolding Let_def S_def by blast
qed

theorem debounce_coalesces_witness:
  "communities garden_state ''garden'' = Some garden_doc
   \<and> sum_list (map fst demo_burst) < 2000
   \<and> (2000 :: nat) \<le> 2000
   \<and> slug_writes demo_env ''garden''
        (elapse demo_env 2000
           (burst demo_env ''garden'' demo_burst
              (mutate demo_env ''garden'' (MUpdate ''s1'' demo_shape) garden_state)))
        = [(''./data/communities/garden.automerge'', [1, 1])]
   \<and> pending ''garden''
        (elapse demo_env 2000
           (burst demo_env ''garden'' demo_burst
              (mutate demo_env ''garden'' (MUpdate ''s1'' demo_shape) garden_state))) = []
   \<and> am_receiveSyncMessage demo_env burst_doc 0 [2] = Some (synced_doc, 1, None)
   \<and> \<not> has_patches (None :: string list option)
   \<and> slug_writes demo_env ''garden''
        (elapse demo_env 1500
           (fst (receiveSyncMessage demo_env ''garden'' ''peer-1'' [2]
              (elapse demo_env 500
                 (burst demo_env ''garden'' demo_burst
                    (mutate demo_env ''garden'' (MUpdate ''s1'' demo_shape) garden_state))))))
        = [(''./data/communities/garden.automerge'', [1, 2])]
   \<and> communities garden_state ''ghost'' = None
   \<and> saveCommunity demo_env ''ghost'' garden_state = garden_state
   \<and> pending ''garden'' (saveCommunity demo_env ''pond'' (run demo_env two_gardens init_state))
        = pending ''garden'' (run demo_env two_gardens init_state)"
proof -
  note T = debounce_coalesces [where slug = "''garden''" and E = demo_env and fs = Map.empty
               and evs = "[CreateCommunity ''Garden'' ''garden'']",
             unfolded boot_empty, folded garden_state_def, unfolded Let_def]
  note G = debounce_coalesces [where slug = "''ghost''" and E = demo_env and fs = Map.empty
               and evs = "[CreateCommunity ''Garden'' ''garden'']",
             unfolded boot_empty, folded garden_state_def, unfolded Let_def]
  note P = debounce_coalesces [where slug = "''pond''" and E = demo_env and fs = Map.empty
               and evs = two_gardens, unfolded boot_empty Let_def]
  let ?B = "burst demo_env ''garden'' demo_burst
              (mutate demo_env ''garden'' (MUpdate ''s1'' demo_shape) garden_state)"
  have res: "communities garden_state ''garden'' = Some garden_doc" by (rule garden_resident)
  have span: "sum_list (map fst demo_burst) < 2000 \<and> (2000 :: nat) \<le> 2000"
    by (simp add: demo_burst_def)
  have fin: "fold (\<lambda>x. mutate_doc demo_env (snd x)) demo_burst
               (mutate_doc demo_env (MUpdate ''s1'' demo_shape) garden_doc) = burst_doc"
    by (simp add: demo_burst_def demo_fields update_mutator_def delete_mutator_def
          garden_doc_def burst_doc_def)
  note B = T [THEN conjunct2, THEN conjunct2, THEN conjunct2, rule_format, OF res,
              THEN conjunct2, THEN conjunct2, rule_format, OF span,
              where m = "MUpdate ''s1'' demo_shape", unfolded fin]
  have sv: "am_save demo_env burst_doc = [1, 1]" "am_save demo_env synced_doc = [1, 2]"
    by (simp_all add: demo_fields demo_save_def burst_doc_def synced_doc_def garden_doc_def)
  have w0: "slug_writes demo_env ''garden'' garden_state = []"
    by (simp add: slug_writes_def garden_state_def run_def createCommunity_def Let_def
          saveCommunity_frame init_state_def)
  have path: "binaryPath demo_env ''garden'' = ''./data/communities/garden.automerge''"
    by (rule demo_paths)
  have a: "slug_writes demo_env ''garden'' (elapse demo_env 2000 ?B)
             = [(''./data/communities/garden.automerge'', [1, 1])]"
    using B [THEN conjunct2, THEN conjunct2, THEN conjunct1] by (simp add: sv w0 path)
  have b: "pending ''garden'' (elapse demo_env 2000 ?B) = []"
    by (rule B [THEN conjunct2, THEN conjunct2, THEN conjunct2, THEN conjunct2, THEN conjunct1])
  have "peer_entry ?B ''garden'' ''peer-1'' = peer_entry garden_state ''garden'' ''peer-1''"
    by (simp only: peer_entry_burst peer_entry_mutate)
  also have "\<dots> = None"
    by (simp add: peer_entry_def garden_state_def run_def createCommunity_def Let_def
          saveCommunity_frame init_state_def)
  finally have nopeer: "peer_entry ?B ''garden'' ''peer-1'' = None" .
  have m: "am_receiveSyncMessage demo_env burst_doc 0 [2] = Some (synced_doc, 1, None)"
    by (simp add: demo_env_def update_mutator_def burst_doc_def synced_doc_def garden_doc_def)
  have h: "\<not> has_patches (None :: string list option)" by (simp add: has_patches_def)
  have pre: "(500 :: nat) < 2000 \<and> (2000 :: nat) \<le> 500 + 1500
             \<and> am_receiveSyncMessage demo_env burst_doc
                  (case peer_entry ?B ''garden'' ''peer-1'' of
                     None \<Rightarrow> am_initSyncState demo_env | Some st \<Rightarrow> syncState st)
                  [2] = Some (synced_doc, 1, None)
             \<and> \<not> has_patches (None :: string list option)"
    unfolding nopeer using m h by (simp add: demo_fields)
  have c: "slug_writes demo_env ''garden''
        (elapse demo_env 1500
           (fst (receiveSyncMessage demo_env ''garden'' ''peer-1'' [2] (elapse demo_env 500 ?B))))
        = [(''./data/communities/garden.automerge'', [1, 2])]"
    using B [THEN conjunct2, THEN conjunct2, THEN conjunct2, THEN conjunct2, THEN conjunct2,
             rule_format, OF pre, THEN conjunct2, THEN conjunct2, THEN conjunct2, THEN conjunct1]
    by (simp add: sv w0 path)
  have g: "communities garden_state ''ghost'' = None"
    by (simp add: garden_state_def run_def createCommunity_def Let_def saveCommunity_frame
          init_state_def)
  have d: "saveCommunity demo_env ''ghost'' garden_state = garden_state"
    by (rule G [THEN conjunct2, THEN conjunct1, rule_format, OF g, THEN conjunct1])
  have ne: "''garden'' \<noteq> ''pond''" by simp
  have e: "pending ''garden'' (saveCommunity demo_env ''pond'' (run demo_env two_gardens init_state))
        = pending ''garden'' (run demo_env two_gardens init_state)"
    by (rule P [THEN conjunct2, THEN conjunct2, THEN conjunct1, rule_format, OF ne])
  show ?thesis by (intro conjI) (fact res span [THEN conjunct1] span [THEN conjunct2] a b m h c g d e)+
qed

text \<open>
  The claim as stated speaks of every call of the debounced save, for every document id.
  For an id that is not cached the call arms no timer, and nothing is written once the
  delay has passed.
\<close>

theorem save_needs_cached_counterexample:
  "communities (init_state :: (draft, nat) state) ''ghost'' = None
   \<and> saveCommunity demo_env ''ghost'' (init_state :: (draft, nat) state) = init_state
   \<and> timeouts (saveCommunity demo_env ''ghost'' (init_state :: (draft, nat) state)) = []
   \<and> writes (elapse demo_env 2000
        (mutate demo_env ''ghost'' (MUpdate ''s1'' demo_shape) (init_state :: (draft, nat) state))) = []"
  by (simp add: saveCommunity_def updateShape_def elapse_def init_state_def)

text \<open>
  C4. In every state \<open>S\<close> that a run reaches from the start of the process,
  \<^verbatim>\<open>removePeerSyncState\<close> deletes the entry of the peer and no other entry of any
  community; when no other peer of the community had an entry the collection of the
  community is gone; every collection still in the table is non-empty. A later
  \<^verbatim>\<open>getPeerSyncState\<close> for a peer of the community without an entry makes one whose sync
  state is \<^verbatim>\<open>Automerge.initSyncState()\<close>, so the message generated for the removed peer
  when it comes back is the one for the initial sync state. Closing a connection removes
  the sync state of its peer in this way.
\<close>

theorem disconnect_cleanup:
  "(let S = run E evs (boot fs);
        S' = removePeerSyncState slug peerId S
    in peer_entry S' slug peerId = None
       \<and> (\<forall>slug' q. (slug', q) \<noteq> (slug, peerId) \<longrightarrow> peer_entry S' slug' q = peer_entry S slug' q)
       \<and> ((\<forall>q. q \<noteq> peerId \<longrightarrow> peer_entry S slug q = None) \<longrightarrow> peerSyncStates S' slug = None)
       \<and> (\<forall>slug' ps. peerSyncStates S' slug' = Some ps \<longrightarrow> ps \<noteq> [])
       \<and> (\<forall>q. peer_entry S' slug q = None \<longrightarrow>
              snd (getPeerSyncState E slug q S')
                = \<lparr>syncState = am_initSyncState E, lastActivity = clock S'\<rparr>
              \<and> peer_entry (fst (getPeerSyncState E slug q S')) slug q
                = Some \<lparr>syncState = am_initSyncState E, lastActivity = clock S'\<rparr>)
       \<and> (\<forall>doc. communities S' slug = Some doc \<longrightarrow>
              snd (generateSyncMessageForPeer E slug peerId S')
                = snd (am_generateSyncMessage E doc (am_initSyncState E))))
   \<and> store (ws_close w V) = removePeerSyncState (communitySlug w) (ws_peerId w) (store V)"
proof -
  define S where "S = run E evs (boot fs :: ('a, 'b) state)"
  define S' where "S' = removePeerSyncState slug peerId S"
  have "peers_ok S" unfolding S_def by (rule run_peers_ok) (rule boot_ok)
  then have ok: "peers_ok S'" unfolding S'_def by (rule peers_ok_removePeerSyncState)
  have gone: "peer_entry S' slug peerId = None"
    unfolding S'_def by (rule peer_entry_remove_same)
  have 1: "\<forall>slug' q. (slug', q) \<noteq> (slug, peerId) \<longrightarrow> peer_entry S' slug' q = peer_entry S slug' q"
    unfolding S'_def using peer_entry_remove_other by blast
  have 2: "(\<forall>q. q \<noteq> peerId \<longrightarrow> peer_entry S slug q = None) \<longrightarrow> peerSyncStates S' slug = None"
    unfolding S'_def using remove_last_entry by blast
  have 3: "\<forall>slug' ps. peerSyncStates S' slug' = Some ps \<longrightarrow> ps \<noteq> []"
    using ok by (simp add: peers_ok_def)
  have 4: "\<forall>q. peer_entry S' slug q = None \<longrightarrow>
              snd (getPeerSyncState E slug q S')
                = \<lparr>syncState = am_initSyncState E, lastActivity = clock S'\<rparr>
              \<and> peer_entry (fst (getPeerSyncState E slug q S')) slug q
                = Some \<lparr>syncState = am_initSyncState E, lastActivity = clock S'\<rparr>"
    using get_fresh by blast
  have 5: "\<forall>doc. communities S' slug = Some doc \<longrightarrow>
              snd (generateSyncMessageForPeer E slug peerId S')
                = snd (am_generateSyncMessage E doc (am_initSyncState E))"
    using get_fresh(1) [OF gone, of E]
    by (auto simp: generateSyncMessageForPeer_def Let_def split: prod.splits)
  from gone 1 2 3 4 5 ws_close_store [of w V] show ?thesis
    unfolding Let_def S_def S'_def by blast
qed

theorem disconnect_cleanup_witness:
  "peer_entry (removePeerSyncState ''garden'' ''peer-1'' (run demo_env two_peers init_state))
      ''garden'' ''peer-1'' = None
   \<and> (''garden'', ''peer-2'') \<noteq> (''garden'', ''peer-1'')
   \<and> peer_entry (removePeerSyncState ''garden'' ''peer-1'' (run demo_env two_peers init_state))
        ''garden'' ''peer-2'' = Some \<lparr>syncState = 1, lastActivity = 0\<rparr>
   \<and> peerSyncStates (removePeerSyncState ''garden'' ''peer-1'' (run demo_env two_peers init_state))
        ''garden'' = Some [(''peer-2'', \<lparr>syncState = 1, lastActivity = 0\<rparr>)]
   \<and> syncState (snd (getPeerSyncState demo_env ''garden'' ''peer-1''
        (removePeerSyncState ''garden'' ''peer-1'' (run demo_env two_peers init_state)))) = 0
   \<and> getCommunityPeers ''garden'' (run demo_env one_peer init_state) = [''peer-1'']
   \<and> peerSyncStates (removePeerSyncState ''garden'' ''peer-1'' (run demo_env one_peer init_state))
        ''garden'' = None"
proof -
  let ?S = "run demo_env two_peers (init_state :: (draft, nat) state)"
  let ?S' = "removePeerSyncState ''garden'' ''peer-1'' ?S"
  let ?T = "run demo_env one_peer (init_state :: (draft, nat) state)"
  note two = disconnect_cleanup [where E = demo_env and evs = two_peers and fs = Map.empty
                and slug = "''garden''" and peerId = "''peer-1''", unfolded Let_def boot_empty,
              THEN conjunct1]
  note one = disconnect_cleanup [where E = demo_env and evs = one_peer and fs = Map.empty
                and slug = "''garden''" and peerId = "''peer-1''", unfolded Let_def boot_empty,
              THEN conjunct1]
  have gone: "peer_entry ?S' ''garden'' ''peer-1'' = None"
    by (rule two [THEN conjunct1])
  have ne: "(''garden'', ''peer-2'') \<noteq> (''garden'', ''peer-1'')" by simp
  have "peer_entry ?S' ''garden'' ''peer-2'' = peer_entry ?S ''garden'' ''peer-2''"
    by (rule two [THEN conjunct2, THEN conjunct1, rule_format, OF ne])
  then have other: "peer_entry ?S' ''garden'' ''peer-2'' = Some \<lparr>syncState = 1, lastActivity = 0\<rparr>"
    by (simp add: peer_entry_def two_peers_table)
  have table: "peerSyncStates ?S' ''garden'' = Some [(''peer-2'', \<lparr>syncState = 1, lastActivity = 0\<rparr>)]"
    by (simp add: removePeerSyncState_def two_peers_table)
  have "snd (getPeerSyncState demo_env ''garden'' ''peer-1'' ?S')
          = \<lparr>syncState = am_initSyncState demo_env, lastActivity = clock ?S'\<rparr>"
    by (rule two [THEN conjunct2, THEN conjunct2, THEN conjunct2, THEN conjunct2, THEN conjunct1,
                  rule_format, OF gone, THEN conjunct1])
  then have fresh: "syncState (snd (getPeerSyncState demo_env ''garden'' ''peer-1'' ?S')) = 0"
    by (simp add: demo_env_def)
  have last: "\<forall>q. q \<noteq> ''peer-1'' \<longrightarrow> peer_entry ?T ''garden'' q = None"
    by (simp add: peer_entry_def one_peer_table)
  have empty: "peerSyncStates (removePeerSyncState ''garden'' ''peer-1'' ?T) ''garden'' = None"
    by (rule one [THEN conjunct2, THEN conjunct2, THEN conjunct1, rule_format, OF last [rule_format]])
  have only: "getCommunityPeers ''garden'' ?T = [''peer-1'']"
    by (simp add: getCommunityPeers_def one_peer_table)
  show ?thesis
    by (intro conjI) (fact gone ne other table fresh only empty)+
qed

text \<open>
  C5, amended. For a request to create a community whose name is not empty and whose
  slug matches \<^verbatim>\<open>^[a-z0-9-]+$\<close>: when the community exists already the answer is 409 and
  the state is unchanged; otherwise the answer is 200 with \<^verbatim>\<open>{url, slug, name}\<close>, the cache
  holds for the slug a document made by one change that sets the meta data (name, slug,
  time of creation) and an empty mapping of shapes, the write is scheduled, and no file
  has been written yet.
\<close>

theorem create_valid_request:
  assumes "req_method req = ''POST''" "req_pathname req = ''/api/communities''"
    and "req_json req = Some \<lparr>body_name = Some name, body_slug = Some slug\<rparr>"
    and "name \<noteq> []" "slug_valid slug"
  shows "(communityExists E slug S \<longrightarrow>
            fst (handleAPI E req S) = S \<and> status (snd (handleAPI E req S)) = 409)
       \<and> (\<not> communityExists E slug S \<longrightarrow>
            (let S' = fst (handleAPI E req S); r = snd (handleAPI E req S);
                 created = create_mutator name slug (toISOString E (clock S))
             in status r = 200
                \<and> body r = Some (JObj [(''url'', JStr (''https://'' @ slug @ ''.rspace.online'')),
                                       (''slug'', JStr slug), (''name'', JStr name)])
                \<and> communities S'
                     = (communities S)(slug \<mapsto> am_change E (am_init E) ''Create community'' created)
                \<and> created d
                     = d\<lparr>d_meta := Some \<lparr>meta_name = name, meta_slug = slug,
                                          meta_createdAt = toISOString E (clock S)\<rparr>,
                          d_shapes := Some []\<rparr>
                \<and> saveTimers S' slug = Some (nextTimer S)
                \<and> \<lparr>t_id = nextTimer S, t_due = clock S + 2000, t_slug = slug\<rparr> \<in> set (timeouts S')
                \<and> files S' = files S \<and> writes S' = writes S))"
proof -
  have ne: "slug \<noteq> []" using assms(5) by (simp add: slug_valid_def)
  note post = handleAPI_post [OF assms(1-3), of E S, simplified]
  show ?thesis
  proof (intro conjI impI)
    assume "communityExists E slug S"
    with post assms(4,5) ne
    show "fst (handleAPI E req S) = S" "status (snd (handleAPI E req S)) = 409"
      by (simp_all add: error_response_def json_response_def)
  next
    assume n: "\<not> communityExists E slug S"
    let ?doc = "am_change E (am_init E) ''Create community''
                  (create_mutator name slug (toISOString E (clock S)))"
    let ?S1 = "S\<lparr>communities := (communities S)(slug \<mapsto> ?doc)\<rparr>"
    have h: "handleAPI E req S = (saveCommunity E slug ?S1,
               json_response 200
                   (JObj [(''url'', JStr (''https://'' @ slug @ ''.rspace.online'')),
                          (''slug'', JStr slug), (''name'', JStr name)]))"
      using post assms(4,5) ne n by (simp add: createCommunity_def Let_def)
    have res: "communities ?S1 slug = Some ?doc" by simp
    show "let S' = fst (handleAPI E req S); r = snd (handleAPI E req S);
                 created = create_mutator name slug (toISOString E (clock S))
             in status r = 200
                \<and> body r = Some (JObj [(''url'', JStr (''https://'' @ slug @ ''.rspace.online'')),
                                       (''slug'', JStr slug), (''name'', JStr name)])
                \<and> communities S'
                     = (communities S)(slug \<mapsto> am_change E (am_init E) ''Create community'' created)
                \<and> created d
                     = d\<lparr>d_meta := Some \<lparr>meta_name = name, meta_slug = slug,
                                          meta_createdAt = toISOString E (clock S)\<rparr>,
                          d_shapes := Some []\<rparr>
                \<and> saveTimers S' slug = Some (nextTimer S)
                \<and> \<lparr>t_id = nextTimer S, t_due = clock S + 2000, t_slug = slug\<rparr> \<in> set (timeouts S')
                \<and> files S' = files S \<and> writes S' = writes S"
      using saveCommunity_resident(1,2) [OF res, of E]
      by (simp add: h Let_def json_response_def saveCommunity_frame create_mutator_def)
  qed
qed

theorem create_valid_request_witness:
  "slug_valid ''garden''
   \<and> \<not> communityExists demo_env ''garden'' (init_state :: (draft, nat) state)
   \<and> status (snd (handleAPI demo_env (create_request (Some ''Garden'') (Some ''garden''))
                    (init_state :: (draft, nat) state))) = 200
   \<and> communities (fst (handleAPI demo_env (create_request (Some ''Garden'') (Some ''garden''))
                    (init_state :: (draft, nat) state))) ''garden'' = Some garden_doc
   \<and> communityExists demo_env ''garden'' garden_state
   \<and> fst (handleAPI demo_env (create_request (Some ''Other'') (Some ''garden'')) garden_state)
        = garden_state
   \<and> status (snd (handleAPI demo_env (create_request (Some ''Other'') (Some ''garden'')) garden_state))
        = 409"
proof -
  have v: "slug_valid ''garden''" by (rule slug_valid_example)
  have n: "\<not> communityExists demo_env ''garden'' (init_state :: (draft, nat) state)"
    by (simp add: communityExists_def init_state_def)
  have e: "communityExists demo_env ''garden'' garden_state"
    by (simp add: communityExists_def garden_resident)
  have doc: "am_change demo_env (am_init demo_env) ''Create community''
               (create_mutator ''Garden'' ''garden''
                  (toISOString demo_env (clock (init_state :: (draft, nat) state)))) = garden_doc"
    by (simp add: demo_fields create_mutator_def garden_doc_def init_state_def)
  note A = create_valid_request
             [where req = "create_request (Some ''Garden'') (Some ''garden'')"
                and name = "''Garden''" and slug = "''garden''" and E = demo_env
                and S = "init_state :: (draft, nat) state", unfolded Let_def doc,
              THEN conjunct2, rule_format, OF _ _ _ _ v n]
  note B = create_valid_request
             [where req = "create_request (Some ''Other'') (Some ''garden'')"
                and name = "''Other''" and slug = "''garden''" and E = demo_env
                and S = garden_state, THEN conjunct1, rule_format, OF _ _ _ _ v e]
  have a: "status (snd (handleAPI demo_env (create_request (Some ''Garden'') (Some ''garden''))
                    (init_state :: (draft, nat) state))) = 200"
    and a': "communities (fst (handleAPI demo_env (create_request (Some ''Garden'') (Some ''garden''))
                    (init_state :: (draft, nat) state))) ''garden'' = Some garden_doc"
    using A by (simp_all add: create_request_def init_state_def)
  have b: "fst (handleAPI demo_env (create_request (Some ''Other'') (Some ''garden'')) garden_state)
        = garden_state"
    and b': "status (snd (handleAPI demo_env (create_request (Some ''Other'') (Some ''garden'')) garden_state))
        = 409"
    using B by (simp_all add: create_request_def)
  show ?thesis by (intro conjI) (fact v n a a' e b b')+
qed

text \<open>
  The claim as stated speaks of every name and slug. The validation comes first: a slug
  that does not match is answered 400 and nothing is created although the community does
  not exist, and an empty name is answered 400, not 409, although the community exists.
\<close>

theorem create_validates_first_counterexample:
  "\<not> communityExists demo_env ''My Slug!'' (init_state :: (draft, nat) state)
   \<and> handleAPI demo_env (create_request (Some ''Garden'') (Some ''My Slug!''))
        (init_state :: (draft, nat) state)
        = (init_state,
           error_response 400 ''Slug must contain only lowercase letters, numbers, and hyphens'')
   \<and> communityExists demo_env ''garden'' garden_state
   \<and> handleAPI demo_env (create_request (Some '''') (Some ''garden'')) garden_state
        = (garden_state, error_response 400 ''Name and slug are required'')"
  by (simp add: handleAPI_def create_request_def slug_valid_example communityExists_def
        garden_resident init_state_def)

text \<open>
  C6, amended. A request to create a community whose body decodes and lacks the name or
  the slug (absent or empty), or whose slug does not match \<^verbatim>\<open>^[a-z0-9-]+$\<close>, is answered
  400; these are the only creation requests answered 400. A request to create a community
  whose body does not decode is answered 500. In both cases the state is left as it was:
  nothing is created in the cache or among the files, and \<^verbatim>\<open>communityExists\<close> answers for
  every slug what it answered before.
\<close>

theorem invalid_create_rejected:
  assumes "req_method req = ''POST''" "req_pathname req = ''/api/communities''"
  shows "(\<forall>b. req_json req = Some b
             \<and> (body_name b = None \<or> body_name b = Some [] \<or> body_slug b = None
                 \<or> body_slug b = Some []
                 \<or> (\<exists>slug. body_slug b = Some slug \<and> \<not> slug_valid slug)) \<longrightarrow>
             fst (handleAPI E req S) = S
             \<and> status (snd (handleAPI E req S)) = 400
             \<and> (\<forall>slug. communityExists E slug (fst (handleAPI E req S)) = communityExists E slug S))
       \<and> (req_json req = None \<longrightarrow>
             handleAPI E req S = (S, error_response 500 ''Failed to create community'')
             \<and> status (snd (handleAPI E req S)) = 500
             \<and> (\<forall>slug. communityExists E slug (fst (handleAPI E req S)) = communityExists E slug S))
       \<and> (status (snd (handleAPI E req S)) = 400)
            = (\<exists>b. req_json req = Some b
                 \<and> (body_name b = None \<or> body_name b = Some [] \<or> body_slug b = None
                     \<or> body_slug b = Some []
                     \<or> (\<exists>slug. body_slug b = Some slug \<and> \<not> slug_valid slug)))"
proof -
  have A: "fst (handleAPI E req S) = S
             \<and> status (snd (handleAPI E req S)) = 400
             \<and> (\<forall>slug. communityExists E slug (fst (handleAPI E req S)) = communityExists E slug S)"
    if j: "req_json req = Some b"
      and inv: "body_name b = None \<or> body_name b = Some [] \<or> body_slug b = None
                 \<or> body_slug b = Some []
                 \<or> (\<exists>slug. body_slug b = Some slug \<and> \<not> slug_valid slug)" for b
  proof -
    have "handleAPI E req S = (S, error_response 400 ''Name and slug are required'')
        \<or> handleAPI E req S = (S, error_response 400
                     ''Slug must contain only lowercase letters, numbers, and hyphens'')"
      using inv unfolding handleAPI_post [OF assms j]
      by (auto split: option.splits)
    then show ?thesis by auto
  qed
  have B: "handleAPI E req S = (S, error_response 500 ''Failed to create community'')
             \<and> status (snd (handleAPI E req S)) = 500
             \<and> (\<forall>slug. communityExists E slug (fst (handleAPI E req S)) = communityExists E slug S)"
    if "req_json req = None"
    by (simp add: handleAPI_undecodable [OF assms that])
  have C: "(status (snd (handleAPI E req S)) = 400)
            = (\<exists>b. req_json req = Some b
                 \<and> (body_name b = None \<or> body_name b = Some [] \<or> body_slug b = None
                     \<or> body_slug b = Some []
                     \<or> (\<exists>slug. body_slug b = Some slug \<and> \<not> slug_valid slug)))"
  proof (cases "req_json req")
    case None
    then show ?thesis using B by simp
  next
    case (Some b)
    show ?thesis
    proof (cases "body_name b = None \<or> body_name b = Some [] \<or> body_slug b = None
                 \<or> body_slug b = Some []
                 \<or> (\<exists>slug. body_slug b = Some slug \<and> \<not> slug_valid slug)")
      case True
      with A [OF Some] Some show ?thesis by simp
    next
      case False
      then obtain name slug where ns: "body_name b = Some name" "body_slug b = Some slug"
        "name \<noteq> []" "slug \<noteq> []" "slug_valid slug"
        by (cases "body_name b"; cases "body_slug b") auto
      have "status (snd (handleAPI E req S)) \<noteq> 400"
        unfolding handleAPI_post [OF assms Some] using ns by simp
      with False Some show ?thesis by simp
    qed
  qed
  from A B C show ?thesis by blast
qed

theorem invalid_create_rejected_witness:
  "\<not> slug_valid ''My Slug!''
   \<and> fst (handleAPI demo_env (create_request (Some ''My Space'') (Some ''My Slug!'')) garden_state)
        = garden_state
   \<and> status (snd (handleAPI demo_env (create_request (Some ''My Space'') (Some ''My Slug!'')) garden_state))
        = 400
   \<and> \<not> communityExists demo_env ''My Slug!''
          (fst (handleAPI demo_env (create_request (Some ''My Space'') (Some ''My Slug!'')) garden_state))
   \<and> status (snd (handleAPI demo_env (create_request None (Some ''garden'')) garden_state)) = 400
   \<and> handleAPI demo_env undecodable_request garden_state
        = (garden_state, error_response 500 ''Failed to create community'')
   \<and> status (snd (handleAPI demo_env (create_request (Some ''Pond'') (Some ''pond'')) garden_state))
        \<noteq> 400"
proof -
  have v: "\<not> slug_valid ''My Slug!''" by (rule slug_valid_example)
  have e: "\<not> communityExists demo_env ''My Slug!'' garden_state"
    by (simp add: communityExists_def garden_state_def run_def createCommunity_def Let_def
          saveCommunity_frame init_state_def)
  have m: "req_method (create_request n s) = ''POST''"
    "req_pathname (create_request n s) = ''/api/communities''"
    "req_json (create_request n s) = Some \<lparr>body_name = n, body_slug = s\<rparr>" for n s
    by (simp_all add: create_request_def)
  have u: "req_method undecodable_request = ''POST''"
    "req_pathname undecodable_request = ''/api/communities''"
    "req_json undecodable_request = None"
    by (simp_all add: undecodable_request_def)
  note A = invalid_create_rejected
             [where req = "create_request (Some ''My Space'') (Some ''My Slug!'')"
                and E = demo_env and S = garden_state, OF m(1,2), THEN conjunct1, rule_format,
              where b = "\<lparr>body_name = Some ''My Space'', body_slug = Some ''My Slug!''\<rparr>"]
  have 1: "fst (handleAPI demo_env (create_request (Some ''My Space'') (Some ''My Slug!'')) garden_state)
        = garden_state"
    and 2: "status (snd (handleAPI demo_env (create_request (Some ''My Space'') (Some ''My Slug!'')) garden_state))
        = 400"
    using A v by (simp_all add: m)
  have 3: "\<not> communityExists demo_env ''My Slug!''
          (fst (handleAPI demo_env (create_request (Some ''My Space'') (Some ''My Slug!'')) garden_state))"
    using 1 e by simp
  note B = invalid_create_rejected
             [where req = "create_request None (Some ''garden'')"
                and E = demo_env and S = garden_state, OF m(1,2), THEN conjunct1, rule_format,
              where b = "\<lparr>body_name = None, body_slug = Some ''garden''\<rparr>"]
  have 4: "status (snd (handleAPI demo_env (create_request None (Some ''garden'')) garden_state)) = 400"
    using B by (simp add: m)
  have 5: "handleAPI demo_env undecodable_request garden_state
        = (garden_state, error_response 500 ''Failed to create community'')"
    using invalid_create_rejected
             [where req = undecodable_request and E = demo_env and S = garden_state,
              OF u(1,2), THEN conjunct2, THEN conjunct1] u(3)
    by simp
  have p: "slug_valid ''pond''" by (simp add: slug_valid_def slug_char_def)
  have 6: "status (snd (handleAPI demo_env (create_request (Some ''Pond'') (Some ''pond'')) garden_state))
        \<noteq> 400"
    using invalid_create_rejected
             [where req = "create_request (Some ''Pond'') (Some ''pond'')"
                and E = demo_env and S = garden_state, OF m(1,2), THEN conjunct2, THEN conjunct2] p
    by (simp add: m)
  show ?thesis by (intro conjI) (fact v 1 2 3 4 5 6)+
qed

text \<open>
  The claim as stated speaks of every creation request whose name or slug is missing.
  When the body does not decode there is no name and no slug, and the answer is 500, not
  400.
\<close>

theorem undecodable_body_counterexample:
  "req_method undecodable_request = ''POST''
   \<and> req_pathname undecodable_request = ''/api/communities''
   \<and> req_json undecodable_request = None
   \<and> handleAPI demo_env undecodable_request garden_state
        = (garden_state, error_response 500 ''Failed to create community'')
   \<and> status (snd (handleAPI demo_env undecodable_request garden_state)) = 500"
  by (simp add: handleAPI_def undecodable_request_def error_response_def json_response_def)

text \<open>
  C7. A message that parses to an object of type ``ping'' with a timestamp makes one
  send, on the connection it came from, of \<^verbatim>\<open>{type: "pong", timestamp}\<close> with that
  timestamp, and nothing else. A message of type ``presence'' is sent, as
  \<^verbatim>\<open>{type: "presence", peerId, ...msg}\<close>, to the clients registered for the community
  of the connection, other than the sender, whose socket is open, in the order of the
  registry, and to no other; with distinct property names every property of the message
  is in what is sent. In both cases the store (cache, sync states, timers, files) and the
  registry are unchanged.
\<close>

theorem ping_and_presence_bypass_store:
  assumes "JSON_parse E raw = Some msg"
  shows "(\<forall>ts. get_prop msg ''type'' = Some (JStr ''ping'') \<and> get_prop msg ''timestamp'' = Some ts \<longrightarrow>
            ws_message E w raw V
              = V\<lparr>sent := sent V @ [(w, JSON_stringify E
                                          (JObj [(''type'', JStr ''pong''), (''timestamp'', ts)]))]\<rparr>)
       \<and> (get_prop msg ''type'' = Some (JStr ''presence'') \<longrightarrow>
            ws_message E w raw V
              = V\<lparr>sent := sent V
                     @ map (\<lambda>(p, c). (c, presence_payload E (ws_peerId w) msg))
                         (filter (\<lambda>(p, c). p \<noteq> ws_peerId w \<and> readyState V c = OPEN)
                            (clients_of (communitySlug w) V))\<rparr>)
       \<and> (get_prop msg ''type'' = Some (JStr ''ping'') \<or> get_prop msg ''type'' = Some (JStr ''presence'')
            \<longrightarrow> store (ws_message E w raw V) = store V
                \<and> communityClients (ws_message E w raw V) = communityClients V)
       \<and> (\<forall>fs k v. msg = JObj fs \<and> distinct (map fst fs) \<and> map_of fs k = Some v \<longrightarrow>
            map_of (spread [(''type'', JStr ''presence''), (''peerId'', JStr (ws_peerId w))] msg) k
              = Some v)"
proof (intro conjI allI impI)
  fix ts
  assume "get_prop msg ''type'' = Some (JStr ''ping'') \<and> get_prop msg ''timestamp'' = Some ts"
  then show "ws_message E w raw V
              = V\<lparr>sent := sent V @ [(w, JSON_stringify E
                                          (JObj [(''type'', JStr ''pong''), (''timestamp'', ts)]))]\<rparr>"
    using ws_message_ping [OF assms, of w V] by (simp add: obj_def send_def)
next
  assume "get_prop msg ''type'' = Some (JStr ''presence'')"
  then show "ws_message E w raw V
              = V\<lparr>sent := sent V
                     @ map (\<lambda>(p, c). (c, presence_payload E (ws_peerId w) msg))
                         (filter (\<lambda>(p, c). p \<noteq> ws_peerId w \<and> readyState V c = OPEN)
                            (clients_of (communitySlug w) V))\<rparr>"
    using ws_message_presence [OF assms, of w V] by (simp add: broadcast_others_sent)
next
  assume t: "get_prop msg ''type'' = Some (JStr ''ping'') \<or> get_prop msg ''type'' = Some (JStr ''presence'')"
  then show "store (ws_message E w raw V) = store V"
    using ws_message_ping [OF assms, of w V] ws_message_presence [OF assms, of w V]
    by (auto simp: send_def broadcast_others_sent)
  from t show "communityClients (ws_message E w raw V) = communityClients V"
    using ws_message_ping [OF assms, of w V] ws_message_presence [OF assms, of w V]
    by (auto simp: send_def broadcast_others_sent)
next
  fix fs k v
  assume "msg = JObj fs \<and> distinct (map fst fs) \<and> map_of fs k = Some v"
  then show "map_of (spread [(''type'', JStr ''presence''), (''peerId'', JStr (ws_peerId w))] msg) k
              = Some v"
    by (simp add: spread_keeps_fields)
qed

theorem ping_and_presence_bypass_store_witness:
  "JSON_parse demo_env ''ping'' = Some ping_msg
   \<and> get_prop ping_msg ''type'' = Some (JStr ''ping'')
   \<and> get_prop ping_msg ''timestamp'' = Some (JNum 5)
   \<and> ws_message demo_env (demo_ws 1 ''peer-1'') ''ping'' demo_server
        = demo_server\<lparr>sent := [(demo_ws 1 ''peer-1'',
             JSON_stringify demo_env (JObj [(''type'', JStr ''pong''), (''timestamp'', JNum 5)]))]\<rparr>
   \<and> JSON_parse demo_env ''presence'' = Some presence_msg
   \<and> get_prop presence_msg ''type'' = Some (JStr ''presence'')
   \<and> ws_message demo_env (demo_ws 1 ''peer-1'') ''presence'' demo_server
        = demo_server\<lparr>sent := [(demo_ws 2 ''peer-2'',
             JSON_stringify demo_env
               (JObj [(''type'', JStr ''presence''), (''peerId'', JStr ''peer-1''),
                      (''cursor'', JNum 7)]))]\<rparr>
   \<and> store (ws_message demo_env (demo_ws 1 ''peer-1'') ''presence'' demo_server) = garden_state"
proof -
  have p1: "JSON_parse demo_env ''ping'' = Some ping_msg"
    and p2: "JSON_parse demo_env ''presence'' = Some presence_msg"
    by (simp_all add: demo_env_def ping_msg_def presence_msg_def)
  have t1: "get_prop ping_msg ''type'' = Some (JStr ''ping'')"
    and t2: "get_prop ping_msg ''timestamp'' = Some (JNum 5)"
    and t3: "get_prop presence_msg ''type'' = Some (JStr ''presence'')"
    by (simp_all add: ping_msg_def presence_msg_def)
  note A = ping_and_presence_bypass_store [OF p1, where w = "demo_ws 1 ''peer-1''" and V = demo_server]
  note B = ping_and_presence_bypass_store [OF p2, where w = "demo_ws 1 ''peer-1''" and V = demo_server]
  have a: "ws_message demo_env (demo_ws 1 ''peer-1'') ''ping'' demo_server
        = demo_server\<lparr>sent := [(demo_ws 1 ''peer-1'',
             JSON_stringify demo_env (JObj [(''type'', JStr ''pong''), (''timestamp'', JNum 5)]))]\<rparr>"
    using A [THEN conjunct1, rule_format, of "JNum 5"] t1 t2 by (simp add: demo_server_def)
  have b: "ws_message demo_env (demo_ws 1 ''peer-1'') ''presence'' demo_server
        = demo_server\<lparr>sent := [(demo_ws 2 ''peer-2'',
             JSON_stringify demo_env
               (JObj [(''type'', JStr ''presence''), (''peerId'', JStr ''peer-1''),
                      (''cursor'', JNum 7)]))]\<rparr>"
    using B [THEN conjunct2, THEN conjunct1, rule_format, OF t3]
    by (simp add: demo_server_def clients_of_def demo_ws_def presence_payload_def spread_def
          presence_msg_def)
  have c: "store (ws_message demo_env (demo_ws 1 ''peer-1'') ''presence'' demo_server) = garden_state"
    using B [THEN conjunct2, THEN conjunct2, THEN conjunct1, rule_format] t3
    by (simp add: demo_server_def)
  show ?thesis by (intro conjI) (fact p1 t1 t2 a p2 t3 b c)+
qed

text \<open>
  C8. \<^verbatim>\<open>updateShape\<close> and \<^verbatim>\<open>deleteShape\<close> on a document that is not in the cache return
  the state as it was: cache, sync-state table, files, timers. On a cached document the
  cache afterwards holds the result of \<^verbatim>\<open>Automerge.change\<close> on the cached replica with the
  mutator of the operation, and a write is scheduled: the timer stored for the slug is a new
  one, pending, due 2000 ms from now. After the update mutator the shape is the given one;
  after the delete mutator the shape is absent.
\<close>

theorem mutation_requires_resident:
  "(communities S slug = None \<longrightarrow>
      updateShape E slug shapeId data S = S \<and> deleteShape E slug shapeId S = S)
   \<and> (communities S slug = Some doc \<longrightarrow>
        (let U = updateShape E slug shapeId data S;
             D = deleteShape E slug shapeId S
         in communities U
              = (communities S)(slug \<mapsto>
                   am_change E doc (''Update shape '' @ shapeId) (update_mutator shapeId data))
            \<and> communities D
              = (communities S)(slug \<mapsto>
                   am_change E doc (''Delete shape '' @ shapeId) (delete_mutator shapeId))
            \<and> saveTimers U slug = Some (nextTimer S)
            \<and> saveTimers D slug = Some (nextTimer S)
            \<and> \<lparr>t_id = nextTimer S, t_due = clock S + 2000, t_slug = slug\<rparr> \<in> set (timeouts U)
            \<and> \<lparr>t_id = nextTimer S, t_due = clock S + 2000, t_slug = slug\<rparr> \<in> set (timeouts D)))
   \<and> (\<exists>shapes. d_shapes (update_mutator shapeId data d) = Some shapes
          \<and> map_of shapes shapeId = Some data)
   \<and> (\<forall>shapes. d_shapes (delete_mutator shapeId d) = Some shapes
          \<longrightarrow> map_of shapes shapeId = None)"
proof (intro conjI impI)
  assume "communities S slug = None"
  then show "updateShape E slug shapeId data S = S" "deleteShape E slug shapeId S = S"
    by (simp_all add: updateShape_def deleteShape_def)
next
  assume r: "communities S slug = Some doc"
  show "let U = updateShape E slug shapeId data S; D = deleteShape E slug shapeId S
        in communities U
              = (communities S)(slug \<mapsto>
                   am_change E doc (''Update shape '' @ shapeId) (update_mutator shapeId data))
            \<and> communities D
              = (communities S)(slug \<mapsto>
                   am_change E doc (''Delete shape '' @ shapeId) (delete_mutator shapeId))
            \<and> saveTimers U slug = Some (nextTimer S)
            \<and> saveTimers D slug = Some (nextTimer S)
            \<and> \<lparr>t_id = nextTimer S, t_due = clock S + 2000, t_slug = slug\<rparr> \<in> set (timeouts U)
            \<and> \<lparr>t_id = nextTimer S, t_due = clock S + 2000, t_slug = slug\<rparr> \<in> set (timeouts D)"
    using r
    by (simp add: updateShape_def deleteShape_def Let_def saveCommunity_def setTimeout_def
          clearTimeout_def split: option.splits)
next
  show "\<exists>shapes. d_shapes (update_mutator shapeId data d) = Some shapes
          \<and> map_of shapes shapeId = Some data"
    by (rule update_mutator_sets)
next
  show "\<forall>shapes. d_shapes (delete_mutator shapeId d) = Some shapes
          \<longrightarrow> map_of shapes shapeId = None"
    using delete_mutator_removes by blast
qed

theorem mutation_requires_resident_witness:
  "communities (init_state :: (draft, nat) state) ''ghost'' = None
   \<and> updateShape demo_env ''ghost'' ''s1'' demo_shape (init_state :: (draft, nat) state) = init_state
   \<and> deleteShape demo_env ''ghost'' ''s1'' (init_state :: (draft, nat) state) = init_state
   \<and> communities garden_state ''garden'' = Some garden_doc
   \<and> communities (updateShape demo_env ''garden'' ''s1'' demo_shape garden_state) ''garden''
        = Some (garden_doc\<lparr>d_shapes := Some [(''s1'', demo_shape)]\<rparr>)
   \<and> saveTimers (updateShape demo_env ''garden'' ''s1'' demo_shape garden_state) ''garden''
        = Some (nextTimer garden_state)
   \<and> communities (deleteShape demo_env ''garden'' ''s1''
          (updateShape demo_env ''garden'' ''s1'' demo_shape garden_state)) ''garden''
        = Some garden_doc"
  using mutation_requires_resident
          [of "init_state :: (draft, nat) state" "''ghost''" demo_env "''s1''" demo_shape]
        mutation_requires_resident
          [of garden_state "''garden''" demo_env "''s1''" demo_shape garden_doc]
        mutation_requires_resident
          [of "updateShape demo_env ''garden'' ''s1'' demo_shape garden_state" "''garden''"
              demo_env "''s1''" demo_shape "garden_doc\<lparr>d_shapes := Some [(''s1'', demo_shape)]\<rparr>"]
        garden_resident updated_garden
  by (simp add: init_state_def Let_def demo_fields update_mutator_def delete_mutator_def
        garden_doc_def)

text \<open>
  C9. For a document that is not in the cache, \<^verbatim>\<open>receiveSyncMessage\<close> returns a null
  response and an empty broadcast mapping, \<^verbatim>\<open>generateSyncMessageForPeer\<close> returns null,
  and both leave the whole state as it was: no entry is made in the sync-state table.
  Neither throws: the result of the first is on the right of the sum.
\<close>

theorem not_resident_sync_is_noop:
  "communities S slug = None \<Longrightarrow>
     receiveSyncMessage E slug peerId delta S
       = (S, Inr \<lparr>response = None, broadcastToPeers = []\<rparr>)
     \<and> generateSyncMessageForPeer E slug peerId S = (S, None)"
  by (simp add: receiveSyncMessage_def generateSyncMessageForPeer_def)

theorem not_resident_sync_is_noop_witness:
  "communities (init_state :: (draft, nat) state) ''ghost'' = None
   \<and> receiveSyncMessage demo_env ''ghost'' ''peer-1'' [1] (init_state :: (draft, nat) state)
       = (init_state, Inr \<lparr>response = None, broadcastToPeers = []\<rparr>)
   \<and> generateSyncMessageForPeer demo_env ''ghost'' ''peer-1'' (init_state :: (draft, nat) state)
       = (init_state, None)"
  using not_resident_sync_is_noop
          [of "init_state :: (draft, nat) state" "''ghost''" demo_env "''peer-1''" "[1]"]
  by (simp add: init_state_def)

text \<open>
  C10. In every state that a run reaches from the start of the process,
  \<^verbatim>\<open>removePeerSyncState\<close> for a peer without an entry (the community may have other
  peers, or no collection at all) returns the state as it was; and removing twice gives
  the state that removing once gives.
\<close>

theorem remove_is_idempotent:
  "(let S = run E evs (boot fs)
    in (peer_entry S slug peerId = None \<longrightarrow> removePeerSyncState slug peerId S = S)
       \<and> removePeerSyncState slug peerId (removePeerSyncState slug peerId S)
           = removePeerSyncState slug peerId S)"
proof -
  have "peers_ok (run E evs (boot fs :: ('a, 'b) state))" by (rule run_peers_ok) (rule boot_ok)
  then show ?thesis
    unfolding Let_def using remove_absent remove_twice by blast
qed

theorem remove_is_idempotent_witness:
  "peer_entry (run demo_env two_peers init_state) ''garden'' ''peer-3'' = None
   \<and> removePeerSyncState ''garden'' ''peer-3'' (run demo_env two_peers init_state)
        = run demo_env two_peers init_state
   \<and> peer_entry (run demo_env two_peers init_state) ''ghost'' ''peer-1'' = None
   \<and> removePeerSyncState ''ghost'' ''peer-1'' (run demo_env two_peers init_state)
        = run demo_env two_peers init_state"
  using remove_is_idempotent [where E = demo_env and evs = two_peers and fs = Map.empty
          and slug = "''garden''" and peerId = "''peer-3''"]
        remove_is_idempotent [where E = demo_env and evs = two_peers and fs = Map.empty
          and slug = "''ghost''" and peerId = "''peer-1''"]
  by (simp add: Let_def peer_entry_def two_peers_table boot_empty)

end
